theory Spec2Isabelle
  imports Main "HOL-Library.AList"
begin

section \<open>Python values\<close>

text \<open>
  The script \<^verbatim>\<open>get_wiki_content.py\<close> handles only values that come out of
  \<^verbatim>\<open>json.load\<close>/\<^verbatim>\<open>json.loads\<close>: \<^verbatim>\<open>None\<close>, booleans, integers, floats, strings,
  lists and dictionaries with string keys.

  \<^item> Text is a \<open>string\<close> holding the bytes of the Python \<^verbatim>\<open>str\<close> in generalised
    UTF-8: every code point as in UTF-8, a surrogate code point (which \<^verbatim>\<open>json.load\<close>
    produces from an escape such as \<^verbatim>\<open>"\ud800"\<close>) as the three bytes that the UTF-8
    scheme gives it. A text without surrogates is its UTF-8 encoding, which is what the
    report file, opened with \<^verbatim>\<open>encoding='utf-8'\<close>, receives; a text with a surrogate
    cannot be encoded (\<open>encodable\<close> below).
  \<^item> A float is represented by its \<^verbatim>\<open>repr\<close>, which determines it; the floats equal to
    \<^verbatim>\<open>0\<close> are \<^verbatim>\<open>0.0\<close> and \<^verbatim>\<open>-0.0\<close>.
  \<^item> A dictionary is an association list in insertion order, read with \<open>map_of\<close>.
\<close>

datatype json =
    JNull
  | JBool bool
  | JInt int
  | JFloat string
  | JStr string
  | JArr "json list"
  | JObj "(string \<times> json) list"

text \<open>
  The exceptions that can travel through the script. \<open>TypeError\<close> carries the operation
  that raised it (\<open>''subscript''\<close>, \<open>''len''\<close>, \<open>''iter''\<close>, \<open>''write''\<close>), \<open>KeyError\<close> the
  missing key. \<open>SubprocessError\<close> stands for whatever \<^verbatim>\<open>subprocess.run\<close> raises when the
  transport cannot be started or its output cannot be decoded (\<^verbatim>\<open>FileNotFoundError\<close>,
  \<^verbatim>\<open>UnicodeDecodeError\<close>, ...), and carries the name of that exception.
  \<open>UnicodeEncodeError\<close> is raised by \<^verbatim>\<open>print\<close> and by \<^verbatim>\<open>f.write\<close> on a text that cannot be
  encoded.
\<close>

datatype error =
    KeyError string
  | TypeError string
  | AttributeError
  | JSONDecodeError
  | SubprocessError string
  | UnicodeEncodeError

subsection \<open>Text helpers\<close>

definition NL :: string where
  "NL = [CHR 0x0A]"

definition digit_char :: "nat \<Rightarrow> char" where
  "digit_char d = ''0123456789'' ! d"

fun show_nat :: "nat \<Rightarrow> string" where
  "show_nat n = (if n < 10 then [digit_char n] else show_nat (n div 10) @ [digit_char (n mod 10)])"

declare show_nat.simps [simp del]

definition show_int :: "int \<Rightarrow> string" where
  "show_int i = (if i < 0 then CHR ''-'' # show_nat (nat (- i)) else show_nat (nat i))"

fun join :: "string \<Rightarrow> string list \<Rightarrow> string" where
  "join sep [] = []"
| "join sep [x] = x"
| "join sep (x # y # ys) = x @ sep @ join sep (y # ys)"

text \<open>A UTF-8 continuation byte is \<^verbatim>\<open>10xxxxxx\<close>; every other byte starts a code point.\<close>

definition is_cont :: "char \<Rightarrow> bool" where
  "is_cont c = (128 \<le> (of_char c :: nat) \<and> (of_char c :: nat) < 192)"

function code_points :: "string \<Rightarrow> string list" where
  "code_points [] = []"
| "code_points (c # cs) = (c # takeWhile is_cont cs) # code_points (dropWhile is_cont cs)"
  by pat_completeness auto
termination
  by (relation "measure length") (auto simp: less_Suc_eq_le length_dropWhile_le)

text \<open>
  The surrogates \<^verbatim>\<open>U+D800\<close> to \<^verbatim>\<open>U+DFFF\<close> are the code points whose three bytes are
  \<^verbatim>\<open>ED\<close>, a byte from \<^verbatim>\<open>A0\<close> to \<^verbatim>\<open>BF\<close>, and a continuation byte. A text can be encoded
  as UTF-8 (error handler \<^verbatim>\<open>strict\<close>) when it holds none.
\<close>

fun encodable :: "string \<Rightarrow> bool" where
  "encodable (c # d # cs) =
     (\<not> (c = CHR 0xED \<and> 160 \<le> (of_char d :: nat) \<and> (of_char d :: nat) < 192)
      \<and> encodable (d # cs))"
| "encodable cs = True"

subsection \<open>The operations the script applies to values\<close>

text \<open>
  \<^verbatim>\<open>repr\<close> of a \<^verbatim>\<open>str\<close> (quoting and escaping) belongs to the interpreter and is taken as
  the parameter \<open>sr\<close>; \<^verbatim>\<open>repr\<close> of the other values is built from it.
\<close>

fun py_repr :: "(string \<Rightarrow> string) \<Rightarrow> json \<Rightarrow> string" where
  "py_repr sr JNull = ''None''"
| "py_repr sr (JBool b) = (if b then ''True'' else ''False'')"
| "py_repr sr (JInt i) = show_int i"
| "py_repr sr (JFloat r) = r"
| "py_repr sr (JStr s) = sr s"
| "py_repr sr (JArr xs) = ''['' @ join '', '' (map (py_repr sr) xs) @ '']''"
| "py_repr sr (JObj kvs) =
     ''{'' @ join '', '' (map (\<lambda>(k, v). sr k @ '': '' @ py_repr sr v) kvs) @ ''}''"

text \<open>\<^verbatim>\<open>str(v)\<close>, which is what a replacement field \<^verbatim>\<open>{v}\<close> of an f-string inserts.\<close>

fun py_str :: "(string \<Rightarrow> string) \<Rightarrow> json \<Rightarrow> string" where
  "py_str sr (JStr s) = s"
| "py_str sr v = py_repr sr v"

text \<open>\<^verbatim>\<open>bool(v)\<close>, the test of \<^verbatim>\<open>if v:\<close>.\<close>

fun truthy :: "json \<Rightarrow> bool" where
  "truthy JNull = False"
| "truthy (JBool b) = b"
| "truthy (JInt i) = (i \<noteq> 0)"
| "truthy (JFloat r) = (r \<noteq> ''0.0'' \<and> r \<noteq> ''-0.0'')"
| "truthy (JStr s) = (s \<noteq> [])"
| "truthy (JArr xs) = (xs \<noteq> [])"
| "truthy (JObj kvs) = (kvs \<noteq> [])"

text \<open>\<^verbatim>\<open>v == 0\<close>: true for the integer \<^verbatim>\<open>0\<close>, for \<^verbatim>\<open>False\<close> and for a zero float.\<close>

fun py_eq_zero :: "json \<Rightarrow> bool" where
  "py_eq_zero (JInt i) = (i = 0)"
| "py_eq_zero (JBool b) = (\<not> b)"
| "py_eq_zero (JFloat r) = (r = ''0.0'' \<or> r = ''-0.0'')"
| "py_eq_zero v = False"

text \<open>\<^verbatim>\<open>v[k]\<close> with a string key.\<close>

fun py_getitem :: "json \<Rightarrow> string \<Rightarrow> error + json" where
  "py_getitem (JObj kvs) k = (case map_of kvs k of None \<Rightarrow> Inl (KeyError k) | Some v \<Rightarrow> Inr v)"
| "py_getitem v k = Inl (TypeError ''subscript'')"

text \<open>\<^verbatim>\<open>v[k] = x\<close> with a string key.\<close>

fun py_setitem :: "json \<Rightarrow> string \<Rightarrow> json \<Rightarrow> error + json" where
  "py_setitem (JObj kvs) k x = Inr (JObj (AList.update k x kvs))"
| "py_setitem v k x = Inl (TypeError ''subscript'')"

text \<open>\<^verbatim>\<open>v.get(k, d)\<close>: only a dictionary has the method.\<close>

fun py_get :: "json \<Rightarrow> string \<Rightarrow> json \<Rightarrow> error + json" where
  "py_get (JObj kvs) k d = Inr (case map_of kvs k of None \<Rightarrow> d | Some v \<Rightarrow> v)"
| "py_get v k d = Inl AttributeError"

text \<open>\<^verbatim>\<open>for x in v\<close>: the elements of a list, the keys of a dictionary, the characters of a string.\<close>

fun py_iter :: "json \<Rightarrow> error + json list" where
  "py_iter (JArr xs) = Inr xs"
| "py_iter (JObj kvs) = Inr (map (\<lambda>kv. JStr (fst kv)) kvs)"
| "py_iter (JStr s) = Inr (map JStr (code_points s))"
| "py_iter v = Inl (TypeError ''iter'')"

text \<open>\<^verbatim>\<open>len(v)\<close>.\<close>

fun py_len :: "json \<Rightarrow> error + nat" where
  "py_len (JArr xs) = Inr (length xs)"
| "py_len (JObj kvs) = Inr (length kvs)"
| "py_len (JStr s) = Inr (length (code_points s))"
| "py_len v = Inl (TypeError ''len'')"


section \<open>The environment of the script\<close>

text \<open>
  What the script calls but does not define is a parameter:
  \<^item> \<open>json_loads\<close>: \<^verbatim>\<open>json.loads\<close>/\<^verbatim>\<open>json.load\<close> on a text, \<open>None\<close> when it raises;
  \<^item> \<open>str_repr\<close>: \<^verbatim>\<open>repr\<close> of a \<^verbatim>\<open>str\<close>;
  \<^item> \<open>subprocess_run\<close>: \<^verbatim>\<open>subprocess.run(argv, capture_output=True, text=True)\<close>. Its
    result may depend on how many invocations came before (the first argument), as a
    network does; it is either the name of the exception raised or the pair of
    \<^verbatim>\<open>returncode\<close> and \<^verbatim>\<open>stdout\<close>.
\<close>

record env =
  json_loads :: "string \<Rightarrow> json option"
  str_repr :: "string \<Rightarrow> string"
  subprocess_run :: "nat \<Rightarrow> string list \<Rightarrow> string + (int \<times> string)"

text \<open>
  The state the script reads and changes: the files by path (directories are not
  modelled: the only directory the script creates is the one that holds the input file,
  which exists whenever that point is reached), the process environment, the text printed
  so far and the transport invocations made so far.
\<close>

record world =
  files :: "string \<rightharpoonup> string"
  environ :: "string \<rightharpoonup> string"
  stdout :: string
  calls :: "string list list"

text \<open>How the process ends: \<^verbatim>\<open>sys.exit(n)\<close> or the end of \<^verbatim>\<open>main\<close>, or an uncaught exception.\<close>

datatype outcome = Exit nat | Uncaught error

fun exit_status :: "outcome \<Rightarrow> nat" where
  "exit_status (Exit n) = n"
| "exit_status (Uncaught e) = 1"

text \<open>
  A statement acts on a state and may raise. \<open>run_all\<close> runs statements in sequence up to
  the first exception.
\<close>

type_synonym 's stmt = "'s \<Rightarrow> error option \<times> 's"

fun run_all :: "'s stmt list \<Rightarrow> 's stmt" where
  "run_all [] s = (None, s)"
| "run_all (a # as) s =
     (case a s of
        (Some e, s') \<Rightarrow> (Some e, s')
      | (None, s') \<Rightarrow> run_all as s')"

text \<open>
  \<^verbatim>\<open>print(s)\<close>. Standard output is a UTF-8 text stream with the error handler
  \<^verbatim>\<open>strict\<close>: a text that cannot be encoded raises \<^verbatim>\<open>UnicodeEncodeError\<close> and nothing of it
  is printed.
\<close>

definition print :: "string \<Rightarrow> world stmt" where
  "print s w =
     (if encodable s then (None, w\<lparr>stdout := stdout w @ s @ NL\<rparr>)
      else (Some UnicodeEncodeError, w))"

text \<open>
  The process ends after a sequence of statements: by the exception that left it, or
  with the status \<open>n\<close>.
\<close>

fun ends :: "nat \<Rightarrow> error option \<times> world \<Rightarrow> outcome \<times> world" where
  "ends n (Some e, w) = (Uncaught e, w)"
| "ends n (None, w) = (Exit n, w)"

section \<open>Configuration\<close>

definition INPUT_FILE :: string where
  "INPUT_FILE = ''temp/wiki_documents.json''"

definition OUTPUT_FILE :: string where
  "OUTPUT_FILE = ''temp/wiki_documents_with_content.txt''"

text \<open>The non-ASCII characters of the script's messages, in UTF-8.\<close>

definition WARNING_SIGN :: string where
  "WARNING_SIGN = [CHR 0xE2, CHR 0x9A, CHR 0xA0, CHR 0xEF, CHR 0xB8, CHR 0x8F]"

definition CLIPBOARD :: string where
  "CLIPBOARD = [CHR 0xF0, CHR 0x9F, CHR 0x93, CHR 0x8B]"

definition BULLET :: string where
  "BULLET = [CHR 0xE2, CHR 0x80, CHR 0xA2]"

definition LIGHT_BULB :: string where
  "LIGHT_BULB = [CHR 0xF0, CHR 0x9F, CHR 0x92, CHR 0xA1]"

definition CHECK_MARK :: string where
  "CHECK_MARK = [CHR 0xE2, CHR 0x9C, CHR 0x85]"

definition CROSS_MARK :: string where
  "CROSS_MARK = [CHR 0xE2, CHR 0x9D, CHR 0x8C]"

definition FOLDER :: string where
  "FOLDER = [CHR 0xF0, CHR 0x9F, CHR 0x93, CHR 0x81]"

definition PAGE :: string where
  "PAGE = [CHR 0xF0, CHR 0x9F, CHR 0x93, CHR 0x84]"

definition RULE_EQ :: string where
  "RULE_EQ = replicate 80 CHR ''=''"

definition RULE_DASH :: string where
  "RULE_DASH = replicate 80 CHR ''-''"

section \<open>The fetcher: \<^verbatim>\<open>get_content_via_api\<close>\<close>

definition api_url :: "string \<Rightarrow> string" where
  "api_url document_token =
     ''https://open.feishu.cn/open-apis/docx/v1/documents/'' @ document_token @ ''/raw_content''"

definition curl_argv :: "string \<Rightarrow> string \<Rightarrow> string list" where
  "curl_argv url user_token =
     [''curl'', ''-s'', ''-X'', ''GET'', url, ''-H'', ''Authorization: Bearer '' @ user_token]"

text \<open>The command line for a document token, which an f-string turns into text.\<close>

definition request_argv :: "env \<Rightarrow> string \<Rightarrow> json \<Rightarrow> string list" where
  "request_argv env user_token document_token =
     curl_argv (api_url (py_str (str_repr env) document_token)) user_token"

text \<open>
  The body of the \<^verbatim>\<open>try\<close> block. \<open>Inl e\<close>: it raised \<open>e\<close>; \<open>Inr (Some v)\<close>: it returned
  \<open>v\<close>; \<open>Inr None\<close>: it fell through because the code field is not \<^verbatim>\<open>0\<close>.
\<close>

definition parse_body :: "env \<Rightarrow> string \<Rightarrow> error + json option" where
  "parse_body env body =
     (case json_loads env body of
        None \<Rightarrow> Inl JSONDecodeError
      | Some data \<Rightarrow>
          (case py_get data ''code'' JNull of
             Inl e \<Rightarrow> Inl e
           | Inr code \<Rightarrow>
               if py_eq_zero code then
                 (case py_get data ''data'' (JObj []) of
                    Inl e \<Rightarrow> Inl e
                  | Inr d \<Rightarrow>
                      (case py_get d ''content'' (JStr []) of
                         Inl e \<Rightarrow> Inl e
                       | Inr c \<Rightarrow> Inr (Some c)))
               else Inr None))"

text \<open>
  What the function returns once \<^verbatim>\<open>subprocess.run\<close> has returned: the bare \<^verbatim>\<open>except\<close>
  swallows every exception of the \<^verbatim>\<open>try\<close> block, and every path that does not return
  a content ends in \<^verbatim>\<open>return None\<close> (\<open>JNull\<close>).
\<close>

definition content_of_response :: "env \<Rightarrow> int \<times> string \<Rightarrow> json" where
  "content_of_response env response =
     (if fst response = 0 then
        (case parse_body env (snd response) of
           Inr (Some c) \<Rightarrow> c
         | Inr None \<Rightarrow> JNull
         | Inl e \<Rightarrow> JNull)
      else JNull)"

text \<open>
  \<^verbatim>\<open>subprocess.run\<close> is called outside the \<^verbatim>\<open>try\<close> block: what it raises leaves the
  function. The invocation is recorded in \<open>calls\<close>.
\<close>

definition get_content_via_api :: "env \<Rightarrow> json \<Rightarrow> string \<Rightarrow> world \<Rightarrow> (error + json) \<times> world" where
  "get_content_via_api env document_token user_token w =
     (let argv = request_argv env user_token document_token;
          w' = w\<lparr>calls := calls w @ [argv]\<rparr>
      in case subprocess_run env (length (calls w)) argv of
           Inl name \<Rightarrow> (Inl (SubprocessError name), w')
         | Inr response \<Rightarrow> (Inr (content_of_response env response), w'))"


section \<open>\<^verbatim>\<open>main\<close>\<close>

subsection \<open>The messages on the console\<close>

definition console_title :: "world stmt" where
  "console_title =
     run_all
       [print RULE_EQ,
        print ''Lark Wiki Document Content Retrieval'',
        print RULE_EQ]"

definition console_header :: "nat \<Rightarrow> world stmt" where
  "console_header ndocs =
     run_all
       [print (NL @ ''Found '' @ show_nat ndocs @ '' documents''),
        print (''Input: '' @ INPUT_FILE),
        print (''Output: '' @ OUTPUT_FILE),
        print (NL @ RULE_DASH)]"

subsection \<open>Dry mode: the listing printed when there is no token\<close>

definition dry_intro :: "world stmt" where
  "dry_intro =
     run_all
       [print (NL @ WARNING_SIGN @ ''  User Access Token not found!''),
        print (NL @ ''To retrieve content, you need:''),
        print ''  1. Set LARK_USER_ACCESS_TOKEN environment variable'',
        print ''     OR'',
        print ''  2. Use MCP tools manually (docx.v1.document.rawContent)'',
        print (NL @ CLIPBOARD @ '' Document Tokens to retrieve:''),
        print []]"

text \<open>
  \<^verbatim>\<open>for doc in documents: print(f"  \<bullet> {doc['title']}: {doc['document_token']}")\<close>, the
  title being read before the document token.
\<close>

fun list_documents :: "env \<Rightarrow> json list \<Rightarrow> world stmt" where
  "list_documents env [] w = (None, w)"
| "list_documents env (doc # docs) w =
     (case py_getitem doc ''title'' of
        Inl e \<Rightarrow> (Some e, w)
      | Inr title \<Rightarrow>
          (case py_getitem doc ''document_token'' of
             Inl e \<Rightarrow> (Some e, w)
           | Inr document_token \<Rightarrow>
               (case print (''  '' @ BULLET @ '' '' @ py_str (str_repr env) title @ '': ''
                              @ py_str (str_repr env) document_token) w of
                  (Some e, w') \<Rightarrow> (Some e, w')
                | (None, w') \<Rightarrow> list_documents env docs w')))"

definition dry_outro :: "world stmt" where
  "dry_outro =
     run_all
       [print (NL @ LIGHT_BULB @ '' To retrieve content using MCP tools:''),
        print ''   Call: mcp_Lark_MCP_docx_v1_document_rawContent'',
        print ''   With: document_id = {document_token}'',
        print (NL @ LIGHT_BULB @ '' To retrieve via API:''),
        print (''   export LARK_USER_ACCESS_TOKEN='' @ [CHR 0x27] @ ''your_token'' @ [CHR 0x27]),
        print ''   python3 get_wiki_content.py'']"

definition dry_mode :: "env \<Rightarrow> json \<Rightarrow> world \<Rightarrow> outcome \<times> world" where
  "dry_mode env documents w =
     (case dry_intro w of
        (Some e, w1) \<Rightarrow> (Uncaught e, w1)
      | (None, w1) \<Rightarrow>
          (case py_iter documents of
             Inl e \<Rightarrow> (Uncaught e, w1)
           | Inr docs \<Rightarrow>
               (case list_documents env docs w1 of
                  (Some e, w2) \<Rightarrow> (Uncaught e, w2)
                | (None, w2) \<Rightarrow> ends 0 (dry_outro w2))))"

subsection \<open>Live mode: the fetch loop\<close>

text \<open>
  The body of \<^verbatim>\<open>for i, doc in enumerate(documents, 1)\<close>: \<open>ndocs\<close> is
  \<^verbatim>\<open>len(documents)\<close>. It returns the descriptor as it is appended to \<^verbatim>\<open>results\<close>, or
  the exception that leaves the loop. The content is attached before the message that
  needs its length is built.
\<close>

definition fetch_one ::
  "env \<Rightarrow> string \<Rightarrow> nat \<Rightarrow> nat \<Rightarrow> json \<Rightarrow> world \<Rightarrow> (error + json) \<times> world"
where
  "fetch_one env user_token ndocs i doc w =
     (case py_getitem doc ''title'' of
        Inl e \<Rightarrow> (Inl e, w)
      | Inr title \<Rightarrow>
          (case print (NL @ ''['' @ show_nat i @ ''/'' @ show_nat ndocs @ ''] Retrieving: ''
                         @ py_str (str_repr env) title) w of
             (Some e, w1) \<Rightarrow> (Inl e, w1)
           | (None, w1) \<Rightarrow>
               (case py_getitem doc ''document_token'' of
                  Inl e \<Rightarrow> (Inl e, w1)
                | Inr document_token \<Rightarrow>
                    (case print (''  Token: '' @ py_str (str_repr env) document_token) w1 of
                       (Some e, w2) \<Rightarrow> (Inl e, w2)
                     | (None, w2) \<Rightarrow>
                         (case get_content_via_api env document_token user_token w2 of
                            (Inl e, w3) \<Rightarrow> (Inl e, w3)
                          | (Inr content, w3) \<Rightarrow>
                              if truthy content then
                                (case py_setitem doc ''content'' content of
                                   Inl e \<Rightarrow> (Inl e, w3)
                                 | Inr doc' \<Rightarrow>
                                     (case py_len content of
                                        Inl e \<Rightarrow> (Inl e, w3)
                                      | Inr n \<Rightarrow>
                                          (case print (''  '' @ CHECK_MARK
                                                         @ '' Content retrieved ('' @ show_nat n
                                                         @ '' characters)'') w3 of
                                             (Some e, w4) \<Rightarrow> (Inl e, w4)
                                           | (None, w4) \<Rightarrow> (Inr doc', w4))))
                              else
                                (case py_setitem doc ''content'' JNull of
                                   Inl e \<Rightarrow> (Inl e, w3)
                                 | Inr doc' \<Rightarrow>
                                     (case print (''  '' @ CROSS_MARK
                                                    @ '' Failed to retrieve content'') w3 of
                                        (Some e, w4) \<Rightarrow> (Inl e, w4)
                                      | (None, w4) \<Rightarrow> (Inr doc', w4))))))))"

text \<open>The loop: \<open>results\<close> is the list built so far; an exception ends it.\<close>

fun fetch_loop ::
  "env \<Rightarrow> string \<Rightarrow> nat \<Rightarrow> nat \<Rightarrow> json list \<Rightarrow> json list \<Rightarrow> world \<Rightarrow> (error + json list) \<times> world"
where
  "fetch_loop env user_token ndocs i [] results w = (Inr results, w)"
| "fetch_loop env user_token ndocs i (doc # docs) results w =
     (case fetch_one env user_token ndocs i doc w of
        (Inl e, w') \<Rightarrow> (Inl e, w')
      | (Inr doc', w') \<Rightarrow> fetch_loop env user_token ndocs (Suc i) docs (results @ [doc']) w')"

subsection \<open>Live mode: the report\<close>

text \<open>
  The statements of the \<^verbatim>\<open>with\<close> block act on the text written so far. \<open>fwrite x\<close> is
  \<^verbatim>\<open>f.write(x)\<close>: the argument is evaluated first, and when that raises, or when the text
  cannot be encoded, nothing is written.
\<close>

definition fwrite :: "error + string \<Rightarrow> string stmt" where
  "fwrite x f =
     (case x of
        Inl e \<Rightarrow> (Some e, f)
      | Inr s \<Rightarrow> if encodable s then (None, f @ s) else (Some UnicodeEncodeError, f))"

text \<open>A replacement field \<^verbatim>\<open>{doc['k']}\<close>.\<close>

definition field :: "env \<Rightarrow> json \<Rightarrow> string \<Rightarrow> error + string" where
  "field env doc k =
     (case py_getitem doc k of
        Inl e \<Rightarrow> Inl e
      | Inr v \<Rightarrow> Inr (py_str (str_repr env) v))"

text \<open>The f-string of the first line: \<^verbatim>\<open>doc['number']\<close> is evaluated before \<^verbatim>\<open>doc['title']\<close>.\<close>

definition title_line :: "env \<Rightarrow> json \<Rightarrow> error + string" where
  "title_line env doc =
     (case field env doc ''number'' of
        Inl e \<Rightarrow> Inl e
      | Inr number \<Rightarrow>
          (case field env doc ''title'' of
             Inl e \<Rightarrow> Inl e
           | Inr title \<Rightarrow> Inr (PAGE @ '' DOCUMENT '' @ number @ '': '' @ title @ NL)))"

text \<open>The f-string of a line with one field: \<^verbatim>\<open>f"<label>{doc['k']}\n"\<close>.\<close>

definition field_line :: "env \<Rightarrow> json \<Rightarrow> string \<Rightarrow> string \<Rightarrow> error + string" where
  "field_line env doc label k =
     (case field env doc k of
        Inl e \<Rightarrow> Inl e
      | Inr v \<Rightarrow> Inr (label @ v @ NL))"

text \<open>The argument of \<^verbatim>\<open>f.write(doc['content'])\<close>, which must be a \<^verbatim>\<open>str\<close>.\<close>

definition content_text :: "json \<Rightarrow> error + string" where
  "content_text doc =
     (case py_getitem doc ''content'' of
        Inl e \<Rightarrow> Inl e
      | Inr (JStr s) \<Rightarrow> Inr s
      | Inr v \<Rightarrow> Inl (TypeError ''write''))"

text \<open>\<^verbatim>\<open>if doc.get('content'): ... else: ...\<close>\<close>

definition write_content :: "json \<Rightarrow> string stmt" where
  "write_content doc f =
     (case py_get doc ''content'' JNull of
        Inl e \<Rightarrow> (Some e, f)
      | Inr c \<Rightarrow>
          if truthy c then run_all [fwrite (content_text doc), fwrite (Inr (NL @ NL))] f
          else fwrite (Inr (''[Content not available]'' @ NL @ NL)) f)"

text \<open>The body of \<^verbatim>\<open>for doc in results\<close>.\<close>

definition write_doc :: "env \<Rightarrow> json \<Rightarrow> string stmt" where
  "write_doc env doc =
     run_all
       [fwrite (title_line env doc),
        fwrite (field_line env doc ''   Level: '' ''level''),
        fwrite (field_line env doc ''   Node Token: '' ''node_token''),
        fwrite (field_line env doc ''   Document Token: '' ''document_token''),
        fwrite (field_line env doc ''   URL: '' ''url''),
        fwrite (Inr (NL @ RULE_DASH @ NL @ NL)),
        write_content doc,
        fwrite (Inr (RULE_DASH @ NL @ NL))]"

text \<open>The three writes of the banner.\<close>

definition write_banner :: "string stmt" where
  "write_banner =
     run_all
       [fwrite (Inr (RULE_EQ @ NL)),
        fwrite (Inr (''LARK WIKI DOCUMENTS - WITH CONTENT'' @ NL)),
        fwrite (Inr (RULE_EQ @ NL @ NL))]"

text \<open>
  \<^verbatim>\<open>with open(OUTPUT_FILE, 'w', encoding='utf-8') as f\<close>: the file is truncated when it is
  opened and holds what was written when the block is left, also by an exception.
\<close>

definition write_report :: "env \<Rightarrow> json list \<Rightarrow> world stmt" where
  "write_report env results w =
     (case run_all (write_banner # map (write_doc env) results) [] of
        (r, text) \<Rightarrow> (r, w\<lparr>files := (files w)(OUTPUT_FILE \<mapsto> text)\<rparr>))"

definition live_outro :: "world stmt" where
  "live_outro =
     run_all
       [print (NL @ RULE_EQ),
        print (CHECK_MARK @ '' Content retrieval complete!''),
        print (FOLDER @ '' Output saved to: '' @ OUTPUT_FILE),
        print RULE_EQ]"

definition live_mode :: "env \<Rightarrow> json \<Rightarrow> nat \<Rightarrow> string \<Rightarrow> world \<Rightarrow> outcome \<times> world" where
  "live_mode env documents ndocs user_token w =
     (case py_iter documents of
        Inl e \<Rightarrow> (Uncaught e, w)
      | Inr docs \<Rightarrow>
          (case fetch_loop env user_token ndocs 1 docs [] w of
             (Inl e, w1) \<Rightarrow> (Uncaught e, w1)
           | (Inr results, w1) \<Rightarrow>
               (case write_report env results w1 of
                  (Some e, w2) \<Rightarrow> (Uncaught e, w2)
                | (None, w2) \<Rightarrow> ends 0 (live_outro w2))))"

subsection \<open>The whole program\<close>

text \<open>
  \<^verbatim>\<open>if not user_token\<close> holds when the variable is unset and when it is the empty text.
\<close>

definition main :: "env \<Rightarrow> world \<Rightarrow> outcome \<times> world" where
  "main env w =
     (case files w INPUT_FILE of
        None \<Rightarrow>
          ends 1
            (run_all
               [print (''Error: Input file not found: '' @ INPUT_FILE),
                print ''Please run get_all_wiki_docs.sh first to generate the JSON file.''] w)
      | Some text \<Rightarrow>
          (case json_loads env text of
             None \<Rightarrow> (Uncaught JSONDecodeError, w)
           | Some documents \<Rightarrow>
               (case console_title w of
                  (Some e, w1) \<Rightarrow> (Uncaught e, w1)
                | (None, w1) \<Rightarrow>
                    (case py_len documents of
                       Inl e \<Rightarrow> (Uncaught e, w1)
                     | Inr ndocs \<Rightarrow>
                         (case console_header ndocs w1 of
                            (Some e, w2) \<Rightarrow> (Uncaught e, w2)
                          | (None, w2) \<Rightarrow>
                              (case environ w2 ''LARK_USER_ACCESS_TOKEN'' of
                                 None \<Rightarrow> dry_mode env documents w2
                               | Some user_token \<Rightarrow>
                                   if user_token = [] then dry_mode env documents w2
                                   else live_mode env documents ndocs user_token w2))))))"


section \<open>Example inputs\<close>

text \<open>
  Descriptors, the JSON texts of the input files that hold them, response bodies, a
  table standing for \<^verbatim>\<open>json.loads\<close> on these texts (every other text is not JSON), and a
  transport that answers from a script, one entry per invocation, and fails to connect
  (exit code 7 of \<^verbatim>\<open>curl\<close>) once the script is used up.
\<close>

definition example_doc1 :: json where
  "example_doc1 =
     JObj [(''number'', JInt 1), (''title'', JStr ''Home''), (''level'', JInt 0),
           (''node_token'', JStr ''n1''), (''document_token'', JStr ''d1''),
           (''url'', JStr ''u1'')]"

definition example_doc2 :: json where
  "example_doc2 =
     JObj [(''number'', JInt 2), (''title'', JStr ''Setup''), (''level'', JInt 1),
           (''node_token'', JStr ''n2''), (''document_token'', JStr ''d2''),
           (''url'', JStr ''u2'')]"

text \<open>A descriptor without the \<^verbatim>\<open>url\<close> field.\<close>

definition example_doc3 :: json where
  "example_doc3 =
     JObj [(''number'', JInt 3), (''title'', JStr ''Notes''), (''level'', JInt 1),
           (''node_token'', JStr ''n3''), (''document_token'', JStr ''d3'')]"

definition INPUT_EMPTY :: string where
  "INPUT_EMPTY = ''[]''"

definition INPUT_EMPTY_DESCRIPTOR :: string where
  "INPUT_EMPTY_DESCRIPTOR = ''[{}]''"

definition INPUT_ONE :: string where
  \<open>INPUT_ONE =
     ''[{"number":1,"title":"Home","level":0,"node_token":"n1","document_token":"d1","url":"u1"}]''\<close>

definition INPUT_TWO :: string where
  \<open>INPUT_TWO =
     ''[{"number":1,"title":"Home","level":0,"node_token":"n1","document_token":"d1","url":"u1"},''
     @ ''{"number":2,"title":"Setup","level":1,"node_token":"n2","document_token":"d2","url":"u2"}]''\<close>

definition INPUT_NO_URL :: string where
  \<open>INPUT_NO_URL =
     ''[{"number":3,"title":"Notes","level":1,"node_token":"n3","document_token":"d3"}]''\<close>

definition INPUT_ONE_THEN_EMPTY :: string where
  \<open>INPUT_ONE_THEN_EMPTY =
     ''[{"number":1,"title":"Home","level":0,"node_token":"n1","document_token":"d1","url":"u1"},{}]''\<close>

definition BODY_HELLO :: string where
  \<open>BODY_HELLO = ''{"code":0,"data":{"content":"hello"}}''\<close>

definition BODY_CODE1 :: string where
  \<open>BODY_CODE1 = ''{"code":1}''\<close>

definition BODY_NO_CONTENT :: string where
  \<open>BODY_NO_CONTENT = ''{"code":0,"data":{}}''\<close>

definition BODY_LIST :: string where
  \<open>BODY_LIST = ''{"code":0,"data":{"content":["x"]}}''\<close>

definition BODY_NOT_JSON :: string where
  \<open>BODY_NOT_JSON = ''<html>''\<close>

definition example_loads :: "string \<Rightarrow> json option" where
  "example_loads =
     map_of
       [(INPUT_EMPTY, JArr []),
        (INPUT_EMPTY_DESCRIPTOR, JArr [JObj []]),
        (INPUT_ONE, JArr [example_doc1]),
        (INPUT_TWO, JArr [example_doc1, example_doc2]),
        (INPUT_NO_URL, JArr [example_doc3]),
        (INPUT_ONE_THEN_EMPTY, JArr [example_doc1, JObj []]),
        (BODY_HELLO, JObj [(''code'', JInt 0), (''data'', JObj [(''content'', JStr ''hello'')])]),
        (BODY_CODE1, JObj [(''code'', JInt 1)]),
        (BODY_NO_CONTENT, JObj [(''code'', JInt 0), (''data'', JObj [])]),
        (BODY_LIST, JObj [(''code'', JInt 0), (''data'', JObj [(''content'', JArr [JStr ''x''])])])]"

definition scripted :: "(string + int \<times> string) list \<Rightarrow> nat \<Rightarrow> string list \<Rightarrow> string + int \<times> string" where
  "scripted script n argv = (if n < length script then script ! n else Inr (7, []))"

definition example_env :: "(string + int \<times> string) list \<Rightarrow> env" where
  "example_env script =
     \<lparr>json_loads = example_loads,
      str_repr = (\<lambda>s. [CHR 0x27] @ s @ [CHR 0x27]),
      subprocess_run = scripted script\<rparr>"

definition example_world :: "string option \<Rightarrow> string option \<Rightarrow> world" where
  "example_world input token =
     \<lparr>files = (\<lambda>p. if p = INPUT_FILE then input else None),
      environ = (\<lambda>v. if v = ''LARK_USER_ACCESS_TOKEN'' then token else None),
      stdout = [],
      calls = []\<rparr>"

text \<open>
  A live run over the two descriptors: the first fetch returns the content \<open>hello\<close>, the
  second is refused by the service with code 1.
\<close>

definition hello_env :: env where
  "hello_env = example_env [Inr (0, BODY_HELLO), Inr (0, BODY_CODE1)]"

definition two_docs_world :: world where
  "two_docs_world = example_world (Some INPUT_TWO) (Some ''tok'')"

text \<open>Dry runs: no token; the second input holds a descriptor without any field.\<close>

definition no_token_world :: world where
  "no_token_world = example_world (Some INPUT_TWO) None"

definition empty_descriptor_world :: world where
  "empty_descriptor_world = example_world (Some INPUT_EMPTY_DESCRIPTOR) None"

text \<open>
  A response that reports success and carries no content, for a batch of one descriptor;
  a transport that cannot be started for the first descriptor; a response whose content
  is a list; a response refused with code 1; a body that is not JSON.
\<close>

definition no_content_env :: env where
  "no_content_env = example_env [Inr (0, BODY_NO_CONTENT)]"

definition one_doc_world :: world where
  "one_doc_world = example_world (Some INPUT_ONE) (Some ''tok'')"

definition broken_env :: env where
  "broken_env = example_env [Inl ''FileNotFoundError'', Inr (0, BODY_HELLO)]"

definition list_env :: env where
  "list_env = example_env [Inr (0, BODY_LIST), Inr (0, BODY_HELLO)]"

definition refused_env :: env where
  "refused_env = example_env [Inr (0, BODY_CODE1)]"

definition not_json_env :: env where
  "not_json_env = example_env [Inr (0, BODY_NOT_JSON), Inr (0, BODY_HELLO)]"

text \<open>
  A live run and a dry run over the descriptor without \<^verbatim>\<open>url\<close>, and a live run over a
  well-formed descriptor followed by an empty one.
\<close>

definition no_url_world :: world where
  "no_url_world = example_world (Some INPUT_NO_URL) (Some ''tok'')"

definition no_url_dry_world :: world where
  "no_url_dry_world = example_world (Some INPUT_NO_URL) None"

definition one_then_empty_world :: world where
  "one_then_empty_world = example_world (Some INPUT_ONE_THEN_EMPTY) (Some ''tok'')"

text \<open>
  A second run after one invocation was made: its transport gives, from its own first
  invocation on, the responses that \<open>hello_env\<close> gives from the start.
\<close>

definition rerun_env :: env where
  "rerun_env = example_env [Inl ''unused'', Inr (0, BODY_HELLO), Inr (0, BODY_CODE1)]"


section \<open>Notions used to state the properties\<close>

text \<open>
  These definitions describe descriptors, responses and the report directly, without
  the functions of the script. The six fields that the script reads from a descriptor:
\<close>

definition REQUIRED_FIELDS :: "string list" where
  "REQUIRED_FIELDS =
     [''number'', ''title'', ''level'', ''node_token'', ''document_token'', ''url'']"

text \<open>A descriptor carries a field when it is an object with that key.\<close>

fun has_field :: "json \<Rightarrow> string \<Rightarrow> bool" where
  "has_field (JObj kvs) k = (map_of kvs k \<noteq> None)"
| "has_field v k = False"

fun field_value :: "json \<Rightarrow> string \<Rightarrow> json" where
  "field_value (JObj kvs) k = (case map_of kvs k of Some v \<Rightarrow> v | None \<Rightarrow> JNull)"
| "field_value v k = JNull"

text \<open>The text of a field as it appears in messages and in the report.\<close>

definition field_text :: "env \<Rightarrow> json \<Rightarrow> string \<Rightarrow> string" where
  "field_text env doc k = py_str (str_repr env) (field_value doc k)"

definition has_required_fields :: "json \<Rightarrow> bool" where
  "has_required_fields doc = list_all (has_field doc) REQUIRED_FIELDS"

text \<open>
  A descriptor is well formed when it carries the six fields and the text of each can
  be encoded.
\<close>

definition well_formed :: "env \<Rightarrow> json \<Rightarrow> bool" where
  "well_formed env doc =
     list_all (\<lambda>k. has_field doc k \<and> encodable (field_text env doc k)) REQUIRED_FIELDS"

text \<open>The descriptor with a content attached.\<close>

fun with_content :: "json \<Rightarrow> json \<Rightarrow> json" where
  "with_content (JObj kvs) c = JObj (AList.update ''content'' c kvs)"
| "with_content v c = v"

text \<open>The command line of the fetch for a descriptor.\<close>

definition fetch_argv :: "env \<Rightarrow> string \<Rightarrow> json \<Rightarrow> string list" where
  "fetch_argv env user_token doc =
     [''curl'', ''-s'', ''-X'', ''GET'',
      ''https://open.feishu.cn/open-apis/docx/v1/documents/''
        @ field_text env doc ''document_token'' @ ''/raw_content'',
      ''-H'', ''Authorization: Bearer '' @ user_token]"

text \<open>
  The transport answers the fetches of a batch with the responses \<open>rs\<close>: the invocation
  for the \<open>j\<close>-th descriptor, which is the \<open>j\<close>-th invocation of the run, returns
  \<open>rs ! j\<close> (and does not raise).
\<close>

definition answers :: "env \<Rightarrow> world \<Rightarrow> string \<Rightarrow> json list \<Rightarrow> (int \<times> string) list \<Rightarrow> bool" where
  "answers env w user_token docs rs =
     (length rs = length docs
      \<and> list_all
            (\<lambda>j. subprocess_run env (length (calls w) + j) (fetch_argv env user_token (docs ! j))
                   = Inr (rs ! j))
            [0..<length docs])"

text \<open>
  The content that a response gives to its descriptor, following the description of the
  fetch: the exit code must be 0, the body must parse as an object whose \<^verbatim>\<open>code\<close> equals
  0, and the content is the \<^verbatim>\<open>content\<close> field of its \<^verbatim>\<open>data\<close> object; a content that is
  missing or empty (falsy) counts as absent, like every failure.
\<close>

definition response_content :: "env \<Rightarrow> int \<times> string \<Rightarrow> json" where
  "response_content env r =
     (if fst r \<noteq> 0 then JNull
      else
        (case json_loads env (snd r) of
           Some (JObj kvs) \<Rightarrow>
             (case map_of kvs ''code'' of
                Some c \<Rightarrow>
                  if py_eq_zero c then
                    (case map_of kvs ''data'' of
                       Some (JObj d) \<Rightarrow>
                         (case map_of d ''content'' of
                            Some v \<Rightarrow> if truthy v then v else JNull
                          | None \<Rightarrow> JNull)
                     | _ \<Rightarrow> JNull)
                  else JNull
              | None \<Rightarrow> JNull)
         | _ \<Rightarrow> JNull))"

text \<open>
  The kinds of failed response: a non-zero exit code; a body that is not JSON; a body that
  is not an object; an object without \<^verbatim>\<open>code\<close> or whose \<^verbatim>\<open>code\<close> is not 0; an object whose
  \<^verbatim>\<open>data\<close> is present and not an object.
\<close>

definition failed_response :: "env \<Rightarrow> int \<times> string \<Rightarrow> bool" where
  "failed_response env r =
     (fst r \<noteq> 0
      \<or> (case json_loads env (snd r) of
            None \<Rightarrow> True
          | Some (JObj kvs) \<Rightarrow>
              (case map_of kvs ''code'' of
                 None \<Rightarrow> True
               | Some c \<Rightarrow>
                   \<not> py_eq_zero c
                   \<or> (case map_of kvs ''data'' of
                         None \<Rightarrow> False
                       | Some (JObj d) \<Rightarrow> False
                       | Some v \<Rightarrow> True))
          | Some v \<Rightarrow> True))"

text \<open>
  A content can be stored and written to the report when it is absent or an encodable
  text.
\<close>

fun usable_content :: "json \<Rightarrow> bool" where
  "usable_content JNull = True"
| "usable_content (JStr s) = encodable s"
| "usable_content v = False"

text \<open>
  A batch is well formed, for the responses \<open>rs\<close>, when every descriptor is well formed,
  the transport answers the fetches with \<open>rs\<close>, and the content that each response gives
  is absent or an encodable text.
\<close>

definition batch_ok :: "env \<Rightarrow> world \<Rightarrow> string \<Rightarrow> json list \<Rightarrow> (int \<times> string) list \<Rightarrow> bool" where
  "batch_ok env w user_token docs rs =
     (list_all (well_formed env) docs
      \<and> answers env w user_token docs rs
      \<and> list_all (\<lambda>r. usable_content (response_content env r)) rs)"

text \<open>The banner of the report, and the entry of a descriptor with a content.\<close>

definition report_header :: string where
  "report_header = RULE_EQ @ NL @ ''LARK WIKI DOCUMENTS - WITH CONTENT'' @ NL @ RULE_EQ @ NL @ NL"

definition entry_heading :: "env \<Rightarrow> json \<Rightarrow> string" where
  "entry_heading env doc =
     PAGE @ '' DOCUMENT '' @ field_text env doc ''number'' @ '': ''
       @ field_text env doc ''title'' @ NL
     @ ''   Level: '' @ field_text env doc ''level'' @ NL
     @ ''   Node Token: '' @ field_text env doc ''node_token'' @ NL
     @ ''   Document Token: '' @ field_text env doc ''document_token'' @ NL
     @ ''   URL: '' @ field_text env doc ''url'' @ NL
     @ NL @ RULE_DASH @ NL @ NL"

fun entry_body :: "json \<Rightarrow> string" where
  "entry_body (JStr s) = (if s = [] then ''[Content not available]'' @ NL @ NL else s @ NL @ NL)"
| "entry_body v = ''[Content not available]'' @ NL @ NL"

definition report_entry :: "env \<Rightarrow> json \<Rightarrow> json \<Rightarrow> string" where
  "report_entry env doc c = entry_heading env doc @ entry_body c @ RULE_DASH @ NL @ NL"

text \<open>The report of a batch: the banner, then the entries in the order of the batch.\<close>

text \<open>
  The entries of the descriptors at the positions \<open>js\<close> of a batch, one after the other.
\<close>

definition entries :: "env \<Rightarrow> json list \<Rightarrow> (int \<times> string) list \<Rightarrow> nat list \<Rightarrow> string" where
  "entries env docs rs js =
     concat (map (\<lambda>j. report_entry env (docs ! j) (response_content env (rs ! j))) js)"

definition report_text :: "env \<Rightarrow> json list \<Rightarrow> (int \<times> string) list \<Rightarrow> string" where
  "report_text env docs rs = report_header @ entries env docs rs [0..<length docs]"

text \<open>What a sequence of \<^verbatim>\<open>print\<close> calls adds to the console: each text and a newline.\<close>

definition printed :: "string list \<Rightarrow> string" where
  "printed ss = concat (map (\<lambda>s. s @ NL) ss)"

text \<open>The line of the dry-mode listing for a descriptor.\<close>

definition listing_line :: "env \<Rightarrow> json \<Rightarrow> string" where
  "listing_line env doc =
     ''  '' @ BULLET @ '' '' @ field_text env doc ''title'' @ '': ''
       @ field_text env doc ''document_token'' @ NL"

text \<open>The credential is present when the variable is set to a non-empty text.\<close>

definition has_token :: "world \<Rightarrow> bool" where
  "has_token w =
     (case environ w ''LARK_USER_ACCESS_TOKEN'' of None \<Rightarrow> False | Some t \<Rightarrow> t \<noteq> [])"

text \<open>The exceptions that an access \<^verbatim>\<open>doc[k]\<close> raises.\<close>

fun is_access_error :: "error \<Rightarrow> bool" where
  "is_access_error (KeyError k) = True"
| "is_access_error (TypeError s) = (s = ''subscript'')"
| "is_access_error e = False"


section \<open>Encodable text\<close>

lemma encodable_Cons:
  "c \<noteq> CHR 0xED \<Longrightarrow> encodable (c # s) = encodable s"
  by (cases s) simp_all

lemma encodable_append_no_ED:
  "CHR 0xED \<notin> set p \<Longrightarrow> encodable (p @ s) = encodable s"
proof (induction p)
  case Nil
  show ?case by simp
next
  case (Cons a p)
  then have "a \<noteq> CHR 0xED" and "CHR 0xED \<notin> set p" by auto
  with Cons.IH show ?case by (simp add: encodable_Cons)
qed

lemma encodable_no_ED:
  "CHR 0xED \<notin> set s \<Longrightarrow> encodable s"
  using encodable_append_no_ED [of s "[]"] by simp

lemma encodable_append_low:
  "\<not> (160 \<le> (of_char q :: nat) \<and> (of_char q :: nat) < 192) \<Longrightarrow>
     encodable (s @ q # qs) = (encodable s \<and> encodable (q # qs))"
proof (induction s)
  case Nil
  show ?case by simp
next
  case (Cons a s)
  show ?case
  proof (cases s)
    case Nil
    with Cons.prems show ?thesis by simp
  next
    case (Cons b s')
    with Cons.IH Cons.prems show ?thesis by simp
  qed
qed

lemma show_nat_no_ED:
  "CHR 0xED \<notin> set (show_nat n)"
proof (induction n rule: show_nat.induct)
  case (1 n)
  have d: "\<And>k. k < 10 \<Longrightarrow> digit_char k \<noteq> CHR 0xED"
  proof -
    fix k :: nat assume "k < 10"
    then have "k \<in> {0, 1, 2, 3, 4, 5, 6, 7, 8, 9}" by auto
    then show "digit_char k \<noteq> CHR 0xED"
      by (auto simp: digit_char_def)
  qed
  show ?case
  proof (cases "n < 10")
    case True
    with d [of n] have "digit_char n \<noteq> CHR 0xED" by simp
    with True show ?thesis by (subst show_nat.simps) auto
  next
    case False
    with 1 have "CHR 0xED \<notin> set (show_nat (n div 10))" by simp
    moreover have "digit_char (n mod 10) \<noteq> CHR 0xED" by (rule d) simp
    ultimately show ?thesis using False by (subst show_nat.simps) auto
  qed
qed

lemma encodable_RULE [simp]:
  "encodable RULE_EQ" "encodable RULE_DASH"
  "encodable (RULE_EQ @ s) = encodable s" "encodable (RULE_DASH @ s) = encodable s"
  by (simp_all add: RULE_EQ_def RULE_DASH_def encodable_append_no_ED encodable_no_ED)

lemma encodable_show_nat [simp]:
  "encodable (show_nat n @ s) = encodable s"
  by (rule encodable_append_no_ED) (rule show_nat_no_ED)

lemmas encodable_simps =
  encodable_Cons encodable_append_low NL_def
  WARNING_SIGN_def CLIPBOARD_def BULLET_def LIGHT_BULB_def CHECK_MARK_def CROSS_MARK_def
  FOLDER_def PAGE_def INPUT_FILE_def OUTPUT_FILE_def

section \<open>Printing\<close>

lemma print_ok:
  "encodable s \<Longrightarrow> print s w = (None, w\<lparr>stdout := stdout w @ s @ NL\<rparr>)"
  by (simp add: print_def)

lemma print_frame [simp]:
  "files (snd (print s w)) = files w"
  "environ (snd (print s w)) = environ w"
  "calls (snd (print s w)) = calls w"
  by (simp_all add: print_def)

lemma prints_ok:
  "list_all encodable ss \<Longrightarrow>
     run_all (map print ss) w = (None, w\<lparr>stdout := stdout w @ printed ss\<rparr>)"
proof (induction ss arbitrary: w)
  case Nil
  show ?case by (simp add: printed_def)
next
  case (Cons s ss)
  then have s: "encodable s" and ss: "list_all encodable ss" by simp_all
  show ?case
    using Cons.IH [OF ss, of "w\<lparr>stdout := stdout w @ s @ NL\<rparr>"] s
    by (simp add: print_ok printed_def)
qed

lemma console_title_ok:
  "console_title w =
     (None, w\<lparr>stdout := stdout w
        @ printed [RULE_EQ, ''Lark Wiki Document Content Retrieval'', RULE_EQ]\<rparr>)"
  unfolding console_title_def
  using prints_ok [of "[RULE_EQ, ''Lark Wiki Document Content Retrieval'', RULE_EQ]" w]
  by (simp add: encodable_simps)

lemma console_header_ok:
  "console_header n w =
     (None, w\<lparr>stdout := stdout w
        @ printed [NL @ ''Found '' @ show_nat n @ '' documents'', ''Input: '' @ INPUT_FILE,
                   ''Output: '' @ OUTPUT_FILE, NL @ RULE_DASH]\<rparr>)"
  unfolding console_header_def
  using prints_ok [of "[NL @ ''Found '' @ show_nat n @ '' documents'', ''Input: '' @ INPUT_FILE,
                   ''Output: '' @ OUTPUT_FILE, NL @ RULE_DASH]" w]
  by (simp add: encodable_simps)

lemma dry_intro_ok:
  "dry_intro w =
     (None, w\<lparr>stdout := stdout w
        @ printed [NL @ WARNING_SIGN @ ''  User Access Token not found!'',
                   NL @ ''To retrieve content, you need:'',
                   ''  1. Set LARK_USER_ACCESS_TOKEN environment variable'',
                   ''     OR'',
                   ''  2. Use MCP tools manually (docx.v1.document.rawContent)'',
                   NL @ CLIPBOARD @ '' Document Tokens to retrieve:'',
                   []]\<rparr>)"
  unfolding dry_intro_def
  using prints_ok [of "[NL @ WARNING_SIGN @ ''  User Access Token not found!'',
                   NL @ ''To retrieve content, you need:'',
                   ''  1. Set LARK_USER_ACCESS_TOKEN environment variable'',
                   ''     OR'',
                   ''  2. Use MCP tools manually (docx.v1.document.rawContent)'',
                   NL @ CLIPBOARD @ '' Document Tokens to retrieve:'',
                   []]" w]
  by (simp add: encodable_simps)

lemma dry_outro_ok:
  "dry_outro w =
     (None, w\<lparr>stdout := stdout w
        @ printed [NL @ LIGHT_BULB @ '' To retrieve content using MCP tools:'',
                   ''   Call: mcp_Lark_MCP_docx_v1_document_rawContent'',
                   ''   With: document_id = {document_token}'',
                   NL @ LIGHT_BULB @ '' To retrieve via API:'',
                   ''   export LARK_USER_ACCESS_TOKEN='' @ [CHR 0x27] @ ''your_token'' @ [CHR 0x27],
                   ''   python3 get_wiki_content.py'']\<rparr>)"
  unfolding dry_outro_def
  using prints_ok [of "[NL @ LIGHT_BULB @ '' To retrieve content using MCP tools:'',
                   ''   Call: mcp_Lark_MCP_docx_v1_document_rawContent'',
                   ''   With: document_id = {document_token}'',
                   NL @ LIGHT_BULB @ '' To retrieve via API:'',
                   ''   export LARK_USER_ACCESS_TOKEN='' @ [CHR 0x27] @ ''your_token'' @ [CHR 0x27],
                   ''   python3 get_wiki_content.py'']" w]
  by (simp add: encodable_simps)

lemma live_outro_ok:
  "live_outro w =
     (None, w\<lparr>stdout := stdout w
        @ printed [NL @ RULE_EQ, CHECK_MARK @ '' Content retrieval complete!'',
                   FOLDER @ '' Output saved to: '' @ OUTPUT_FILE, RULE_EQ]\<rparr>)"
  unfolding live_outro_def
  using prints_ok [of "[NL @ RULE_EQ, CHECK_MARK @ '' Content retrieval complete!'',
                   FOLDER @ '' Output saved to: '' @ OUTPUT_FILE, RULE_EQ]" w]
  by (simp add: encodable_simps)

lemma missing_input_message_ok:
  "run_all [print (''Error: Input file not found: '' @ INPUT_FILE),
            print ''Please run get_all_wiki_docs.sh first to generate the JSON file.''] w =
     (None, w\<lparr>stdout := stdout w
        @ printed [''Error: Input file not found: '' @ INPUT_FILE,
                   ''Please run get_all_wiki_docs.sh first to generate the JSON file.'']\<rparr>)"
  using prints_ok [of "[''Error: Input file not found: '' @ INPUT_FILE,
                   ''Please run get_all_wiki_docs.sh first to generate the JSON file.'']" w]
  by (simp add: encodable_simps)

lemmas blocks_ok =
  console_title_ok console_header_ok dry_intro_ok dry_outro_ok live_outro_ok
  missing_input_message_ok

section \<open>Reading the fields of a descriptor\<close>

lemma getitem_field:
  "has_field doc k \<Longrightarrow> py_getitem doc k = Inr (field_value doc k)"
  by (cases doc) auto

lemma getitem_lacking:
  "\<not> has_field doc k \<Longrightarrow> \<exists>e. py_getitem doc k = Inl e \<and> is_access_error e"
  by (cases doc) (auto split: option.splits)

lemma has_field_iff:
  "has_field doc k \<longleftrightarrow> (\<exists>v. py_getitem doc k = Inr v)"
  by (cases doc) (auto split: option.splits)

lemma field_str:
  "has_field doc k \<Longrightarrow> field env doc k = Inr (field_text env doc k)"
  by (simp add: field_def getitem_field field_text_def)

lemma has_required_fields_iff:
  "has_required_fields d \<longleftrightarrow>
     has_field d ''number'' \<and> has_field d ''title'' \<and> has_field d ''level''
   \<and> has_field d ''node_token'' \<and> has_field d ''document_token'' \<and> has_field d ''url''"
  by (simp add: has_required_fields_def REQUIRED_FIELDS_def)

lemma well_formed_iff:
  "well_formed env d \<longleftrightarrow>
     has_required_fields d
   \<and> encodable (field_text env d ''number'') \<and> encodable (field_text env d ''title'')
   \<and> encodable (field_text env d ''level'') \<and> encodable (field_text env d ''node_token'')
   \<and> encodable (field_text env d ''document_token'') \<and> encodable (field_text env d ''url'')"
  by (auto simp: well_formed_def has_required_fields_iff REQUIRED_FIELDS_def)

lemma with_content_field:
  "k \<noteq> ''content'' \<Longrightarrow> has_field (with_content doc c) k = has_field doc k"
  "k \<noteq> ''content'' \<Longrightarrow> field_value (with_content doc c) k = field_value doc k"
  "k \<noteq> ''content'' \<Longrightarrow> field_text env (with_content doc c) k = field_text env doc k"
  by (cases doc; simp add: update_conv field_text_def)+

lemma with_content_content:
  "has_field doc k \<Longrightarrow> py_get (with_content doc c) ''content'' d = Inr c"
  "has_field doc k \<Longrightarrow> py_getitem (with_content doc c) ''content'' = Inr c"
  "has_field doc k \<Longrightarrow> py_setitem doc ''content'' c = Inr (with_content doc c)"
  by (cases doc; simp add: update_conv)+

lemma fetch_argv_eq:
  "request_argv env tok (field_value doc ''document_token'') = fetch_argv env tok doc"
  by (simp add: request_argv_def curl_argv_def api_url_def fetch_argv_def field_text_def)


section \<open>The fetch of one descriptor\<close>

lemma response_content_eq:
  "(if truthy (content_of_response env r) then content_of_response env r else JNull)
     = response_content env r"
proof (cases "fst r = 0")
  case False
  then show ?thesis by (simp add: content_of_response_def response_content_def)
next
  case True
  show ?thesis
  proof (cases "json_loads env (snd r)")
    case None
    with True show ?thesis
      by (simp add: content_of_response_def response_content_def parse_body_def)
  next
    case (Some v)
    show ?thesis
    proof (cases v)
      case (JObj kvs)
      show ?thesis
      proof (cases "map_of kvs ''code''")
        case None
        with True Some JObj show ?thesis
          by (simp add: content_of_response_def response_content_def parse_body_def)
      next
        case code: (Some c)
        show ?thesis
        proof (cases "py_eq_zero c")
          case False
          with True Some JObj code show ?thesis
            by (simp add: content_of_response_def response_content_def parse_body_def)
        next
          case zero: True
          show ?thesis
          proof (cases "map_of kvs ''data''")
            case None
            with True Some JObj code zero show ?thesis
              by (simp add: content_of_response_def response_content_def parse_body_def)
          next
            case data: (Some d)
            show ?thesis
            proof (cases d)
              case (JObj dkvs)
              with True Some \<open>v = JObj kvs\<close> code zero data show ?thesis
                by (cases "map_of dkvs ''content''")
                   (simp_all add: content_of_response_def response_content_def parse_body_def)
            qed (use True Some JObj code zero data in
                  \<open>simp_all add: content_of_response_def response_content_def parse_body_def\<close>)
          qed
        qed
      qed
    qed (use True Some in
          \<open>simp_all add: content_of_response_def response_content_def parse_body_def\<close>)
  qed
qed

lemma failed_response_content:
  "failed_response env r \<Longrightarrow> response_content env r = JNull"
  by (auto simp: failed_response_def response_content_def split: option.splits json.splits)

lemma get_content_via_api_Inr:
  "subprocess_run env (length (calls w)) (request_argv env tok dt) = Inr r \<Longrightarrow>
     get_content_via_api env dt tok w
       = (Inr (content_of_response env r), w\<lparr>calls := calls w @ [request_argv env tok dt]\<rparr>)"
  by (simp add: get_content_via_api_def Let_def)

lemma get_content_via_api_Inl:
  "subprocess_run env (length (calls w)) (request_argv env tok dt) = Inl name \<Longrightarrow>
     get_content_via_api env dt tok w
       = (Inl (SubprocessError name), w\<lparr>calls := calls w @ [request_argv env tok dt]\<rparr>)"
  by (simp add: get_content_via_api_def Let_def)

text \<open>The two messages that precede the fetch of a descriptor.\<close>

lemma fetch_one_start:
  assumes "has_field doc ''title''" and "has_field doc ''document_token''"
    and "encodable (field_text env doc ''title'')"
    and "encodable (field_text env doc ''document_token'')"
  shows "\<exists>out. fetch_one env tok n i doc w =
           (case get_content_via_api env (field_value doc ''document_token'') tok
                   (w\<lparr>stdout := stdout w @ out\<rparr>) of
              (Inl e, w3) \<Rightarrow> (Inl e, w3)
            | (Inr content, w3) \<Rightarrow>
                if truthy content then
                  (case py_len content of
                     Inl e \<Rightarrow> (Inl e, w3)
                   | Inr m \<Rightarrow>
                       (case print (''  '' @ CHECK_MARK @ '' Content retrieved ('' @ show_nat m
                                      @ '' characters)'') w3 of
                          (Some e, w4) \<Rightarrow> (Inl e, w4)
                        | (None, w4) \<Rightarrow> (Inr (with_content doc content), w4)))
                else
                  (case print (''  '' @ CROSS_MARK @ '' Failed to retrieve content'') w3 of
                     (Some e, w4) \<Rightarrow> (Inl e, w4)
                   | (None, w4) \<Rightarrow> (Inr (with_content doc JNull), w4)))"
proof -
  have t: "py_getitem doc ''title'' = Inr (field_value doc ''title'')"
    and d: "py_getitem doc ''document_token'' = Inr (field_value doc ''document_token'')"
    using assms(1,2) by (simp_all add: getitem_field)
  have p1: "encodable (NL @ ''['' @ show_nat i @ ''/'' @ show_nat n @ ''] Retrieving: ''
              @ py_str (str_repr env) (field_value doc ''title''))"
    using assms(3) by (simp add: encodable_simps field_text_def)
  have p2: "encodable (''  Token: '' @ py_str (str_repr env) (field_value doc ''document_token''))"
    using assms(4) by (simp add: encodable_simps field_text_def)
  have s: "\<And>c. py_setitem doc ''content'' c = Inr (with_content doc c)"
    using assms(1) by (rule with_content_content(3))
  show ?thesis
    unfolding fetch_one_def t d sum.case print_ok [OF p1] print_ok [OF p2] prod.case option.case s
    by (intro exI [of _ "(NL @ ''['' @ show_nat i @ ''/'' @ show_nat n @ ''] Retrieving: ''
              @ py_str (str_repr env) (field_value doc ''title'')) @ NL
              @ (''  Token: '' @ py_str (str_repr env) (field_value doc ''document_token'')) @ NL"])
       simp
qed

lemma fetch_one_ok:
  assumes "has_field doc ''title''" and "has_field doc ''document_token''"
    and "encodable (field_text env doc ''title'')"
    and "encodable (field_text env doc ''document_token'')"
    and "subprocess_run env (length (calls w)) (fetch_argv env tok doc) = Inr r"
    and "usable_content (response_content env r)"
  shows "\<exists>out. fetch_one env tok n i doc w =
           (Inr (with_content doc (response_content env r)),
            w\<lparr>stdout := stdout w @ out, calls := calls w @ [fetch_argv env tok doc]\<rparr>)"
proof -
  from fetch_one_start [OF assms(1-4), of tok n i w] obtain out where
    f: "fetch_one env tok n i doc w =
           (case get_content_via_api env (field_value doc ''document_token'') tok
                   (w\<lparr>stdout := stdout w @ out\<rparr>) of
              (Inl e, w3) \<Rightarrow> (Inl e, w3)
            | (Inr content, w3) \<Rightarrow>
                if truthy content then
                  (case py_len content of
                     Inl e \<Rightarrow> (Inl e, w3)
                   | Inr m \<Rightarrow>
                       (case print (''  '' @ CHECK_MARK @ '' Content retrieved ('' @ show_nat m
                                      @ '' characters)'') w3 of
                          (Some e, w4) \<Rightarrow> (Inl e, w4)
                        | (None, w4) \<Rightarrow> (Inr (with_content doc content), w4)))
                else
                  (case print (''  '' @ CROSS_MARK @ '' Failed to retrieve content'') w3 of
                     (Some e, w4) \<Rightarrow> (Inl e, w4)
                   | (None, w4) \<Rightarrow> (Inr (with_content doc JNull), w4)))"
    by (elim exE)
  define w2 where "w2 = w\<lparr>stdout := stdout w @ out\<rparr>"
  have "subprocess_run env (length (calls w2))
          (request_argv env tok (field_value doc ''document_token'')) = Inr r"
    using assms(5) by (simp add: w2_def fetch_argv_eq)
  from get_content_via_api_Inr [OF this]
  have g: "get_content_via_api env (field_value doc ''document_token'') tok w2
       = (Inr (content_of_response env r), w2\<lparr>calls := calls w2 @ [fetch_argv env tok doc]\<rparr>)"
    by (simp add: fetch_argv_eq)
  define w3 where "w3 = w2\<lparr>calls := calls w2 @ [fetch_argv env tok doc]\<rparr>"
  show ?thesis
  proof (cases "truthy (content_of_response env r)")
    case True
    with response_content_eq [of env r]
    have c: "content_of_response env r = response_content env r" by simp
    with True assms(6) obtain s where s: "response_content env r = JStr s"
      by (cases "response_content env r") simp_all
    have "fetch_one env tok n i doc w =
            (Inr (with_content doc (response_content env r)),
             w3\<lparr>stdout := stdout w3 @ (''  '' @ CHECK_MARK @ '' Content retrieved (''
                   @ show_nat (length (code_points s)) @ '' characters)'') @ NL\<rparr>)"
      using f g True c s
      by (simp add: w2_def [symmetric] w3_def [symmetric] print_def encodable_simps)
    then show ?thesis
      by (intro exI [of _ "out @ (''  '' @ CHECK_MARK @ '' Content retrieved (''
                   @ show_nat (length (code_points s)) @ '' characters)'') @ NL"])
         (simp add: w3_def w2_def)
  next
    case False
    with response_content_eq [of env r]
    have c: "response_content env r = JNull" by simp
    have "fetch_one env tok n i doc w =
            (Inr (with_content doc (response_content env r)),
             w3\<lparr>stdout := stdout w3 @ (''  '' @ CROSS_MARK @ '' Failed to retrieve content'') @ NL\<rparr>)"
      using f g False c
      by (simp add: w2_def [symmetric] w3_def [symmetric] print_def encodable_simps)
    then show ?thesis
      by (intro exI [of _ "out @ (''  '' @ CROSS_MARK @ '' Failed to retrieve content'') @ NL"])
         (simp add: w3_def w2_def)
  qed
qed

lemma fetch_one_frame:
  "files (snd (fetch_one env tok n i doc w)) = files w"
  "environ (snd (fetch_one env tok n i doc w)) = environ w"
  unfolding fetch_one_def
  by (auto simp: print_def get_content_via_api_def Let_def
           split: sum.splits prod.splits if_splits option.splits)

lemma fetch_one_Inr:
  assumes "fetch_one env tok n i doc w = (Inr doc', w')"
  shows "has_field doc ''title'' \<and> has_field doc ''document_token''
       \<and> encodable (field_text env doc ''title'')
       \<and> encodable (field_text env doc ''document_token'')"
    and "\<exists>r. subprocess_run env (length (calls w)) (fetch_argv env tok doc) = Inr r
           \<and> doc' = with_content doc (response_content env r)"
    and "calls w' = calls w @ [fetch_argv env tok doc]"
proof -
  have t: "has_field doc ''title''"
  proof (rule ccontr)
    assume "\<not> has_field doc ''title''"
    then obtain e where "py_getitem doc ''title'' = Inl e"
      using getitem_lacking by blast
    with assms show False by (simp add: fetch_one_def)
  qed
  then have gt: "py_getitem doc ''title'' = Inr (field_value doc ''title'')"
    by (rule getitem_field)
  have et: "encodable (field_text env doc ''title'')"
  proof (rule ccontr)
    assume "\<not> encodable (field_text env doc ''title'')"
    then have "\<not> encodable (NL @ ''['' @ show_nat i @ ''/'' @ show_nat n @ ''] Retrieving: ''
              @ py_str (str_repr env) (field_value doc ''title''))"
      by (simp add: encodable_simps field_text_def)
    with assms gt show False by (simp add: fetch_one_def print_def)
  qed
  then have p1: "encodable (NL @ ''['' @ show_nat i @ ''/'' @ show_nat n @ ''] Retrieving: ''
              @ py_str (str_repr env) (field_value doc ''title''))"
    by (simp add: encodable_simps field_text_def)
  have d: "has_field doc ''document_token''"
  proof (rule ccontr)
    assume "\<not> has_field doc ''document_token''"
    then obtain e where "py_getitem doc ''document_token'' = Inl e"
      using getitem_lacking by blast
    with assms gt p1 show False by (simp add: fetch_one_def print_def)
  qed
  then have gd: "py_getitem doc ''document_token'' = Inr (field_value doc ''document_token'')"
    by (rule getitem_field)
  have ed: "encodable (field_text env doc ''document_token'')"
  proof (rule ccontr)
    assume "\<not> encodable (field_text env doc ''document_token'')"
    then have "\<not> encodable (''  Token: ''
                 @ py_str (str_repr env) (field_value doc ''document_token''))"
      by (simp add: encodable_simps field_text_def)
    with assms gt gd p1 show False by (simp add: fetch_one_def print_def)
  qed
  from t d et ed
  show "has_field doc ''title'' \<and> has_field doc ''document_token''
       \<and> encodable (field_text env doc ''title'')
       \<and> encodable (field_text env doc ''document_token'')"
    by simp
  from fetch_one_start [OF t d et ed, of tok n i w] obtain out where
    f: "fetch_one env tok n i doc w =
           (case get_content_via_api env (field_value doc ''document_token'') tok
                   (w\<lparr>stdout := stdout w @ out\<rparr>) of
              (Inl e, w3) \<Rightarrow> (Inl e, w3)
            | (Inr content, w3) \<Rightarrow>
                if truthy content then
                  (case py_len content of
                     Inl e \<Rightarrow> (Inl e, w3)
                   | Inr m \<Rightarrow>
                       (case print (''  '' @ CHECK_MARK @ '' Content retrieved ('' @ show_nat m
                                      @ '' characters)'') w3 of
                          (Some e, w4) \<Rightarrow> (Inl e, w4)
                        | (None, w4) \<Rightarrow> (Inr (with_content doc content), w4)))
                else
                  (case print (''  '' @ CROSS_MARK @ '' Failed to retrieve content'') w3 of
                     (Some e, w4) \<Rightarrow> (Inl e, w4)
                   | (None, w4) \<Rightarrow> (Inr (with_content doc JNull), w4)))"
    by (elim exE)
  define w2 where "w2 = w\<lparr>stdout := stdout w @ out\<rparr>"
  have cw2: "calls w2 = calls w" by (simp add: w2_def)
  obtain r where r: "subprocess_run env (length (calls w)) (fetch_argv env tok doc) = Inr r"
  proof (cases "subprocess_run env (length (calls w)) (fetch_argv env tok doc)")
    case (Inl name)
    then have "subprocess_run env (length (calls w2))
                 (request_argv env tok (field_value doc ''document_token'')) = Inl name"
      by (simp add: cw2 fetch_argv_eq)
    from get_content_via_api_Inl [OF this] f assms show ?thesis
      by (simp add: w2_def)
  next
    case (Inr r)
    then show ?thesis by (rule that)
  qed
  then have "subprocess_run env (length (calls w2))
               (request_argv env tok (field_value doc ''document_token'')) = Inr r"
    by (simp add: cw2 fetch_argv_eq)
  from get_content_via_api_Inr [OF this]
  have g: "get_content_via_api env (field_value doc ''document_token'') tok w2
       = (Inr (content_of_response env r), w2\<lparr>calls := calls w2 @ [fetch_argv env tok doc]\<rparr>)"
    by (simp add: fetch_argv_eq)
  have both: "doc' = with_content doc (response_content env r)
            \<and> calls w' = calls w @ [fetch_argv env tok doc]"
  proof (cases "truthy (content_of_response env r)")
    case True
    with response_content_eq [of env r]
    have c: "content_of_response env r = response_content env r" by simp
    from f g True assms show ?thesis
      unfolding w2_def [symmetric] c
      by (auto simp: print_def cw2 split: sum.splits if_splits)
  next
    case False
    with response_content_eq [of env r]
    have c: "response_content env r = JNull" by simp
    from f g False assms show ?thesis
      unfolding w2_def [symmetric] c
      by (auto simp: print_def cw2 split: sum.splits if_splits)
  qed
  with r show "\<exists>r. subprocess_run env (length (calls w)) (fetch_argv env tok doc) = Inr r
           \<and> doc' = with_content doc (response_content env r)"
    by (intro exI [of _ r]) simp
  from both show "calls w' = calls w @ [fetch_argv env tok doc]" by simp
qed

section \<open>The fetch loop\<close>

lemma fetch_loop_frame:
  "files (snd (fetch_loop env tok n i docs results w)) = files w \<and>
   environ (snd (fetch_loop env tok n i docs results w)) = environ w"
proof (induction docs arbitrary: i results w)
  case Nil
  show ?case by simp
next
  case (Cons doc docs)
  obtain r w1 where f: "fetch_one env tok n i doc w = (r, w1)"
    by (cases "fetch_one env tok n i doc w")
  from fetch_one_frame [of env tok n i doc w] f
  have w1: "files w1 = files w \<and> environ w1 = environ w" by simp
  show ?case
  proof (cases r)
    case (Inl e)
    with f w1 show ?thesis by simp
  next
    case (Inr doc')
    with f w1 Cons.IH [of "Suc i" "results @ [doc']" w1] show ?thesis by simp
  qed
qed

lemma fetch_loop_ok:
  assumes "length rs = length docs"
    and "\<forall>j<length docs.
            subprocess_run env (length (calls w) + j) (fetch_argv env tok (docs ! j))
              = Inr (rs ! j)"
    and "\<forall>d\<in>set docs. has_field d ''title'' \<and> has_field d ''document_token''
            \<and> encodable (field_text env d ''title'')
            \<and> encodable (field_text env d ''document_token'')"
    and "\<forall>r\<in>set rs. usable_content (response_content env r)"
  shows "\<exists>out. fetch_loop env tok n i docs results w =
           (Inr (results @ map (\<lambda>(d, r). with_content d (response_content env r)) (zip docs rs)),
            w\<lparr>stdout := stdout w @ out, calls := calls w @ map (fetch_argv env tok) docs\<rparr>)"
  using assms
proof (induction docs arbitrary: rs i results w)
  case Nil
  then show ?case by (intro exI [of _ "[]"]) simp
next
  case (Cons doc docs)
  from Cons.prems(1) obtain r rs' where rs: "rs = r # rs'" and len: "length rs' = length docs"
    by (cases rs) simp_all
  from Cons.prems(2) have r: "subprocess_run env (length (calls w)) (fetch_argv env tok doc) = Inr r"
    by (auto simp: rs dest: spec [of _ 0])
  from Cons.prems(3) have d: "has_field doc ''title''" "has_field doc ''document_token''"
    "encodable (field_text env doc ''title'')" "encodable (field_text env doc ''document_token'')"
    by simp_all
  from Cons.prems(4) have u: "usable_content (response_content env r)" by (simp add: rs)
  from fetch_one_ok [OF d r u, of n i] obtain out1 where
    one: "fetch_one env tok n i doc w =
           (Inr (with_content doc (response_content env r)),
            w\<lparr>stdout := stdout w @ out1, calls := calls w @ [fetch_argv env tok doc]\<rparr>)"
    by (elim exE)
  define w1 where "w1 = w\<lparr>stdout := stdout w @ out1, calls := calls w @ [fetch_argv env tok doc]\<rparr>"
  have a2: "\<forall>j<length docs.
            subprocess_run env (length (calls w1) + j) (fetch_argv env tok (docs ! j))
              = Inr (rs' ! j)"
  proof (intro allI impI)
    fix j assume "j < length docs"
    then have "Suc j < length (doc # docs)" by simp
    with Cons.prems(2) have "subprocess_run env (length (calls w) + Suc j)
            (fetch_argv env tok ((doc # docs) ! Suc j)) = Inr (rs ! Suc j)"
      by blast
    then show "subprocess_run env (length (calls w1) + j) (fetch_argv env tok (docs ! j))
              = Inr (rs' ! j)"
      by (simp add: w1_def rs)
  qed
  have a3: "\<forall>d\<in>set docs. has_field d ''title'' \<and> has_field d ''document_token''
            \<and> encodable (field_text env d ''title'')
            \<and> encodable (field_text env d ''document_token'')"
    using Cons.prems(3) by simp
  have a4: "\<forall>r\<in>set rs'. usable_content (response_content env r)"
    using Cons.prems(4) by (simp add: rs)
  from Cons.IH [OF len a2 a3 a4, of "Suc i" "results @ [with_content doc (response_content env r)]"]
  obtain out2 where
    rest: "fetch_loop env tok n (Suc i) docs
             (results @ [with_content doc (response_content env r)]) w1 =
           (Inr ((results @ [with_content doc (response_content env r)])
                  @ map (\<lambda>(d, r). with_content d (response_content env r)) (zip docs rs')),
            w1\<lparr>stdout := stdout w1 @ out2, calls := calls w1 @ map (fetch_argv env tok) docs\<rparr>)"
    by (elim exE)
  show ?case
    using one rest
    by (intro exI [of _ "out1 @ out2"]) (simp add: w1_def rs)
qed

lemma fetch_loop_Inr:
  assumes "fetch_loop env tok n i docs results w = (Inr all, w')"
  shows "\<exists>rs. length rs = length docs
          \<and> (\<forall>j<length docs.
                subprocess_run env (length (calls w) + j) (fetch_argv env tok (docs ! j))
                  = Inr (rs ! j))
          \<and> all = results @ map (\<lambda>(d, r). with_content d (response_content env r)) (zip docs rs)
          \<and> (\<forall>d\<in>set docs. has_field d ''title'' \<and> has_field d ''document_token''
                \<and> encodable (field_text env d ''title'')
                \<and> encodable (field_text env d ''document_token''))
          \<and> calls w' = calls w @ map (fetch_argv env tok) docs"
  using assms
proof (induction docs arbitrary: i results w)
  case Nil
  then show ?case by simp
next
  case (Cons doc docs)
  obtain x w1 where f: "fetch_one env tok n i doc w = (x, w1)"
    by (cases "fetch_one env tok n i doc w")
  with Cons.prems obtain doc' where x: "x = Inr doc'"
    by (cases x) auto
  with f Cons.prems
  have loop: "fetch_loop env tok n (Suc i) docs (results @ [doc']) w1 = (Inr all, w')"
    by simp
  note one = fetch_one_Inr [OF f [unfolded x]]
  from one(2) obtain r where
    r: "subprocess_run env (length (calls w)) (fetch_argv env tok doc) = Inr r"
       "doc' = with_content doc (response_content env r)"
    by (elim exE conjE)
  from Cons.IH [OF loop] obtain rs where
    rs: "length rs = length docs"
        "\<forall>j<length docs.
                subprocess_run env (length (calls w1) + j) (fetch_argv env tok (docs ! j))
                  = Inr (rs ! j)"
        "all = (results @ [doc'])
                 @ map (\<lambda>(d, r). with_content d (response_content env r)) (zip docs rs)"
        "\<forall>d\<in>set docs. has_field d ''title'' \<and> has_field d ''document_token''
                \<and> encodable (field_text env d ''title'')
                \<and> encodable (field_text env d ''document_token'')"
        "calls w' = calls w1 @ map (fetch_argv env tok) docs"
    by (elim exE conjE)
  have a: "\<forall>j<length (doc # docs).
                subprocess_run env (length (calls w) + j) (fetch_argv env tok ((doc # docs) ! j))
                  = Inr ((r # rs) ! j)"
  proof (intro allI impI)
    fix j assume j: "j < length (doc # docs)"
    show "subprocess_run env (length (calls w) + j) (fetch_argv env tok ((doc # docs) ! j))
                  = Inr ((r # rs) ! j)"
    proof (cases j)
      case 0
      with r(1) show ?thesis by simp
    next
      case (Suc j')
      with j have "j' < length docs" by simp
      with rs(2) have "subprocess_run env (length (calls w1) + j') (fetch_argv env tok (docs ! j'))
                  = Inr (rs ! j')"
        by blast
      with Suc one(3) show ?thesis by simp
    qed
  qed
  show ?case
    using rs(1) a rs(3) r(2) one(1) rs(4) rs(5) one(3)
    by (intro exI [of _ "r # rs"]) simp
qed


section \<open>The report writer\<close>

lemma write_banner_ok:
  "write_banner f = (None, f @ report_header)"
  by (simp add: write_banner_def fwrite_def report_header_def encodable_simps)

lemma write_doc_ok:
  assumes "well_formed env doc" and "usable_content c"
  shows "write_doc env (with_content doc c) f = (None, f @ report_entry env doc c)"
proof -
  let ?d = "with_content doc c"
  from assms(1) have h: "has_field doc ''number''" "has_field doc ''title''"
    "has_field doc ''level''" "has_field doc ''node_token''" "has_field doc ''document_token''"
    "has_field doc ''url''"
    and e: "encodable (field_text env doc ''number'')" "encodable (field_text env doc ''title'')"
    "encodable (field_text env doc ''level'')" "encodable (field_text env doc ''node_token'')"
    "encodable (field_text env doc ''document_token'')" "encodable (field_text env doc ''url'')"
    by (simp_all add: well_formed_iff has_required_fields_iff)
  have fld: "field env ?d ''number'' = Inr (field_text env doc ''number'')"
    "field env ?d ''title'' = Inr (field_text env doc ''title'')"
    "field env ?d ''level'' = Inr (field_text env doc ''level'')"
    "field env ?d ''node_token'' = Inr (field_text env doc ''node_token'')"
    "field env ?d ''document_token'' = Inr (field_text env doc ''document_token'')"
    "field env ?d ''url'' = Inr (field_text env doc ''url'')"
    using h by (simp_all add: field_str with_content_field)
  have l1: "\<And>f. fwrite (title_line env ?d) f =
      (None, f @ PAGE @ '' DOCUMENT '' @ field_text env doc ''number'' @ '': ''
                 @ field_text env doc ''title'' @ NL)"
    using e by (simp add: title_line_def fld fwrite_def encodable_simps)
  have l2: "\<And>f. fwrite (field_line env ?d ''   Level: '' ''level'') f =
      (None, f @ ''   Level: '' @ field_text env doc ''level'' @ NL)"
    using e by (simp add: field_line_def fld fwrite_def encodable_simps)
  have l3: "\<And>f. fwrite (field_line env ?d ''   Node Token: '' ''node_token'') f =
      (None, f @ ''   Node Token: '' @ field_text env doc ''node_token'' @ NL)"
    using e by (simp add: field_line_def fld fwrite_def encodable_simps)
  have l4: "\<And>f. fwrite (field_line env ?d ''   Document Token: '' ''document_token'') f =
      (None, f @ ''   Document Token: '' @ field_text env doc ''document_token'' @ NL)"
    using e by (simp add: field_line_def fld fwrite_def encodable_simps)
  have l5: "\<And>f. fwrite (field_line env ?d ''   URL: '' ''url'') f =
      (None, f @ ''   URL: '' @ field_text env doc ''url'' @ NL)"
    using e by (simp add: field_line_def fld fwrite_def encodable_simps)
  have l6: "\<And>f. fwrite (Inr (NL @ RULE_DASH @ NL @ NL)) f = (None, f @ NL @ RULE_DASH @ NL @ NL)"
    by (simp add: fwrite_def encodable_simps)
  have l8: "\<And>f. fwrite (Inr (RULE_DASH @ NL @ NL)) f = (None, f @ RULE_DASH @ NL @ NL)"
    by (simp add: fwrite_def encodable_simps)
  have g: "py_get ?d ''content'' JNull = Inr c" "py_getitem ?d ''content'' = Inr c"
    using h(1) by (simp_all add: with_content_content)
  have l7: "\<And>f. write_content ?d f = (None, f @ entry_body c)"
  proof -
    fix f
    show "write_content ?d f = (None, f @ entry_body c)"
    proof (cases c)
      case (JStr s)
      with assms(2) have "encodable s" by simp
      with JStr g show ?thesis
        by (simp add: write_content_def content_text_def fwrite_def encodable_simps)
    next
      case JNull
      with g show ?thesis
        by (simp add: write_content_def fwrite_def encodable_simps)
    qed (use assms(2) in simp_all)
  qed
  show ?thesis
    unfolding write_doc_def
    by (simp add: l1 l2 l3 l4 l5 l6 l7 l8 report_entry_def entry_heading_def)
qed

lemma write_docs_ok:
  assumes "length rs = length docs"
    and "\<forall>d\<in>set docs. well_formed env d"
    and "\<forall>r\<in>set rs. usable_content (response_content env r)"
  shows "run_all (map (write_doc env)
            (map (\<lambda>(d, r). with_content d (response_content env r)) (zip docs rs))) f
         = (None, f @ concat (map (\<lambda>(d, r). report_entry env d (response_content env r))
                                  (zip docs rs)))"
  using assms
proof (induction docs arbitrary: rs f)
  case Nil
  then show ?case by simp
next
  case (Cons doc docs)
  from Cons.prems(1) obtain r rs' where rs: "rs = r # rs'" and len: "length rs' = length docs"
    by (cases rs) simp_all
  from Cons.prems have d: "well_formed env doc" and u: "usable_content (response_content env r)"
    by (simp_all add: rs)
  have a2: "\<forall>d\<in>set docs. well_formed env d" using Cons.prems(2) by simp
  have a3: "\<forall>r\<in>set rs'. usable_content (response_content env r)"
    using Cons.prems(3) by (simp add: rs)
  show ?case
    using write_doc_ok [OF d u] Cons.IH [OF len a2 a3]
    by (simp add: rs)
qed

lemma write_report_ok:
  assumes "length rs = length docs"
    and "\<forall>d\<in>set docs. well_formed env d"
    and "\<forall>r\<in>set rs. usable_content (response_content env r)"
  shows "write_report env (map (\<lambda>(d, r). with_content d (response_content env r)) (zip docs rs)) w
         = (None, w\<lparr>files := (files w)(OUTPUT_FILE \<mapsto> report_text env docs rs)\<rparr>)"
proof -
  have "map (\<lambda>(d, r). report_entry env d (response_content env r)) (zip docs rs)
      = map (\<lambda>j. report_entry env (docs ! j) (response_content env (rs ! j))) [0..<length docs]"
    using assms(1) by (intro nth_equalityI) simp_all
  then show ?thesis
    using write_docs_ok [OF assms, of report_header] write_banner_ok [of "[]"]
    by (simp add: write_report_def report_text_def entries_def)
qed

lemma write_report_frame:
  "files (snd (write_report env results w))
     = (files w)(OUTPUT_FILE \<mapsto> snd (run_all (write_banner # map (write_doc env) results) []))"
  "calls (snd (write_report env results w)) = calls w"
  "environ (snd (write_report env results w)) = environ w"
  "fst (write_report env results w)
     = fst (run_all (write_banner # map (write_doc env) results) [])"
  by (simp_all add: write_report_def split: prod.splits)


section \<open>How \<^verbatim>\<open>main\<close> decomposes\<close>

lemma main_live:
  assumes "files w INPUT_FILE = Some inp"
    and "json_loads env inp = Some documents"
    and "py_len documents = Inr n"
    and "environ w ''LARK_USER_ACCESS_TOKEN'' = Some user_token"
    and "user_token \<noteq> []"
  shows "\<exists>out. main env w = live_mode env documents n user_token (w\<lparr>stdout := stdout w @ out\<rparr>)"
  using assms
  by (intro exI [of _ "printed [RULE_EQ, ''Lark Wiki Document Content Retrieval'', RULE_EQ]
        @ printed [NL @ ''Found '' @ show_nat n @ '' documents'', ''Input: '' @ INPUT_FILE,
                   ''Output: '' @ OUTPUT_FILE, NL @ RULE_DASH]"])
     (simp add: main_def blocks_ok)

lemma main_dry:
  assumes "files w INPUT_FILE = Some inp"
    and "json_loads env inp = Some documents"
    and "py_len documents = Inr n"
    and "\<not> has_token w"
  shows "\<exists>out. main env w = dry_mode env documents (w\<lparr>stdout := stdout w @ out\<rparr>)"
  using assms
  by (intro exI [of _ "printed [RULE_EQ, ''Lark Wiki Document Content Retrieval'', RULE_EQ]
        @ printed [NL @ ''Found '' @ show_nat n @ '' documents'', ''Input: '' @ INPUT_FILE,
                   ''Output: '' @ OUTPUT_FILE, NL @ RULE_DASH]"])
     (auto simp: main_def blocks_ok has_token_def split: option.splits)

lemma has_token_iff:
  "has_token w \<longleftrightarrow> (\<exists>t. environ w ''LARK_USER_ACCESS_TOKEN'' = Some t \<and> t \<noteq> [])"
  by (auto simp: has_token_def split: option.splits)

lemma live_mode_outcome:
  "fst (live_mode env documents n tok w) = Exit 0
   \<or> (\<exists>e. fst (live_mode env documents n tok w) = Uncaught e)"
  by (auto simp: live_mode_def blocks_ok split: sum.splits prod.splits option.splits)

section \<open>A live run over a well-formed batch\<close>

lemma live_mode_ok:
  assumes "\<forall>d\<in>set docs. well_formed env d"
    and "answers env w user_token docs rs"
    and "\<forall>r\<in>set rs. usable_content (response_content env r)"
  shows "\<exists>out. live_mode env (JArr docs) n user_token w =
           (Exit 0, w\<lparr>files := (files w)(OUTPUT_FILE \<mapsto> report_text env docs rs),
                       stdout := stdout w @ out,
                       calls := calls w @ map (fetch_argv env user_token) docs\<rparr>)"
proof -
  from assms(2) have len: "length rs = length docs"
    and ans: "\<forall>j<length docs.
            subprocess_run env (length (calls w) + j) (fetch_argv env user_token (docs ! j))
              = Inr (rs ! j)"
    by (auto simp: answers_def list_all_iff)
  have td: "\<forall>d\<in>set docs. has_field d ''title'' \<and> has_field d ''document_token''
            \<and> encodable (field_text env d ''title'')
            \<and> encodable (field_text env d ''document_token'')"
    using assms(1) by (simp add: well_formed_iff has_required_fields_iff)
  from fetch_loop_ok [OF len ans td assms(3), of n 1 "[]"] obtain out1 where
    loop: "fetch_loop env user_token n 1 docs [] w =
           (Inr ([] @ map (\<lambda>(d, r). with_content d (response_content env r)) (zip docs rs)),
            w\<lparr>stdout := stdout w @ out1, calls := calls w @ map (fetch_argv env user_token) docs\<rparr>)"
    by (elim exE)
  note rep = write_report_ok [OF len assms(1) assms(3)]
  show ?thesis
    using loop
    by (intro exI [of _ "out1 @ printed [NL @ RULE_EQ, CHECK_MARK @ '' Content retrieval complete!'',
                   FOLDER @ '' Output saved to: '' @ OUTPUT_FILE, RULE_EQ]"])
       (simp add: live_mode_def rep blocks_ok)
qed

lemma live_run_ok:
  assumes "files w INPUT_FILE = Some inp"
    and "json_loads env inp = Some (JArr docs)"
    and "environ w ''LARK_USER_ACCESS_TOKEN'' = Some user_token"
    and "user_token \<noteq> []"
    and "batch_ok env w user_token docs rs"
  shows "\<exists>out. main env w =
           (Exit 0, w\<lparr>files := (files w)(OUTPUT_FILE \<mapsto> report_text env docs rs),
                       stdout := stdout w @ out,
                       calls := calls w @ map (fetch_argv env user_token) docs\<rparr>)"
proof -
  from main_live [OF assms(1,2) _ assms(3,4), of "length docs"] obtain out0 where
    m: "main env w = live_mode env (JArr docs) (length docs) user_token
                       (w\<lparr>stdout := stdout w @ out0\<rparr>)"
    by auto
  from assms(5) have b: "\<forall>d\<in>set docs. well_formed env d"
    "answers env w user_token docs rs"
    "\<forall>r\<in>set rs. usable_content (response_content env r)"
    by (simp_all add: batch_ok_def list_all_iff)
  have a: "answers env (w\<lparr>stdout := stdout w @ out0\<rparr>) user_token docs rs"
    using b(2) by (simp add: answers_def)
  from live_mode_ok [OF b(1) a b(3), of "length docs"] obtain out1 where
    "live_mode env (JArr docs) (length docs) user_token (w\<lparr>stdout := stdout w @ out0\<rparr>) =
           (Exit 0, w\<lparr>stdout := stdout w @ out0,
                       files := (files w)(OUTPUT_FILE \<mapsto> report_text env docs rs),
                       stdout := stdout w @ out0 @ out1,
                       calls := calls w @ map (fetch_argv env user_token) docs\<rparr>)"
    by auto
  with m show ?thesis
    by (intro exI [of _ "out0 @ out1"]) simp
qed

section \<open>Dry mode\<close>

lemma list_documents_frame:
  "files (snd (list_documents env docs w)) = files w \<and>
   environ (snd (list_documents env docs w)) = environ w \<and>
   calls (snd (list_documents env docs w)) = calls w"
proof (induction docs arbitrary: w)
  case Nil
  show ?case by simp
next
  case (Cons d docs)
  show ?case
    using Cons.IH
    by (auto simp: print_def split: sum.splits prod.splits option.splits)
qed

lemma list_documents_ok:
  assumes "\<forall>d\<in>set docs. has_field d ''title'' \<and> has_field d ''document_token''
             \<and> encodable (field_text env d ''title'')
             \<and> encodable (field_text env d ''document_token'')"
  shows "list_documents env docs w =
           (None, w\<lparr>stdout := stdout w @ concat (map (listing_line env) docs)\<rparr>)"
  using assms
proof (induction docs arbitrary: w)
  case Nil
  show ?case by simp
next
  case (Cons d docs)
  then have h: "has_field d ''title''" "has_field d ''document_token''"
    and e: "encodable (field_text env d ''title'')" "encodable (field_text env d ''document_token'')"
    and rest: "\<forall>d\<in>set docs. has_field d ''title'' \<and> has_field d ''document_token''
             \<and> encodable (field_text env d ''title'')
             \<and> encodable (field_text env d ''document_token'')"
    by simp_all
  have p: "encodable (''  '' @ BULLET @ '' '' @ field_text env d ''title'' @ '': ''
              @ field_text env d ''document_token'')"
    using e by (simp add: encodable_simps)
  show ?case
    using h p Cons.IH [OF rest]
    by (simp add: getitem_field print_def listing_line_def field_text_def)
qed

lemma list_documents_lacking:
  assumes "\<exists>d\<in>set docs. \<not> has_field d ''title'' \<or> \<not> has_field d ''document_token''"
  shows "\<exists>e. fst (list_documents env docs w) = Some e"
  using assms
proof (induction docs arbitrary: w)
  case Nil
  then show ?case by simp
next
  case (Cons d docs)
  show ?case
  proof (cases "has_field d ''title'' \<and> has_field d ''document_token''")
    case False
    then have "(\<exists>e. py_getitem d ''title'' = Inl e)
             \<or> (\<exists>e. py_getitem d ''document_token'' = Inl e)"
      using getitem_lacking by blast
    then show ?thesis by (auto split: sum.splits)
  next
    case True
    with Cons.prems
    have "\<exists>d\<in>set docs. \<not> has_field d ''title'' \<or> \<not> has_field d ''document_token''"
      by auto
    from Cons.IH [OF this] True show ?thesis
      by (auto simp: getitem_field split: prod.splits option.splits)
  qed
qed

lemma dry_mode_frame:
  "files (snd (dry_mode env documents w)) = files w \<and>
   environ (snd (dry_mode env documents w)) = environ w \<and>
   calls (snd (dry_mode env documents w)) = calls w"
proof (cases "py_iter documents")
  case (Inl e)
  then show ?thesis by (simp add: dry_mode_def blocks_ok)
next
  case (Inr docs)
  define w1 where "w1 = w\<lparr>stdout := stdout w
        @ printed [NL @ WARNING_SIGN @ ''  User Access Token not found!'',
                   NL @ ''To retrieve content, you need:'',
                   ''  1. Set LARK_USER_ACCESS_TOKEN environment variable'',
                   ''     OR'',
                   ''  2. Use MCP tools manually (docx.v1.document.rawContent)'',
                   NL @ CLIPBOARD @ '' Document Tokens to retrieve:'',
                   []]\<rparr>"
  obtain r w2 where l: "list_documents env docs w1 = (r, w2)"
    by (cases "list_documents env docs w1")
  from list_documents_frame [of env docs w1] l
  have f: "files w2 = files w \<and> environ w2 = environ w \<and> calls w2 = calls w"
    by (simp add: w1_def)
  show ?thesis
    using Inr l f
    by (cases r) (simp_all add: dry_mode_def blocks_ok w1_def [symmetric])
qed


lemma entry_with_text:
  "s \<noteq> [] \<Longrightarrow>
     report_entry env doc (JStr s) = entry_heading env doc @ s @ NL @ NL @ RULE_DASH @ NL @ NL"
  by (simp add: report_entry_def)

lemma entry_without_content:
  "report_entry env doc JNull =
     entry_heading env doc @ ''[Content not available]'' @ NL @ NL @ RULE_DASH @ NL @ NL"
  by (simp add: report_entry_def)

lemma live_run_result:
  assumes "files w INPUT_FILE = Some inp"
    and "json_loads env inp = Some (JArr docs)"
    and "environ w ''LARK_USER_ACCESS_TOKEN'' = Some user_token"
    and "user_token \<noteq> []"
    and "batch_ok env w user_token docs rs"
  shows "fst (main env w) = Exit 0"
    and "files (snd (main env w)) = (files w)(OUTPUT_FILE \<mapsto> report_text env docs rs)"
    and "calls (snd (main env w)) = calls w @ map (fetch_argv env user_token) docs"
    and "environ (snd (main env w)) = environ w"
  using live_run_ok [OF assms] by auto

lemma report_text_split:
  assumes "j < length docs"
  shows "report_text env docs rs =
           report_header @ entries env docs rs [0..<j]
             @ report_entry env (docs ! j) (response_content env (rs ! j))
             @ entries env docs rs [Suc j..<length docs]"
proof -
  have "[0..<length docs] = [0..<j] @ j # [Suc j..<length docs]"
    using assms by (metis less_imp_le_nat upt_add_eq_append upt_conv_Cons le0 le_add_diff_inverse plus_nat.add_0)
  then show ?thesis by (simp add: report_text_def entries_def)
qed

lemma response_content_hello:
  assumes "json_loads env body =
             Some (JObj [(''code'', JInt 0), (''data'', JObj [(''content'', JStr ''hello'')])])"
  shows "response_content env (0, body) = JStr ''hello''"
  using assms by (simp add: response_content_def)

lemma response_content_refused:
  assumes "json_loads env body = None
           \<or> (\<exists>kvs. json_loads env body = Some (JObj kvs) \<and> map_of kvs ''code'' = Some (JInt 1))"
  shows "response_content env (rc, body) = JNull"
  using assms by (auto simp: response_content_def)

lemma response_content_missing:
  assumes "json_loads env body = Some (JObj kvs)"
    and "map_of kvs ''code'' = Some c"
    and "py_eq_zero c"
    and "map_of kvs ''data'' = None
         \<or> (\<exists>d. map_of kvs ''data'' = Some (JObj d) \<and> map_of d ''content'' = None)"
  shows "response_content env (0, body) = JNull"
    and "content_of_response env (0, body) = JStr []"
  using assms
  by (auto simp: response_content_def content_of_response_def parse_body_def)


section \<open>The input file is missing\<close>

text \<open>
  Claim C5. If the input file does not exist, the program exits with status 1 and writes
  no output file: the files (the output path among them), the process environment and the
  list of transport invocations are what they were; only the two lines of the error
  message are printed.
\<close>

theorem missing_input_exits_1:
  assumes "files w INPUT_FILE = None"
  shows "fst (main env w) = Exit 1
       \<and> exit_status (fst (main env w)) = 1
       \<and> files (snd (main env w)) = files w
       \<and> files (snd (main env w)) OUTPUT_FILE = files w OUTPUT_FILE
       \<and> environ (snd (main env w)) = environ w
       \<and> calls (snd (main env w)) = calls w
       \<and> stdout (snd (main env w)) =
           stdout w @ ''Error: Input file not found: '' @ INPUT_FILE @ NL
             @ ''Please run get_all_wiki_docs.sh first to generate the JSON file.'' @ NL"
  using assms unfolding main_def missing_input_message_ok by (simp add: printed_def)

theorem missing_input_exits_1_witness:
  "files (example_world None (Some ''tok'')) INPUT_FILE = None
   \<and> exit_status (fst (main (example_env []) (example_world None (Some ''tok'')))) = 1
   \<and> files (snd (main (example_env []) (example_world None (Some ''tok'')))) OUTPUT_FILE = None"
  using missing_input_exits_1 [of "example_world None (Some ''tok'')" "example_env []"]
  by (simp add: example_world_def)

section \<open>The report of an empty array\<close>

text \<open>
  Claim C9. In live mode an empty input array yields a report that is exactly the fixed
  banner header, with no document block; the run makes no transport invocation and exits
  with status 0. The banner is a rule of 80 equals signs, the title line, a second rule
  and an empty line.
\<close>

theorem empty_array_report:
  assumes "files w INPUT_FILE = Some text"
    and "json_loads env text = Some (JArr [])"
    and "environ w ''LARK_USER_ACCESS_TOKEN'' = Some user_token"
    and "user_token \<noteq> []"
  shows "fst (main env w) = Exit 0
       \<and> files (snd (main env w)) = (files w)(OUTPUT_FILE \<mapsto> report_header)
       \<and> files (snd (main env w)) OUTPUT_FILE = Some report_header
       \<and> calls (snd (main env w)) = calls w
       \<and> report_header =
           replicate 80 CHR ''='' @ [CHR 0x0A] @ ''LARK WIKI DOCUMENTS - WITH CONTENT''
             @ [CHR 0x0A] @ replicate 80 CHR ''='' @ [CHR 0x0A, CHR 0x0A]"
proof -
  have b: "batch_ok env w user_token [] []"
    by (simp add: batch_ok_def answers_def)
  note r = live_run_result [OF assms b]
  have h: "report_header =
           replicate 80 CHR ''='' @ [CHR 0x0A] @ ''LARK WIKI DOCUMENTS - WITH CONTENT''
             @ [CHR 0x0A] @ replicate 80 CHR ''='' @ [CHR 0x0A, CHR 0x0A]"
    by (simp add: report_header_def RULE_EQ_def NL_def)
  from r(1) r(2) r(3) h show ?thesis
    by (simp add: report_text_def entries_def)
qed

theorem empty_array_report_witness:
  "files (example_world (Some INPUT_EMPTY) (Some ''tok'')) INPUT_FILE = Some ''[]''
   \<and> json_loads (example_env []) ''[]'' = Some (JArr [])
   \<and> environ (example_world (Some INPUT_EMPTY) (Some ''tok'')) ''LARK_USER_ACCESS_TOKEN''
       = Some ''tok''
   \<and> ''tok'' \<noteq> []
   \<and> fst (main (example_env []) (example_world (Some INPUT_EMPTY) (Some ''tok''))) = Exit 0
   \<and> files (snd (main (example_env []) (example_world (Some INPUT_EMPTY) (Some ''tok''))))
         OUTPUT_FILE
       = Some (replicate 80 CHR ''='' @ [CHR 0x0A] @ ''LARK WIKI DOCUMENTS - WITH CONTENT''
                 @ [CHR 0x0A] @ replicate 80 CHR ''='' @ [CHR 0x0A, CHR 0x0A])"
proof -
  have h1: "files (example_world (Some INPUT_EMPTY) (Some ''tok'')) INPUT_FILE = Some ''[]''"
    by (simp add: example_world_def INPUT_EMPTY_def)
  have h2: "json_loads (example_env []) ''[]'' = Some (JArr [])"
    by (simp add: example_env_def example_loads_def INPUT_EMPTY_def)
  have h3: "environ (example_world (Some INPUT_EMPTY) (Some ''tok'')) ''LARK_USER_ACCESS_TOKEN''
              = Some ''tok''"
    by (simp add: example_world_def)
  have h4: "''tok'' \<noteq> []" by simp
  note t = empty_array_report [OF h1 h2 h3 h4]
  from t have a: "fst (main (example_env []) (example_world (Some INPUT_EMPTY) (Some ''tok'')))
                    = Exit 0"
    by (rule conjunct1)
  from t have b: "files (snd (main (example_env []) (example_world (Some INPUT_EMPTY) (Some ''tok''))))
         OUTPUT_FILE
       = Some (replicate 80 CHR ''='' @ [CHR 0x0A] @ ''LARK WIKI DOCUMENTS - WITH CONTENT''
                 @ [CHR 0x0A] @ replicate 80 CHR ''='' @ [CHR 0x0A, CHR 0x0A])"
    by metis
  from h1 h2 h3 h4 a b show ?thesis by (intro conjI)
qed

section \<open>The report follows the order of the input\<close>

text \<open>
  Claim C1, as the code has it. In live mode, for every input array that forms a
  well-formed batch (every descriptor carries the six fields and their texts can be
  encoded, the transport returns a response for every descriptor, and the content that
  each response gives is absent or an encodable text), the run exits with status 0 and
  the report is the banner followed by exactly one entry per descriptor, in the order of
  the input array: the \<open>j\<close>-th entry is built from the fields of the \<open>j\<close>-th descriptor
  and from the response to its fetch. The fetches themselves are made once per
  descriptor, in the same order.
\<close>

theorem live_report_order:
  assumes "files w INPUT_FILE = Some inp"
    and "json_loads env inp = Some (JArr docs)"
    and "environ w ''LARK_USER_ACCESS_TOKEN'' = Some user_token"
    and "user_token \<noteq> []"
    and "batch_ok env w user_token docs rs"
  shows "fst (main env w) = Exit 0
       \<and> files (snd (main env w)) OUTPUT_FILE =
           Some (report_header
                   @ concat (map (\<lambda>j. report_entry env (docs ! j) (response_content env (rs ! j)))
                                 [0..<length docs]))
       \<and> calls (snd (main env w)) = calls w @ map (fetch_argv env user_token) docs"
  using live_run_result [OF assms] by (simp add: report_text_def entries_def)

theorem live_report_order_witness:
  "files two_docs_world INPUT_FILE = Some INPUT_TWO
   \<and> json_loads hello_env INPUT_TWO = Some (JArr [example_doc1, example_doc2])
   \<and> environ two_docs_world ''LARK_USER_ACCESS_TOKEN'' = Some ''tok''
   \<and> batch_ok hello_env two_docs_world ''tok'' [example_doc1, example_doc2]
        [(0, BODY_HELLO), (0, BODY_CODE1)]
   \<and> fst (main hello_env two_docs_world) = Exit 0
   \<and> files (snd (main hello_env two_docs_world)) OUTPUT_FILE =
       Some (replicate 80 CHR ''='' @ [CHR 0x0A] @ ''LARK WIKI DOCUMENTS - WITH CONTENT''
               @ [CHR 0x0A] @ replicate 80 CHR ''='' @ [CHR 0x0A, CHR 0x0A]
             @ [CHR 0xF0, CHR 0x9F, CHR 0x93, CHR 0x84] @ '' DOCUMENT 1: Home'' @ [CHR 0x0A]
             @ ''   Level: 0'' @ [CHR 0x0A]
             @ ''   Node Token: n1'' @ [CHR 0x0A]
             @ ''   Document Token: d1'' @ [CHR 0x0A]
             @ ''   URL: u1'' @ [CHR 0x0A, CHR 0x0A]
             @ replicate 80 CHR ''-'' @ [CHR 0x0A, CHR 0x0A]
             @ ''hello'' @ [CHR 0x0A, CHR 0x0A]
             @ replicate 80 CHR ''-'' @ [CHR 0x0A, CHR 0x0A]
             @ [CHR 0xF0, CHR 0x9F, CHR 0x93, CHR 0x84] @ '' DOCUMENT 2: Setup'' @ [CHR 0x0A]
             @ ''   Level: 1'' @ [CHR 0x0A]
             @ ''   Node Token: n2'' @ [CHR 0x0A]
             @ ''   Document Token: d2'' @ [CHR 0x0A]
             @ ''   URL: u2'' @ [CHR 0x0A, CHR 0x0A]
             @ replicate 80 CHR ''-'' @ [CHR 0x0A, CHR 0x0A]
             @ ''[Content not available]'' @ [CHR 0x0A, CHR 0x0A]
             @ replicate 80 CHR ''-'' @ [CHR 0x0A, CHR 0x0A])
   \<and> length (calls (snd (main hello_env two_docs_world))) = 2"
proof -
  have h1: "files two_docs_world INPUT_FILE = Some INPUT_TWO"
    by (simp add: two_docs_world_def example_world_def)
  have h2: "json_loads hello_env INPUT_TWO = Some (JArr [example_doc1, example_doc2])"
    by code_simp
  have h3: "environ two_docs_world ''LARK_USER_ACCESS_TOKEN'' = Some ''tok''"
    by (simp add: two_docs_world_def example_world_def)
  have h4: "''tok'' \<noteq> []" by simp
  have h5: "batch_ok hello_env two_docs_world ''tok'' [example_doc1, example_doc2]
        [(0, BODY_HELLO), (0, BODY_CODE1)]"
    by code_simp
  have c: "calls two_docs_world = []"
    by (simp add: two_docs_world_def example_world_def)
  have lit: "report_header
         @ concat (map (\<lambda>j. report_entry hello_env ([example_doc1, example_doc2] ! j)
                         (response_content hello_env ([(0, BODY_HELLO), (0, BODY_CODE1)] ! j)))
                       [0..<length [example_doc1, example_doc2]])
       = replicate 80 CHR ''='' @ [CHR 0x0A] @ ''LARK WIKI DOCUMENTS - WITH CONTENT''
               @ [CHR 0x0A] @ replicate 80 CHR ''='' @ [CHR 0x0A, CHR 0x0A]
             @ [CHR 0xF0, CHR 0x9F, CHR 0x93, CHR 0x84] @ '' DOCUMENT 1: Home'' @ [CHR 0x0A]
             @ ''   Level: 0'' @ [CHR 0x0A]
             @ ''   Node Token: n1'' @ [CHR 0x0A]
             @ ''   Document Token: d1'' @ [CHR 0x0A]
             @ ''   URL: u1'' @ [CHR 0x0A, CHR 0x0A]
             @ replicate 80 CHR ''-'' @ [CHR 0x0A, CHR 0x0A]
             @ ''hello'' @ [CHR 0x0A, CHR 0x0A]
             @ replicate 80 CHR ''-'' @ [CHR 0x0A, CHR 0x0A]
             @ [CHR 0xF0, CHR 0x9F, CHR 0x93, CHR 0x84] @ '' DOCUMENT 2: Setup'' @ [CHR 0x0A]
             @ ''   Level: 1'' @ [CHR 0x0A]
             @ ''   Node Token: n2'' @ [CHR 0x0A]
             @ ''   Document Token: d2'' @ [CHR 0x0A]
             @ ''   URL: u2'' @ [CHR 0x0A, CHR 0x0A]
             @ replicate 80 CHR ''-'' @ [CHR 0x0A, CHR 0x0A]
             @ ''[Content not available]'' @ [CHR 0x0A, CHR 0x0A]
             @ replicate 80 CHR ''-'' @ [CHR 0x0A, CHR 0x0A]"
    by code_simp
  note t = live_report_order [OF h1 h2 h3 h4 h5]
  from t have a: "fst (main hello_env two_docs_world) = Exit 0"
    by (rule conjunct1)
  from t [THEN conjunct2, THEN conjunct1] lit
  have b: "files (snd (main hello_env two_docs_world)) OUTPUT_FILE =
       Some (replicate 80 CHR ''='' @ [CHR 0x0A] @ ''LARK WIKI DOCUMENTS - WITH CONTENT''
               @ [CHR 0x0A] @ replicate 80 CHR ''='' @ [CHR 0x0A, CHR 0x0A]
             @ [CHR 0xF0, CHR 0x9F, CHR 0x93, CHR 0x84] @ '' DOCUMENT 1: Home'' @ [CHR 0x0A]
             @ ''   Level: 0'' @ [CHR 0x0A]
             @ ''   Node Token: n1'' @ [CHR 0x0A]
             @ ''   Document Token: d1'' @ [CHR 0x0A]
             @ ''   URL: u1'' @ [CHR 0x0A, CHR 0x0A]
             @ replicate 80 CHR ''-'' @ [CHR 0x0A, CHR 0x0A]
             @ ''hello'' @ [CHR 0x0A, CHR 0x0A]
             @ replicate 80 CHR ''-'' @ [CHR 0x0A, CHR 0x0A]
             @ [CHR 0xF0, CHR 0x9F, CHR 0x93, CHR 0x84] @ '' DOCUMENT 2: Setup'' @ [CHR 0x0A]
             @ ''   Level: 1'' @ [CHR 0x0A]
             @ ''   Node Token: n2'' @ [CHR 0x0A]
             @ ''   Document Token: d2'' @ [CHR 0x0A]
             @ ''   URL: u2'' @ [CHR 0x0A, CHR 0x0A]
             @ replicate 80 CHR ''-'' @ [CHR 0x0A, CHR 0x0A]
             @ ''[Content not available]'' @ [CHR 0x0A, CHR 0x0A]
             @ replicate 80 CHR ''-'' @ [CHR 0x0A, CHR 0x0A])"
    by (simp only:)
  from t [THEN conjunct2, THEN conjunct2] c
  have d: "length (calls (snd (main hello_env two_docs_world))) = 2"
    by simp
  from h1 h2 h3 h5 a b d show ?thesis by (intro conjI)
qed

text \<open>
  Claim C1 as stated, for every input array, does not hold. With two well-formed
  descriptors, when the service returns a list as the content of the first, both fetches
  are made, and the report writer raises \<^verbatim>\<open>TypeError\<close> at the content of the first entry:
  the report holds the banner and the heading of the first descriptor only, and nothing
  of the second descriptor.
\<close>

theorem partial_report_counterexample:
  "files two_docs_world INPUT_FILE = Some INPUT_TWO
   \<and> json_loads list_env INPUT_TWO = Some (JArr [example_doc1, example_doc2])
   \<and> environ two_docs_world ''LARK_USER_ACCESS_TOKEN'' = Some ''tok''
   \<and> list_all (well_formed list_env) [example_doc1, example_doc2]
   \<and> subprocess_run list_env 0 (fetch_argv list_env ''tok'' example_doc1) = Inr (0, BODY_LIST)
   \<and> subprocess_run list_env 1 (fetch_argv list_env ''tok'' example_doc2) = Inr (0, BODY_HELLO)
   \<and> fst (main list_env two_docs_world) = Uncaught (TypeError ''write'')
   \<and> length (calls (snd (main list_env two_docs_world))) = 2
   \<and> files (snd (main list_env two_docs_world)) OUTPUT_FILE =
       Some (replicate 80 CHR ''='' @ [CHR 0x0A] @ ''LARK WIKI DOCUMENTS - WITH CONTENT''
               @ [CHR 0x0A] @ replicate 80 CHR ''='' @ [CHR 0x0A, CHR 0x0A]
             @ [CHR 0xF0, CHR 0x9F, CHR 0x93, CHR 0x84] @ '' DOCUMENT 1: Home'' @ [CHR 0x0A]
             @ ''   Level: 0'' @ [CHR 0x0A]
             @ ''   Node Token: n1'' @ [CHR 0x0A]
             @ ''   Document Token: d1'' @ [CHR 0x0A]
             @ ''   URL: u1'' @ [CHR 0x0A, CHR 0x0A]
             @ replicate 80 CHR ''-'' @ [CHR 0x0A, CHR 0x0A])"
  by code_simp


section \<open>One descriptor in a live run\<close>

lemma fetch_step:
  assumes "has_field doc ''title'' \<and> has_field doc ''document_token''
         \<and> encodable (field_text env doc ''title'')
         \<and> encodable (field_text env doc ''document_token'')
         \<and> subprocess_run env (length (calls w)) (fetch_argv env user_token doc) = Inr r"
    and "usable_content (response_content env r)"
  shows "\<exists>w'. fetch_one env user_token n i doc w
                 = (Inr (with_content doc (response_content env r)), w')"
proof -
  from assms(1) have a: "has_field doc ''title''" "has_field doc ''document_token''"
    "encodable (field_text env doc ''title'')" "encodable (field_text env doc ''document_token'')"
    "subprocess_run env (length (calls w)) (fetch_argv env user_token doc) = Inr r"
    by simp_all
  from fetch_one_ok [OF a assms(2), of n i] show ?thesis by blast
qed

lemma live_run_entry:
  assumes "files w INPUT_FILE = Some inp \<and> json_loads env inp = Some (JArr docs)
         \<and> environ w ''LARK_USER_ACCESS_TOKEN'' = Some user_token \<and> user_token \<noteq> []
         \<and> batch_ok env w user_token docs rs \<and> j < length docs"
  shows "fst (main env w) = Exit 0
       \<and> files (snd (main env w)) OUTPUT_FILE =
           Some (report_header @ entries env docs rs [0..<j]
                 @ report_entry env (docs ! j) (response_content env (rs ! j))
                 @ entries env docs rs [Suc j..<length docs])"
proof -
  from assms have a: "files w INPUT_FILE = Some inp" "json_loads env inp = Some (JArr docs)"
    "environ w ''LARK_USER_ACCESS_TOKEN'' = Some user_token" "user_token \<noteq> []"
    "batch_ok env w user_token docs rs" and j: "j < length docs"
    by simp_all
  from live_run_result(1,2) [OF a] report_text_split [OF j, of env rs]
  show ?thesis by simp
qed

section \<open>A successful fetch\<close>

text \<open>
  Claim C6, as the code has it. Let the body \<^verbatim>\<open>{"code":0,"data":{"content":"hello"}}\<close> be
  parsed by \<^verbatim>\<open>json.loads\<close> as that object.

  \<^item> Whenever the fetch for a descriptor (one that carries a title and a document token
    whose texts can be encoded) returns exit code 0 with this body, the step of the loop
    ends normally and the descriptor's content becomes the string \<open>hello\<close>.
  \<^item> If moreover the batch is well formed, the run exits with status 0 and the written
    report holds, between the entries of the descriptors before and after it, the entry
    of that descriptor: its heading, the literal text \<open>hello\<close>, two newlines and the
    closing rule.
\<close>

theorem hello_content_in_report:
  assumes "json_loads env body =
             Some (JObj [(''code'', JInt 0), (''data'', JObj [(''content'', JStr ''hello'')])])"
  shows "(\<forall>doc w n i.
            has_field doc ''title'' \<and> has_field doc ''document_token''
          \<and> encodable (field_text env doc ''title'')
          \<and> encodable (field_text env doc ''document_token'')
          \<and> subprocess_run env (length (calls w)) (fetch_argv env user_token doc) = Inr (0, body)
          \<longrightarrow> (\<exists>w'. fetch_one env user_token n i doc w
                       = (Inr (with_content doc (JStr ''hello'')), w')))
       \<and> (\<forall>w inp docs rs j.
            files w INPUT_FILE = Some inp \<and> json_loads env inp = Some (JArr docs)
          \<and> environ w ''LARK_USER_ACCESS_TOKEN'' = Some user_token \<and> user_token \<noteq> []
          \<and> batch_ok env w user_token docs rs \<and> j < length docs \<and> rs ! j = (0, body)
          \<longrightarrow> fst (main env w) = Exit 0
            \<and> files (snd (main env w)) OUTPUT_FILE =
                Some (report_header @ entries env docs rs [0..<j]
                      @ entry_heading env (docs ! j) @ ''hello'' @ NL @ NL @ RULE_DASH @ NL @ NL
                      @ entries env docs rs [Suc j..<length docs]))"
proof (intro conjI allI impI)
  fix doc :: json and w :: world and n i :: nat
  assume a: "has_field doc ''title'' \<and> has_field doc ''document_token''
          \<and> encodable (field_text env doc ''title'')
          \<and> encodable (field_text env doc ''document_token'')
          \<and> subprocess_run env (length (calls w)) (fetch_argv env user_token doc) = Inr (0, body)"
  have c: "response_content env (0, body) = JStr ''hello''"
    using assms by (rule response_content_hello)
  have u: "usable_content (response_content env (0, body))"
    by (simp add: c)
  from fetch_step [OF a u, of n i] c
  show "\<exists>w'. fetch_one env user_token n i doc w = (Inr (with_content doc (JStr ''hello'')), w')"
    by simp
next
  fix w :: world and inp docs and rs :: "(int \<times> string) list" and j
  assume a: "files w INPUT_FILE = Some inp \<and> json_loads env inp = Some (JArr docs)
          \<and> environ w ''LARK_USER_ACCESS_TOKEN'' = Some user_token \<and> user_token \<noteq> []
          \<and> batch_ok env w user_token docs rs \<and> j < length docs \<and> rs ! j = (0, body)"
  then have b: "files w INPUT_FILE = Some inp \<and> json_loads env inp = Some (JArr docs)
         \<and> environ w ''LARK_USER_ACCESS_TOKEN'' = Some user_token \<and> user_token \<noteq> []
         \<and> batch_ok env w user_token docs rs \<and> j < length docs"
    and r: "rs ! j = (0, body)"
    by simp_all
  have c: "response_content env (rs ! j) = JStr ''hello''"
    using assms r by (simp add: response_content_hello)
  from live_run_entry [OF b] c
  show "fst (main env w) = Exit 0" by simp
  from live_run_entry [OF b] c
  show "files (snd (main env w)) OUTPUT_FILE =
                Some (report_header @ entries env docs rs [0..<j]
                      @ entry_heading env (docs ! j) @ ''hello'' @ NL @ NL @ RULE_DASH @ NL @ NL
                      @ entries env docs rs [Suc j..<length docs])"
    by (simp add: entry_with_text)
qed

theorem hello_content_in_report_witness:
  "json_loads hello_env BODY_HELLO =
     Some (JObj [(''code'', JInt 0), (''data'', JObj [(''content'', JStr ''hello'')])])
   \<and> has_field example_doc1 ''title'' \<and> has_field example_doc1 ''document_token''
   \<and> encodable (field_text hello_env example_doc1 ''title'')
   \<and> encodable (field_text hello_env example_doc1 ''document_token'')
   \<and> subprocess_run hello_env (length (calls one_doc_world))
        (fetch_argv hello_env ''tok'' example_doc1) = Inr (0, BODY_HELLO)
   \<and> (\<exists>w'. fetch_one hello_env ''tok'' 1 1 example_doc1 one_doc_world
              = (Inr (JObj [(''number'', JInt 1), (''title'', JStr ''Home''), (''level'', JInt 0),
                            (''node_token'', JStr ''n1''), (''document_token'', JStr ''d1''),
                            (''url'', JStr ''u1''), (''content'', JStr ''hello'')]), w'))
   \<and> files one_doc_world INPUT_FILE = Some INPUT_ONE
   \<and> json_loads hello_env INPUT_ONE = Some (JArr [example_doc1])
   \<and> environ one_doc_world ''LARK_USER_ACCESS_TOKEN'' = Some ''tok''
   \<and> batch_ok hello_env one_doc_world ''tok'' [example_doc1] [(0, BODY_HELLO)]
   \<and> fst (main hello_env one_doc_world) = Exit 0
   \<and> files (snd (main hello_env one_doc_world)) OUTPUT_FILE =
       Some (replicate 80 CHR ''='' @ [CHR 0x0A] @ ''LARK WIKI DOCUMENTS - WITH CONTENT''
               @ [CHR 0x0A] @ replicate 80 CHR ''='' @ [CHR 0x0A, CHR 0x0A]
             @ [CHR 0xF0, CHR 0x9F, CHR 0x93, CHR 0x84] @ '' DOCUMENT 1: Home'' @ [CHR 0x0A]
             @ ''   Level: 0'' @ [CHR 0x0A]
             @ ''   Node Token: n1'' @ [CHR 0x0A]
             @ ''   Document Token: d1'' @ [CHR 0x0A]
             @ ''   URL: u1'' @ [CHR 0x0A, CHR 0x0A]
             @ replicate 80 CHR ''-'' @ [CHR 0x0A, CHR 0x0A]
             @ ''hello'' @ [CHR 0x0A, CHR 0x0A]
             @ replicate 80 CHR ''-'' @ [CHR 0x0A, CHR 0x0A])"
proof -
  have h0: "json_loads hello_env BODY_HELLO =
     Some (JObj [(''code'', JInt 0), (''data'', JObj [(''content'', JStr ''hello'')])])"
    by code_simp
  have s: "has_field example_doc1 ''title'' \<and> has_field example_doc1 ''document_token''
   \<and> encodable (field_text hello_env example_doc1 ''title'')
   \<and> encodable (field_text hello_env example_doc1 ''document_token'')
   \<and> subprocess_run hello_env (length (calls one_doc_world))
        (fetch_argv hello_env ''tok'' example_doc1) = Inr (0, BODY_HELLO)"
    by code_simp
  have wc: "with_content example_doc1 (JStr ''hello'')
        = JObj [(''number'', JInt 1), (''title'', JStr ''Home''), (''level'', JInt 0),
                (''node_token'', JStr ''n1''), (''document_token'', JStr ''d1''),
                (''url'', JStr ''u1''), (''content'', JStr ''hello'')]"
    by code_simp
  have r: "files one_doc_world INPUT_FILE = Some INPUT_ONE
         \<and> json_loads hello_env INPUT_ONE = Some (JArr [example_doc1])
         \<and> environ one_doc_world ''LARK_USER_ACCESS_TOKEN'' = Some ''tok'' \<and> ''tok'' \<noteq> []
         \<and> batch_ok hello_env one_doc_world ''tok'' [example_doc1] [(0, BODY_HELLO)]
         \<and> 0 < length [example_doc1] \<and> [(0 :: int, BODY_HELLO)] ! 0 = (0, BODY_HELLO)"
    by code_simp
  have lit: "report_header @ entries hello_env [example_doc1] [(0, BODY_HELLO)] [0..<0]
               @ entry_heading hello_env ([example_doc1] ! 0) @ ''hello'' @ NL @ NL
               @ RULE_DASH @ NL @ NL
               @ entries hello_env [example_doc1] [(0, BODY_HELLO)] [Suc 0..<length [example_doc1]]
       = replicate 80 CHR ''='' @ [CHR 0x0A] @ ''LARK WIKI DOCUMENTS - WITH CONTENT''
               @ [CHR 0x0A] @ replicate 80 CHR ''='' @ [CHR 0x0A, CHR 0x0A]
             @ [CHR 0xF0, CHR 0x9F, CHR 0x93, CHR 0x84] @ '' DOCUMENT 1: Home'' @ [CHR 0x0A]
             @ ''   Level: 0'' @ [CHR 0x0A]
             @ ''   Node Token: n1'' @ [CHR 0x0A]
             @ ''   Document Token: d1'' @ [CHR 0x0A]
             @ ''   URL: u1'' @ [CHR 0x0A, CHR 0x0A]
             @ replicate 80 CHR ''-'' @ [CHR 0x0A, CHR 0x0A]
             @ ''hello'' @ [CHR 0x0A, CHR 0x0A]
             @ replicate 80 CHR ''-'' @ [CHR 0x0A, CHR 0x0A]"
    by code_simp
  note t = hello_content_in_report [OF h0, of "''tok''"]
  from t [THEN conjunct1, rule_format, OF s, of 1 1] wc
  have A: "\<exists>w'. fetch_one hello_env ''tok'' 1 1 example_doc1 one_doc_world
              = (Inr (JObj [(''number'', JInt 1), (''title'', JStr ''Home''), (''level'', JInt 0),
                            (''node_token'', JStr ''n1''), (''document_token'', JStr ''d1''),
                            (''url'', JStr ''u1''), (''content'', JStr ''hello'')]), w')"
    by simp
  note u = t [THEN conjunct2, rule_format, OF r]
  from u have B: "fst (main hello_env one_doc_world) = Exit 0"
    by (rule conjunct1)
  from u [THEN conjunct2] lit
  have C: "files (snd (main hello_env one_doc_world)) OUTPUT_FILE =
       Some (replicate 80 CHR ''='' @ [CHR 0x0A] @ ''LARK WIKI DOCUMENTS - WITH CONTENT''
               @ [CHR 0x0A] @ replicate 80 CHR ''='' @ [CHR 0x0A, CHR 0x0A]
             @ [CHR 0xF0, CHR 0x9F, CHR 0x93, CHR 0x84] @ '' DOCUMENT 1: Home'' @ [CHR 0x0A]
             @ ''   Level: 0'' @ [CHR 0x0A]
             @ ''   Node Token: n1'' @ [CHR 0x0A]
             @ ''   Document Token: d1'' @ [CHR 0x0A]
             @ ''   URL: u1'' @ [CHR 0x0A, CHR 0x0A]
             @ replicate 80 CHR ''-'' @ [CHR 0x0A, CHR 0x0A]
             @ ''hello'' @ [CHR 0x0A, CHR 0x0A]
             @ replicate 80 CHR ''-'' @ [CHR 0x0A, CHR 0x0A])"
    by (simp only:)
  from h0 s A r B C show ?thesis by (intro conjI) simp_all
qed

text \<open>
  Claim C6 as stated does not hold: the fetch for the first descriptor returns exit code
  0 with the body above, but the second element of the input array carries no field, the
  loop is left by \<^verbatim>\<open>KeyError\<close> before any report is opened, and no report is written.
\<close>

theorem hello_without_report_counterexample:
  "files one_then_empty_world INPUT_FILE = Some INPUT_ONE_THEN_EMPTY
   \<and> json_loads hello_env INPUT_ONE_THEN_EMPTY = Some (JArr [example_doc1, JObj []])
   \<and> environ one_then_empty_world ''LARK_USER_ACCESS_TOKEN'' = Some ''tok''
   \<and> subprocess_run hello_env 0 (fetch_argv hello_env ''tok'' example_doc1) = Inr (0, BODY_HELLO)
   \<and> fst (main hello_env one_then_empty_world) = Uncaught (KeyError ''title'')
   \<and> length (calls (snd (main hello_env one_then_empty_world))) = 1
   \<and> files (snd (main hello_env one_then_empty_world)) OUTPUT_FILE = None"
  by code_simp

section \<open>A refused or unreadable response\<close>

text \<open>
  Claim C7, as the code has it. Let the body of a response be one that \<^verbatim>\<open>json.loads\<close>
  rejects, or one that it parses as an object whose \<^verbatim>\<open>code\<close> is 1.

  \<^item> Whenever the fetch for a descriptor (one that carries a title and a document token
    whose texts can be encoded) returns this body, with any exit code, the step of the
    loop ends normally and the descriptor's content is absent (\<^verbatim>\<open>None\<close>).
  \<^item> If moreover the batch is well formed, the run exits with status 0 and the written
    report holds, between the entries of the descriptors before and after it, the entry
    of that descriptor: its heading, the literal placeholder
    \<^verbatim>\<open>[Content not available]\<close>, two newlines and the closing rule.
\<close>

theorem failed_fetch_placeholder:
  assumes "json_loads env body = None
           \<or> (\<exists>kvs. json_loads env body = Some (JObj kvs) \<and> map_of kvs ''code'' = Some (JInt 1))"
  shows "(\<forall>doc w n i rc.
            has_field doc ''title'' \<and> has_field doc ''document_token''
          \<and> encodable (field_text env doc ''title'')
          \<and> encodable (field_text env doc ''document_token'')
          \<and> subprocess_run env (length (calls w)) (fetch_argv env user_token doc) = Inr (rc, body)
          \<longrightarrow> (\<exists>w'. fetch_one env user_token n i doc w = (Inr (with_content doc JNull), w')))
       \<and> (\<forall>w inp docs rs j rc.
            files w INPUT_FILE = Some inp \<and> json_loads env inp = Some (JArr docs)
          \<and> environ w ''LARK_USER_ACCESS_TOKEN'' = Some user_token \<and> user_token \<noteq> []
          \<and> batch_ok env w user_token docs rs \<and> j < length docs \<and> rs ! j = (rc, body)
          \<longrightarrow> fst (main env w) = Exit 0
            \<and> files (snd (main env w)) OUTPUT_FILE =
                Some (report_header @ entries env docs rs [0..<j]
                      @ entry_heading env (docs ! j) @ ''[Content not available]'' @ NL @ NL
                      @ RULE_DASH @ NL @ NL
                      @ entries env docs rs [Suc j..<length docs]))"
proof (intro conjI allI impI)
  fix doc :: json and w :: world and n i :: nat and rc :: int
  assume a: "has_field doc ''title'' \<and> has_field doc ''document_token''
          \<and> encodable (field_text env doc ''title'')
          \<and> encodable (field_text env doc ''document_token'')
          \<and> subprocess_run env (length (calls w)) (fetch_argv env user_token doc) = Inr (rc, body)"
  have c: "response_content env (rc, body) = JNull"
    using assms by (rule response_content_refused)
  have u: "usable_content (response_content env (rc, body))"
    by (simp add: c)
  from fetch_step [OF a u, of n i] c
  show "\<exists>w'. fetch_one env user_token n i doc w = (Inr (with_content doc JNull), w')"
    by simp
next
  fix w :: world and inp docs and rs :: "(int \<times> string) list" and j and rc :: int
  assume a: "files w INPUT_FILE = Some inp \<and> json_loads env inp = Some (JArr docs)
          \<and> environ w ''LARK_USER_ACCESS_TOKEN'' = Some user_token \<and> user_token \<noteq> []
          \<and> batch_ok env w user_token docs rs \<and> j < length docs \<and> rs ! j = (rc, body)"
  then have b: "files w INPUT_FILE = Some inp \<and> json_loads env inp = Some (JArr docs)
         \<and> environ w ''LARK_USER_ACCESS_TOKEN'' = Some user_token \<and> user_token \<noteq> []
         \<and> batch_ok env w user_token docs rs \<and> j < length docs"
    and r: "rs ! j = (rc, body)"
    by simp_all
  have c: "response_content env (rs ! j) = JNull"
    using assms r by (simp add: response_content_refused)
  from live_run_entry [OF b] c
  show "fst (main env w) = Exit 0" by simp
  from live_run_entry [OF b] c
  show "files (snd (main env w)) OUTPUT_FILE =
                Some (report_header @ entries env docs rs [0..<j]
                      @ entry_heading env (docs ! j) @ ''[Content not available]'' @ NL @ NL
                      @ RULE_DASH @ NL @ NL
                      @ entries env docs rs [Suc j..<length docs])"
    by (simp add: entry_without_content)
qed

theorem failed_fetch_placeholder_witness:
  "json_loads not_json_env BODY_NOT_JSON = None
   \<and> has_field example_doc1 ''title'' \<and> has_field example_doc1 ''document_token''
   \<and> encodable (field_text not_json_env example_doc1 ''title'')
   \<and> encodable (field_text not_json_env example_doc1 ''document_token'')
   \<and> subprocess_run not_json_env (length (calls one_doc_world))
        (fetch_argv not_json_env ''tok'' example_doc1) = Inr (0, BODY_NOT_JSON)
   \<and> (\<exists>w'. fetch_one not_json_env ''tok'' 1 1 example_doc1 one_doc_world
              = (Inr (JObj [(''number'', JInt 1), (''title'', JStr ''Home''), (''level'', JInt 0),
                            (''node_token'', JStr ''n1''), (''document_token'', JStr ''d1''),
                            (''url'', JStr ''u1''), (''content'', JNull)]), w'))
   \<and> json_loads refused_env BODY_CODE1 = Some (JObj [(''code'', JInt 1)])
   \<and> files one_doc_world INPUT_FILE = Some INPUT_ONE
   \<and> json_loads refused_env INPUT_ONE = Some (JArr [example_doc1])
   \<and> environ one_doc_world ''LARK_USER_ACCESS_TOKEN'' = Some ''tok''
   \<and> batch_ok refused_env one_doc_world ''tok'' [example_doc1] [(0, BODY_CODE1)]
   \<and> fst (main refused_env one_doc_world) = Exit 0
   \<and> files (snd (main refused_env one_doc_world)) OUTPUT_FILE =
       Some (replicate 80 CHR ''='' @ [CHR 0x0A] @ ''LARK WIKI DOCUMENTS - WITH CONTENT''
               @ [CHR 0x0A] @ replicate 80 CHR ''='' @ [CHR 0x0A, CHR 0x0A]
             @ [CHR 0xF0, CHR 0x9F, CHR 0x93, CHR 0x84] @ '' DOCUMENT 1: Home'' @ [CHR 0x0A]
             @ ''   Level: 0'' @ [CHR 0x0A]
             @ ''   Node Token: n1'' @ [CHR 0x0A]
             @ ''   Document Token: d1'' @ [CHR 0x0A]
             @ ''   URL: u1'' @ [CHR 0x0A, CHR 0x0A]
             @ replicate 80 CHR ''-'' @ [CHR 0x0A, CHR 0x0A]
             @ ''[Content not available]'' @ [CHR 0x0A, CHR 0x0A]
             @ replicate 80 CHR ''-'' @ [CHR 0x0A, CHR 0x0A])"
proof -
  have h0: "json_loads not_json_env BODY_NOT_JSON = None"
    by code_simp
  then have h0': "json_loads not_json_env BODY_NOT_JSON = None
           \<or> (\<exists>kvs. json_loads not_json_env BODY_NOT_JSON = Some (JObj kvs)
                   \<and> map_of kvs ''code'' = Some (JInt 1))"
    by simp
  have s: "has_field example_doc1 ''title'' \<and> has_field example_doc1 ''document_token''
   \<and> encodable (field_text not_json_env example_doc1 ''title'')
   \<and> encodable (field_text not_json_env example_doc1 ''document_token'')
   \<and> subprocess_run not_json_env (length (calls one_doc_world))
        (fetch_argv not_json_env ''tok'' example_doc1) = Inr (0, BODY_NOT_JSON)"
    by code_simp
  have wc: "with_content example_doc1 JNull
        = JObj [(''number'', JInt 1), (''title'', JStr ''Home''), (''level'', JInt 0),
                (''node_token'', JStr ''n1''), (''document_token'', JStr ''d1''),
                (''url'', JStr ''u1''), (''content'', JNull)]"
    by code_simp
  from failed_fetch_placeholder [OF h0', of "''tok''", THEN conjunct1, rule_format, OF s, of 1 1] wc
  have A: "\<exists>w'. fetch_one not_json_env ''tok'' 1 1 example_doc1 one_doc_world
              = (Inr (JObj [(''number'', JInt 1), (''title'', JStr ''Home''), (''level'', JInt 0),
                            (''node_token'', JStr ''n1''), (''document_token'', JStr ''d1''),
                            (''url'', JStr ''u1''), (''content'', JNull)]), w')"
    by simp
  have h1: "json_loads refused_env BODY_CODE1 = Some (JObj [(''code'', JInt 1)])"
    by code_simp
  then have h1': "json_loads refused_env BODY_CODE1 = None
           \<or> (\<exists>kvs. json_loads refused_env BODY_CODE1 = Some (JObj kvs)
                   \<and> map_of kvs ''code'' = Some (JInt 1))"
    by simp
  have r: "files one_doc_world INPUT_FILE = Some INPUT_ONE
         \<and> json_loads refused_env INPUT_ONE = Some (JArr [example_doc1])
         \<and> environ one_doc_world ''LARK_USER_ACCESS_TOKEN'' = Some ''tok'' \<and> ''tok'' \<noteq> []
         \<and> batch_ok refused_env one_doc_world ''tok'' [example_doc1] [(0, BODY_CODE1)]
         \<and> 0 < length [example_doc1] \<and> [(0 :: int, BODY_CODE1)] ! 0 = (0, BODY_CODE1)"
    by code_simp
  have lit: "report_header @ entries refused_env [example_doc1] [(0, BODY_CODE1)] [0..<0]
               @ entry_heading refused_env ([example_doc1] ! 0)
               @ ''[Content not available]'' @ NL @ NL @ RULE_DASH @ NL @ NL
               @ entries refused_env [example_doc1] [(0, BODY_CODE1)]
                   [Suc 0..<length [example_doc1]]
       = replicate 80 CHR ''='' @ [CHR 0x0A] @ ''LARK WIKI DOCUMENTS - WITH CONTENT''
               @ [CHR 0x0A] @ replicate 80 CHR ''='' @ [CHR 0x0A, CHR 0x0A]
             @ [CHR 0xF0, CHR 0x9F, CHR 0x93, CHR 0x84] @ '' DOCUMENT 1: Home'' @ [CHR 0x0A]
             @ ''   Level: 0'' @ [CHR 0x0A]
             @ ''   Node Token: n1'' @ [CHR 0x0A]
             @ ''   Document Token: d1'' @ [CHR 0x0A]
             @ ''   URL: u1'' @ [CHR 0x0A, CHR 0x0A]
             @ replicate 80 CHR ''-'' @ [CHR 0x0A, CHR 0x0A]
             @ ''[Content not available]'' @ [CHR 0x0A, CHR 0x0A]
             @ replicate 80 CHR ''-'' @ [CHR 0x0A, CHR 0x0A]"
    by code_simp
  note u = failed_fetch_placeholder [OF h1', of "''tok''", THEN conjunct2, rule_format, OF r]
  from u have B: "fst (main refused_env one_doc_world) = Exit 0"
    by (rule conjunct1)
  from u [THEN conjunct2] lit
  have C: "files (snd (main refused_env one_doc_world)) OUTPUT_FILE =
       Some (replicate 80 CHR ''='' @ [CHR 0x0A] @ ''LARK WIKI DOCUMENTS - WITH CONTENT''
               @ [CHR 0x0A] @ replicate 80 CHR ''='' @ [CHR 0x0A, CHR 0x0A]
             @ [CHR 0xF0, CHR 0x9F, CHR 0x93, CHR 0x84] @ '' DOCUMENT 1: Home'' @ [CHR 0x0A]
             @ ''   Level: 0'' @ [CHR 0x0A]
             @ ''   Node Token: n1'' @ [CHR 0x0A]
             @ ''   Document Token: d1'' @ [CHR 0x0A]
             @ ''   URL: u1'' @ [CHR 0x0A, CHR 0x0A]
             @ replicate 80 CHR ''-'' @ [CHR 0x0A, CHR 0x0A]
             @ ''[Content not available]'' @ [CHR 0x0A, CHR 0x0A]
             @ replicate 80 CHR ''-'' @ [CHR 0x0A, CHR 0x0A])"
    by (simp only:)
  from h0 s A h1 r B C show ?thesis by (intro conjI) simp_all
qed

text \<open>
  Claim C7 as stated does not hold: the fetch for the first descriptor returns a body
  whose \<^verbatim>\<open>code\<close> is 1, but the second element of the input array carries no field, the
  loop is left by \<^verbatim>\<open>KeyError\<close>, and there is no report, hence no entry with the placeholder.
\<close>

theorem refused_without_report_counterexample:
  "files one_then_empty_world INPUT_FILE = Some INPUT_ONE_THEN_EMPTY
   \<and> json_loads refused_env INPUT_ONE_THEN_EMPTY = Some (JArr [example_doc1, JObj []])
   \<and> environ one_then_empty_world ''LARK_USER_ACCESS_TOKEN'' = Some ''tok''
   \<and> subprocess_run refused_env 0 (fetch_argv refused_env ''tok'' example_doc1)
       = Inr (0, BODY_CODE1)
   \<and> json_loads refused_env BODY_CODE1 = Some (JObj [(''code'', JInt 1)])
   \<and> fst (main refused_env one_then_empty_world) = Uncaught (KeyError ''title'')
   \<and> length (calls (snd (main refused_env one_then_empty_world))) = 1
   \<and> files (snd (main refused_env one_then_empty_world)) OUTPUT_FILE = None"
  by code_simp

section \<open>A successful response without a content field\<close>

text \<open>
  \<^verbatim>\<open>data.get("data", {}).get("content", "")\<close> gives the empty string when the \<^verbatim>\<open>data\<close>
  field or its \<^verbatim>\<open>content\<close> field is missing, and \<^verbatim>\<open>main\<close> tests the returned value
  with \<^verbatim>\<open>if content:\<close>, which the empty string fails.

  Claim C2, as the code has it. Let the body of a response be parsed as an object whose
  \<^verbatim>\<open>code\<close> equals 0 and whose \<^verbatim>\<open>data\<close> field, or the \<^verbatim>\<open>content\<close> field inside it, is
  missing.

  \<^item> When the transport returns exit code 0 with this body, \<^verbatim>\<open>get_content_via_api\<close>
    returns the empty text.
  \<^item> The step of the loop for that descriptor (one that carries a title and a document
    token whose texts can be encoded) ends normally, and the descriptor's content is
    absent (\<^verbatim>\<open>None\<close>): the empty text is treated like a failed fetch, it is not attached.
  \<^item> If moreover the batch is well formed, the run exits with status 0 and the entry of
    that descriptor in the report is its heading followed by the placeholder
    \<^verbatim>\<open>[Content not available]\<close>, two newlines and the closing rule.
\<close>

theorem missing_content_is_absent:
  assumes "json_loads env body = Some (JObj kvs)"
    and "map_of kvs ''code'' = Some c"
    and "py_eq_zero c"
    and "map_of kvs ''data'' = None
         \<or> (\<exists>d. map_of kvs ''data'' = Some (JObj d) \<and> map_of d ''content'' = None)"
  shows "(\<forall>dt w.
            subprocess_run env (length (calls w)) (request_argv env user_token dt) = Inr (0, body)
          \<longrightarrow> fst (get_content_via_api env dt user_token w) = Inr (JStr []))
       \<and> (\<forall>doc w n i.
            has_field doc ''title'' \<and> has_field doc ''document_token''
          \<and> encodable (field_text env doc ''title'')
          \<and> encodable (field_text env doc ''document_token'')
          \<and> subprocess_run env (length (calls w)) (fetch_argv env user_token doc) = Inr (0, body)
          \<longrightarrow> (\<exists>w'. fetch_one env user_token n i doc w = (Inr (with_content doc JNull), w')))
       \<and> (\<forall>w inp docs rs j.
            files w INPUT_FILE = Some inp \<and> json_loads env inp = Some (JArr docs)
          \<and> environ w ''LARK_USER_ACCESS_TOKEN'' = Some user_token \<and> user_token \<noteq> []
          \<and> batch_ok env w user_token docs rs \<and> j < length docs \<and> rs ! j = (0, body)
          \<longrightarrow> fst (main env w) = Exit 0
            \<and> files (snd (main env w)) OUTPUT_FILE =
                Some (report_header @ entries env docs rs [0..<j]
                      @ entry_heading env (docs ! j) @ ''[Content not available]'' @ NL @ NL
                      @ RULE_DASH @ NL @ NL
                      @ entries env docs rs [Suc j..<length docs]))"
proof (intro conjI allI impI)
  fix dt :: json and w :: world
  assume "subprocess_run env (length (calls w)) (request_argv env user_token dt) = Inr (0, body)"
  from get_content_via_api_Inr [OF this] response_content_missing(2) [OF assms]
  show "fst (get_content_via_api env dt user_token w) = Inr (JStr [])"
    by simp
next
  fix doc :: json and w :: world and n i :: nat
  assume a: "has_field doc ''title'' \<and> has_field doc ''document_token''
          \<and> encodable (field_text env doc ''title'')
          \<and> encodable (field_text env doc ''document_token'')
          \<and> subprocess_run env (length (calls w)) (fetch_argv env user_token doc) = Inr (0, body)"
  have c: "response_content env (0, body) = JNull"
    using assms by (rule response_content_missing(1))
  have u: "usable_content (response_content env (0, body))"
    by (simp add: c)
  from fetch_step [OF a u, of n i] c
  show "\<exists>w'. fetch_one env user_token n i doc w = (Inr (with_content doc JNull), w')"
    by simp
next
  fix w :: world and inp docs and rs :: "(int \<times> string) list" and j
  assume a: "files w INPUT_FILE = Some inp \<and> json_loads env inp = Some (JArr docs)
          \<and> environ w ''LARK_USER_ACCESS_TOKEN'' = Some user_token \<and> user_token \<noteq> []
          \<and> batch_ok env w user_token docs rs \<and> j < length docs \<and> rs ! j = (0, body)"
  then have b: "files w INPUT_FILE = Some inp \<and> json_loads env inp = Some (JArr docs)
         \<and> environ w ''LARK_USER_ACCESS_TOKEN'' = Some user_token \<and> user_token \<noteq> []
         \<and> batch_ok env w user_token docs rs \<and> j < length docs"
    and r: "rs ! j = (0, body)"
    by simp_all
  have c: "response_content env (rs ! j) = JNull"
    using response_content_missing(1) [OF assms] r by simp
  from live_run_entry [OF b] c
  show "fst (main env w) = Exit 0" by simp
  from live_run_entry [OF b] c
  show "files (snd (main env w)) OUTPUT_FILE =
                Some (report_header @ entries env docs rs [0..<j]
                      @ entry_heading env (docs ! j) @ ''[Content not available]'' @ NL @ NL
                      @ RULE_DASH @ NL @ NL
                      @ entries env docs rs [Suc j..<length docs])"
    by (simp add: entry_without_content)
qed

theorem missing_content_is_absent_witness:
  "json_loads no_content_env BODY_NO_CONTENT = Some (JObj [(''code'', JInt 0), (''data'', JObj [])])
   \<and> subprocess_run no_content_env (length (calls one_doc_world))
        (request_argv no_content_env ''tok'' (JStr ''d1'')) = Inr (0, BODY_NO_CONTENT)
   \<and> fst (get_content_via_api no_content_env (JStr ''d1'') ''tok'' one_doc_world) = Inr (JStr [])
   \<and> has_field example_doc1 ''title'' \<and> has_field example_doc1 ''document_token''
   \<and> encodable (field_text no_content_env example_doc1 ''title'')
   \<and> encodable (field_text no_content_env example_doc1 ''document_token'')
   \<and> subprocess_run no_content_env (length (calls one_doc_world))
        (fetch_argv no_content_env ''tok'' example_doc1) = Inr (0, BODY_NO_CONTENT)
   \<and> (\<exists>w'. fetch_one no_content_env ''tok'' 1 1 example_doc1 one_doc_world
              = (Inr (JObj [(''number'', JInt 1), (''title'', JStr ''Home''), (''level'', JInt 0),
                            (''node_token'', JStr ''n1''), (''document_token'', JStr ''d1''),
                            (''url'', JStr ''u1''), (''content'', JNull)]), w'))
   \<and> files one_doc_world INPUT_FILE = Some INPUT_ONE
   \<and> json_loads no_content_env INPUT_ONE = Some (JArr [example_doc1])
   \<and> environ one_doc_world ''LARK_USER_ACCESS_TOKEN'' = Some ''tok''
   \<and> batch_ok no_content_env one_doc_world ''tok'' [example_doc1] [(0, BODY_NO_CONTENT)]
   \<and> fst (main no_content_env one_doc_world) = Exit 0
   \<and> files (snd (main no_content_env one_doc_world)) OUTPUT_FILE =
       Some (replicate 80 CHR ''='' @ [CHR 0x0A] @ ''LARK WIKI DOCUMENTS - WITH CONTENT''
               @ [CHR 0x0A] @ replicate 80 CHR ''='' @ [CHR 0x0A, CHR 0x0A]
             @ [CHR 0xF0, CHR 0x9F, CHR 0x93, CHR 0x84] @ '' DOCUMENT 1: Home'' @ [CHR 0x0A]
             @ ''   Level: 0'' @ [CHR 0x0A]
             @ ''   Node Token: n1'' @ [CHR 0x0A]
             @ ''   Document Token: d1'' @ [CHR 0x0A]
             @ ''   URL: u1'' @ [CHR 0x0A, CHR 0x0A]
             @ replicate 80 CHR ''-'' @ [CHR 0x0A, CHR 0x0A]
             @ ''[Content not available]'' @ [CHR 0x0A, CHR 0x0A]
             @ replicate 80 CHR ''-'' @ [CHR 0x0A, CHR 0x0A])"
proof -
  have h1: "json_loads no_content_env BODY_NO_CONTENT
              = Some (JObj [(''code'', JInt 0), (''data'', JObj [])])"
    by code_simp
  have h2: "map_of [(''code'', JInt 0), (''data'', JObj [])] ''code'' = Some (JInt 0)"
    by simp
  have h3: "py_eq_zero (JInt 0)" by simp
  have h4: "map_of [(''code'', JInt 0), (''data'', JObj [])] ''data'' = None
         \<or> (\<exists>d. map_of [(''code'', JInt 0), (''data'', JObj [])] ''data'' = Some (JObj d)
                \<and> map_of d ''content'' = None)"
    by simp
  note t = missing_content_is_absent [OF h1 h2 h3 h4, of "''tok''"]
  have g: "subprocess_run no_content_env (length (calls one_doc_world))
        (request_argv no_content_env ''tok'' (JStr ''d1'')) = Inr (0, BODY_NO_CONTENT)"
    by code_simp
  from t [THEN conjunct1, rule_format, OF g]
  have G: "fst (get_content_via_api no_content_env (JStr ''d1'') ''tok'' one_doc_world)
             = Inr (JStr [])" .
  have s: "has_field example_doc1 ''title'' \<and> has_field example_doc1 ''document_token''
   \<and> encodable (field_text no_content_env example_doc1 ''title'')
   \<and> encodable (field_text no_content_env example_doc1 ''document_token'')
   \<and> subprocess_run no_content_env (length (calls one_doc_world))
        (fetch_argv no_content_env ''tok'' example_doc1) = Inr (0, BODY_NO_CONTENT)"
    by code_simp
  have wc: "with_content example_doc1 JNull
        = JObj [(''number'', JInt 1), (''title'', JStr ''Home''), (''level'', JInt 0),
                (''node_token'', JStr ''n1''), (''document_token'', JStr ''d1''),
                (''url'', JStr ''u1''), (''content'', JNull)]"
    by code_simp
  from t [THEN conjunct2, THEN conjunct1, rule_format, OF s, of 1 1] wc
  have A: "\<exists>w'. fetch_one no_content_env ''tok'' 1 1 example_doc1 one_doc_world
              = (Inr (JObj [(''number'', JInt 1), (''title'', JStr ''Home''), (''level'', JInt 0),
                            (''node_token'', JStr ''n1''), (''document_token'', JStr ''d1''),
                            (''url'', JStr ''u1''), (''content'', JNull)]), w')"
    by simp
  have r: "files one_doc_world INPUT_FILE = Some INPUT_ONE
         \<and> json_loads no_content_env INPUT_ONE = Some (JArr [example_doc1])
         \<and> environ one_doc_world ''LARK_USER_ACCESS_TOKEN'' = Some ''tok'' \<and> ''tok'' \<noteq> []
         \<and> batch_ok no_content_env one_doc_world ''tok'' [example_doc1] [(0, BODY_NO_CONTENT)]
         \<and> 0 < length [example_doc1]
         \<and> [(0 :: int, BODY_NO_CONTENT)] ! 0 = (0, BODY_NO_CONTENT)"
    by code_simp
  have lit: "report_header @ entries no_content_env [example_doc1] [(0, BODY_NO_CONTENT)] [0..<0]
               @ entry_heading no_content_env ([example_doc1] ! 0)
               @ ''[Content not available]'' @ NL @ NL @ RULE_DASH @ NL @ NL
               @ entries no_content_env [example_doc1] [(0, BODY_NO_CONTENT)]
                   [Suc 0..<length [example_doc1]]
       = replicate 80 CHR ''='' @ [CHR 0x0A] @ ''LARK WIKI DOCUMENTS - WITH CONTENT''
               @ [CHR 0x0A] @ replicate 80 CHR ''='' @ [CHR 0x0A, CHR 0x0A]
             @ [CHR 0xF0, CHR 0x9F, CHR 0x93, CHR 0x84] @ '' DOCUMENT 1: Home'' @ [CHR 0x0A]
             @ ''   Level: 0'' @ [CHR 0x0A]
             @ ''   Node Token: n1'' @ [CHR 0x0A]
             @ ''   Document Token: d1'' @ [CHR 0x0A]
             @ ''   URL: u1'' @ [CHR 0x0A, CHR 0x0A]
             @ replicate 80 CHR ''-'' @ [CHR 0x0A, CHR 0x0A]
             @ ''[Content not available]'' @ [CHR 0x0A, CHR 0x0A]
             @ replicate 80 CHR ''-'' @ [CHR 0x0A, CHR 0x0A]"
    by code_simp
  note u = t [THEN conjunct2, THEN conjunct2, rule_format, OF r]
  from u have B: "fst (main no_content_env one_doc_world) = Exit 0"
    by (rule conjunct1)
  from u [THEN conjunct2] lit
  have C: "files (snd (main no_content_env one_doc_world)) OUTPUT_FILE =
       Some (replicate 80 CHR ''='' @ [CHR 0x0A] @ ''LARK WIKI DOCUMENTS - WITH CONTENT''
               @ [CHR 0x0A] @ replicate 80 CHR ''='' @ [CHR 0x0A, CHR 0x0A]
             @ [CHR 0xF0, CHR 0x9F, CHR 0x93, CHR 0x84] @ '' DOCUMENT 1: Home'' @ [CHR 0x0A]
             @ ''   Level: 0'' @ [CHR 0x0A]
             @ ''   Node Token: n1'' @ [CHR 0x0A]
             @ ''   Document Token: d1'' @ [CHR 0x0A]
             @ ''   URL: u1'' @ [CHR 0x0A, CHR 0x0A]
             @ replicate 80 CHR ''-'' @ [CHR 0x0A, CHR 0x0A]
             @ ''[Content not available]'' @ [CHR 0x0A, CHR 0x0A]
             @ replicate 80 CHR ''-'' @ [CHR 0x0A, CHR 0x0A])"
    by (simp only:)
  from h1 g G s A r B C show ?thesis by (intro conjI) simp_all
qed

text \<open>
  Claim C2 as stated does not hold: for exit code 0 and the body \<^verbatim>\<open>{"code":0,"data":{}}\<close>
  the function returns the empty text, and the content attached to the descriptor is
  \<^verbatim>\<open>None\<close>, not the empty text.
\<close>

theorem missing_content_counterexample:
  "subprocess_run no_content_env 0 (fetch_argv no_content_env ''tok'' example_doc1)
     = Inr (0, BODY_NO_CONTENT)
   \<and> json_loads no_content_env BODY_NO_CONTENT = Some (JObj [(''code'', JInt 0), (''data'', JObj [])])
   \<and> fst (get_content_via_api no_content_env (JStr ''d1'') ''tok'' one_doc_world) = Inr (JStr [])
   \<and> fst (fetch_one no_content_env ''tok'' 1 1 example_doc1 one_doc_world)
       = Inr (JObj [(''number'', JInt 1), (''title'', JStr ''Home''), (''level'', JInt 0),
                    (''node_token'', JStr ''n1''), (''document_token'', JStr ''d1''),
                    (''url'', JStr ''u1''), (''content'', JNull)])
   \<and> fst (fetch_one no_content_env ''tok'' 1 1 example_doc1 one_doc_world)
       \<noteq> Inr (JObj [(''number'', JInt 1), (''title'', JStr ''Home''), (''level'', JInt 0),
                    (''node_token'', JStr ''n1''), (''document_token'', JStr ''d1''),
                    (''url'', JStr ''u1''), (''content'', JStr [])])"
  by code_simp


section \<open>Which failures stay with one descriptor\<close>

lemma transport_exception_aborts:
  assumes "files w INPUT_FILE = Some inp" and "json_loads env inp = Some (JArr docs)"
    and "environ w ''LARK_USER_ACCESS_TOKEN'' = Some user_token" and "user_token \<noteq> []"
    and "j < length docs"
    and "subprocess_run env (length (calls w) + j) (fetch_argv env user_token (docs ! j)) = Inl name"
  shows "\<exists>e. fst (main env w) = Uncaught e" and "files (snd (main env w)) = files w"
proof -
  from main_live [OF assms(1,2) _ assms(3,4), of "length docs"] obtain out0 where
    m: "main env w = live_mode env (JArr docs) (length docs) user_token
                       (w\<lparr>stdout := stdout w @ out0\<rparr>)"
    by auto
  define w0 where "w0 = w\<lparr>stdout := stdout w @ out0\<rparr>"
  obtain x w1 where loop: "fetch_loop env user_token (length docs) 1 docs [] w0 = (x, w1)"
    by (cases "fetch_loop env user_token (length docs) 1 docs [] w0")
  have "\<exists>e. x = Inl e"
  proof (cases x)
    case (Inl e)
    then show ?thesis by simp
  next
    case (Inr all)
    from fetch_loop_Inr [OF loop [unfolded Inr]] obtain rs where
      "\<forall>j<length docs.
          subprocess_run env (length (calls w0) + j) (fetch_argv env user_token (docs ! j))
            = Inr (rs ! j)"
      by (elim exE conjE)
    with assms(5) have "subprocess_run env (length (calls w0) + j)
          (fetch_argv env user_token (docs ! j)) = Inr (rs ! j)"
      by blast
    with assms(6) show ?thesis by (simp add: w0_def)
  qed
  then obtain e where e: "x = Inl e" by (elim exE)
  from fetch_loop_frame [of env user_token "length docs" 1 docs "[]" w0] loop
  have f: "files w1 = files w" by (simp add: w0_def)
  from m loop e have r: "main env w = (Uncaught e, w1)"
    by (simp add: live_mode_def w0_def)
  from r show "\<exists>e. fst (main env w) = Uncaught e" by simp
  from r f show "files (snd (main env w)) = files w" by simp
qed

text \<open>
  Claim C3, as the code has it. A response has failed when its exit code is not 0, or its
  body is not JSON, or is not an object, or has no \<^verbatim>\<open>code\<close> or a \<^verbatim>\<open>code\<close> other than 0,
  or has a \<^verbatim>\<open>data\<close> that is not an object (\<open>failed_response\<close>).

  \<^item> Whenever the transport returns a failed response for a descriptor (one that carries
    a title and a document token whose texts can be encoded), the step of the loop ends
    normally with the descriptor's content absent, and the loop goes on with the next
    descriptor, the descriptor being appended to the results.
  \<^item> In a well-formed batch, a failed response for a descriptor does not abort the run:
    it exits with status 0 and the report holds the entries of all descriptors, the entry
    of that descriptor showing the placeholder.
  \<^item> When the transport invocation itself raises for a descriptor of the batch, the run
    ends with an uncaught exception and no report is written.
\<close>

theorem response_failure_is_per_descriptor:
  "(\<forall>doc w n i r docs results.
       has_field doc ''title'' \<and> has_field doc ''document_token''
     \<and> encodable (field_text env doc ''title'')
     \<and> encodable (field_text env doc ''document_token'')
     \<and> subprocess_run env (length (calls w)) (fetch_argv env user_token doc) = Inr r
     \<and> failed_response env r
     \<longrightarrow> (\<exists>w'. fetch_one env user_token n i doc w = (Inr (with_content doc JNull), w')
              \<and> fetch_loop env user_token n i (doc # docs) results w
                  = fetch_loop env user_token n (Suc i) docs
                      (results @ [with_content doc JNull]) w'))
   \<and> (\<forall>w inp docs rs j.
         files w INPUT_FILE = Some inp \<and> json_loads env inp = Some (JArr docs)
       \<and> environ w ''LARK_USER_ACCESS_TOKEN'' = Some user_token \<and> user_token \<noteq> []
       \<and> batch_ok env w user_token docs rs \<and> j < length docs \<and> failed_response env (rs ! j)
       \<longrightarrow> fst (main env w) = Exit 0
         \<and> files (snd (main env w)) OUTPUT_FILE =
             Some (report_header @ entries env docs rs [0..<j]
                   @ entry_heading env (docs ! j) @ ''[Content not available]'' @ NL @ NL
                   @ RULE_DASH @ NL @ NL
                   @ entries env docs rs [Suc j..<length docs]))
   \<and> (\<forall>w inp docs j name.
         files w INPUT_FILE = Some inp \<and> json_loads env inp = Some (JArr docs)
       \<and> environ w ''LARK_USER_ACCESS_TOKEN'' = Some user_token \<and> user_token \<noteq> []
       \<and> j < length docs
       \<and> subprocess_run env (length (calls w) + j) (fetch_argv env user_token (docs ! j))
           = Inl name
       \<longrightarrow> (\<exists>e. fst (main env w) = Uncaught e) \<and> files (snd (main env w)) = files w)"
proof (intro conjI allI impI)
  fix doc :: json and w :: world and n i :: nat and r :: "int \<times> string"
    and docs results :: "json list"
  assume a: "has_field doc ''title'' \<and> has_field doc ''document_token''
     \<and> encodable (field_text env doc ''title'')
     \<and> encodable (field_text env doc ''document_token'')
     \<and> subprocess_run env (length (calls w)) (fetch_argv env user_token doc) = Inr r
     \<and> failed_response env r"
  then have b: "has_field doc ''title'' \<and> has_field doc ''document_token''
     \<and> encodable (field_text env doc ''title'')
     \<and> encodable (field_text env doc ''document_token'')
     \<and> subprocess_run env (length (calls w)) (fetch_argv env user_token doc) = Inr r"
    and f: "failed_response env r"
    by simp_all
  have c: "response_content env r = JNull"
    using f by (rule failed_response_content)
  have u: "usable_content (response_content env r)" by (simp add: c)
  from fetch_step [OF b u, of n i] c obtain w' where
    one: "fetch_one env user_token n i doc w = (Inr (with_content doc JNull), w')"
    by auto
  then have "fetch_loop env user_token n i (doc # docs) results w
                  = fetch_loop env user_token n (Suc i) docs
                      (results @ [with_content doc JNull]) w'"
    by simp
  with one
  show "\<exists>w'. fetch_one env user_token n i doc w = (Inr (with_content doc JNull), w')
              \<and> fetch_loop env user_token n i (doc # docs) results w
                  = fetch_loop env user_token n (Suc i) docs
                      (results @ [with_content doc JNull]) w'"
    by (intro exI [of _ w']) simp
next
  fix w :: world and inp docs and rs :: "(int \<times> string) list" and j
  assume a: "files w INPUT_FILE = Some inp \<and> json_loads env inp = Some (JArr docs)
       \<and> environ w ''LARK_USER_ACCESS_TOKEN'' = Some user_token \<and> user_token \<noteq> []
       \<and> batch_ok env w user_token docs rs \<and> j < length docs \<and> failed_response env (rs ! j)"
  then have b: "files w INPUT_FILE = Some inp \<and> json_loads env inp = Some (JArr docs)
         \<and> environ w ''LARK_USER_ACCESS_TOKEN'' = Some user_token \<and> user_token \<noteq> []
         \<and> batch_ok env w user_token docs rs \<and> j < length docs"
    and f: "failed_response env (rs ! j)"
    by simp_all
  have c: "response_content env (rs ! j) = JNull"
    using f by (rule failed_response_content)
  from live_run_entry [OF b] c
  show "fst (main env w) = Exit 0" by simp
  from live_run_entry [OF b] c
  show "files (snd (main env w)) OUTPUT_FILE =
             Some (report_header @ entries env docs rs [0..<j]
                   @ entry_heading env (docs ! j) @ ''[Content not available]'' @ NL @ NL
                   @ RULE_DASH @ NL @ NL
                   @ entries env docs rs [Suc j..<length docs])"
    by (simp add: entry_without_content)
next
  fix w :: world and inp docs j name
  assume a: "files w INPUT_FILE = Some inp \<and> json_loads env inp = Some (JArr docs)
       \<and> environ w ''LARK_USER_ACCESS_TOKEN'' = Some user_token \<and> user_token \<noteq> []
       \<and> j < length docs
       \<and> subprocess_run env (length (calls w) + j) (fetch_argv env user_token (docs ! j))
           = Inl name"
  then have b: "files w INPUT_FILE = Some inp" "json_loads env inp = Some (JArr docs)"
    "environ w ''LARK_USER_ACCESS_TOKEN'' = Some user_token" "user_token \<noteq> []"
    "j < length docs"
    "subprocess_run env (length (calls w) + j) (fetch_argv env user_token (docs ! j)) = Inl name"
    by simp_all
  from transport_exception_aborts [OF b]
  show "\<exists>e. fst (main env w) = Uncaught e" and "files (snd (main env w)) = files w"
    by simp_all
qed

theorem response_failure_is_per_descriptor_witness:
  "has_field example_doc1 ''title'' \<and> has_field example_doc1 ''document_token''
   \<and> encodable (field_text (example_env []) example_doc1 ''title'')
   \<and> encodable (field_text (example_env []) example_doc1 ''document_token'')
   \<and> subprocess_run (example_env []) (length (calls two_docs_world))
        (fetch_argv (example_env []) ''tok'' example_doc1) = Inr (7, [])
   \<and> failed_response (example_env []) (7, [])
   \<and> (\<exists>w'. fetch_one (example_env []) ''tok'' 2 1 example_doc1 two_docs_world
              = (Inr (JObj [(''number'', JInt 1), (''title'', JStr ''Home''), (''level'', JInt 0),
                            (''node_token'', JStr ''n1''), (''document_token'', JStr ''d1''),
                            (''url'', JStr ''u1''), (''content'', JNull)]), w')
            \<and> fetch_loop (example_env []) ''tok'' 2 1 [example_doc1, example_doc2] []
                  two_docs_world
                = fetch_loop (example_env []) ''tok'' 2 2 [example_doc2]
                    [JObj [(''number'', JInt 1), (''title'', JStr ''Home''), (''level'', JInt 0),
                           (''node_token'', JStr ''n1''), (''document_token'', JStr ''d1''),
                           (''url'', JStr ''u1''), (''content'', JNull)]] w')
   \<and> files two_docs_world INPUT_FILE = Some INPUT_TWO
   \<and> json_loads not_json_env INPUT_TWO = Some (JArr [example_doc1, example_doc2])
   \<and> environ two_docs_world ''LARK_USER_ACCESS_TOKEN'' = Some ''tok''
   \<and> batch_ok not_json_env two_docs_world ''tok'' [example_doc1, example_doc2]
        [(0, BODY_NOT_JSON), (0, BODY_HELLO)]
   \<and> failed_response not_json_env (0, BODY_NOT_JSON)
   \<and> fst (main not_json_env two_docs_world) = Exit 0
   \<and> files (snd (main not_json_env two_docs_world)) OUTPUT_FILE =
       Some (replicate 80 CHR ''='' @ [CHR 0x0A] @ ''LARK WIKI DOCUMENTS - WITH CONTENT''
               @ [CHR 0x0A] @ replicate 80 CHR ''='' @ [CHR 0x0A, CHR 0x0A]
             @ [CHR 0xF0, CHR 0x9F, CHR 0x93, CHR 0x84] @ '' DOCUMENT 1: Home'' @ [CHR 0x0A]
             @ ''   Level: 0'' @ [CHR 0x0A]
             @ ''   Node Token: n1'' @ [CHR 0x0A]
             @ ''   Document Token: d1'' @ [CHR 0x0A]
             @ ''   URL: u1'' @ [CHR 0x0A, CHR 0x0A]
             @ replicate 80 CHR ''-'' @ [CHR 0x0A, CHR 0x0A]
             @ ''[Content not available]'' @ [CHR 0x0A, CHR 0x0A]
             @ replicate 80 CHR ''-'' @ [CHR 0x0A, CHR 0x0A]
             @ [CHR 0xF0, CHR 0x9F, CHR 0x93, CHR 0x84] @ '' DOCUMENT 2: Setup'' @ [CHR 0x0A]
             @ ''   Level: 1'' @ [CHR 0x0A]
             @ ''   Node Token: n2'' @ [CHR 0x0A]
             @ ''   Document Token: d2'' @ [CHR 0x0A]
             @ ''   URL: u2'' @ [CHR 0x0A, CHR 0x0A]
             @ replicate 80 CHR ''-'' @ [CHR 0x0A, CHR 0x0A]
             @ ''hello'' @ [CHR 0x0A, CHR 0x0A]
             @ replicate 80 CHR ''-'' @ [CHR 0x0A, CHR 0x0A])
   \<and> json_loads broken_env INPUT_TWO = Some (JArr [example_doc1, example_doc2])
   \<and> subprocess_run broken_env (length (calls two_docs_world) + 0)
        (fetch_argv broken_env ''tok'' ([example_doc1, example_doc2] ! 0))
       = Inl ''FileNotFoundError''
   \<and> (\<exists>e. fst (main broken_env two_docs_world) = Uncaught e)
   \<and> files (snd (main broken_env two_docs_world)) OUTPUT_FILE = None"
proof -
  note t = response_failure_is_per_descriptor [of _ "''tok''"]
  have s: "has_field example_doc1 ''title'' \<and> has_field example_doc1 ''document_token''
   \<and> encodable (field_text (example_env []) example_doc1 ''title'')
   \<and> encodable (field_text (example_env []) example_doc1 ''document_token'')
   \<and> subprocess_run (example_env []) (length (calls two_docs_world))
        (fetch_argv (example_env []) ''tok'' example_doc1) = Inr (7, [])
   \<and> failed_response (example_env []) (7, [])"
    by code_simp
  have wc: "with_content example_doc1 JNull
        = JObj [(''number'', JInt 1), (''title'', JStr ''Home''), (''level'', JInt 0),
                (''node_token'', JStr ''n1''), (''document_token'', JStr ''d1''),
                (''url'', JStr ''u1''), (''content'', JNull)]"
    by code_simp
  from t [of "example_env []", THEN conjunct1, rule_format, OF s, of 2 1 "[example_doc2]" "[]"]
  have A: "\<exists>w'. fetch_one (example_env []) ''tok'' 2 1 example_doc1 two_docs_world
              = (Inr (JObj [(''number'', JInt 1), (''title'', JStr ''Home''), (''level'', JInt 0),
                            (''node_token'', JStr ''n1''), (''document_token'', JStr ''d1''),
                            (''url'', JStr ''u1''), (''content'', JNull)]), w')
            \<and> fetch_loop (example_env []) ''tok'' 2 1 [example_doc1, example_doc2] []
                  two_docs_world
                = fetch_loop (example_env []) ''tok'' 2 2 [example_doc2]
                    [JObj [(''number'', JInt 1), (''title'', JStr ''Home''), (''level'', JInt 0),
                           (''node_token'', JStr ''n1''), (''document_token'', JStr ''d1''),
                           (''url'', JStr ''u1''), (''content'', JNull)]] w'"
    unfolding wc by (simp add: numeral_2_eq_2)
  have r: "files two_docs_world INPUT_FILE = Some INPUT_TWO
         \<and> json_loads not_json_env INPUT_TWO = Some (JArr [example_doc1, example_doc2])
         \<and> environ two_docs_world ''LARK_USER_ACCESS_TOKEN'' = Some ''tok'' \<and> ''tok'' \<noteq> []
         \<and> batch_ok not_json_env two_docs_world ''tok'' [example_doc1, example_doc2]
              [(0, BODY_NOT_JSON), (0, BODY_HELLO)]
         \<and> 0 < length [example_doc1, example_doc2]
         \<and> failed_response not_json_env ([(0, BODY_NOT_JSON), (0, BODY_HELLO)] ! 0)"
    by code_simp
  have lit: "report_header
               @ entries not_json_env [example_doc1, example_doc2]
                   [(0, BODY_NOT_JSON), (0, BODY_HELLO)] [0..<0]
               @ entry_heading not_json_env ([example_doc1, example_doc2] ! 0)
               @ ''[Content not available]'' @ NL @ NL @ RULE_DASH @ NL @ NL
               @ entries not_json_env [example_doc1, example_doc2]
                   [(0, BODY_NOT_JSON), (0, BODY_HELLO)]
                   [Suc 0..<length [example_doc1, example_doc2]]
       = replicate 80 CHR ''='' @ [CHR 0x0A] @ ''LARK WIKI DOCUMENTS - WITH CONTENT''
               @ [CHR 0x0A] @ replicate 80 CHR ''='' @ [CHR 0x0A, CHR 0x0A]
             @ [CHR 0xF0, CHR 0x9F, CHR 0x93, CHR 0x84] @ '' DOCUMENT 1: Home'' @ [CHR 0x0A]
             @ ''   Level: 0'' @ [CHR 0x0A]
             @ ''   Node Token: n1'' @ [CHR 0x0A]
             @ ''   Document Token: d1'' @ [CHR 0x0A]
             @ ''   URL: u1'' @ [CHR 0x0A, CHR 0x0A]
             @ replicate 80 CHR ''-'' @ [CHR 0x0A, CHR 0x0A]
             @ ''[Content not available]'' @ [CHR 0x0A, CHR 0x0A]
             @ replicate 80 CHR ''-'' @ [CHR 0x0A, CHR 0x0A]
             @ [CHR 0xF0, CHR 0x9F, CHR 0x93, CHR 0x84] @ '' DOCUMENT 2: Setup'' @ [CHR 0x0A]
             @ ''   Level: 1'' @ [CHR 0x0A]
             @ ''   Node Token: n2'' @ [CHR 0x0A]
             @ ''   Document Token: d2'' @ [CHR 0x0A]
             @ ''   URL: u2'' @ [CHR 0x0A, CHR 0x0A]
             @ replicate 80 CHR ''-'' @ [CHR 0x0A, CHR 0x0A]
             @ ''hello'' @ [CHR 0x0A, CHR 0x0A]
             @ replicate 80 CHR ''-'' @ [CHR 0x0A, CHR 0x0A]"
    by code_simp
  note u = t [of not_json_env, THEN conjunct2, THEN conjunct1, rule_format, OF r]
  from u have B: "fst (main not_json_env two_docs_world) = Exit 0"
    by (rule conjunct1)
  from u [THEN conjunct2] lit
  have C: "files (snd (main not_json_env two_docs_world)) OUTPUT_FILE =
       Some (replicate 80 CHR ''='' @ [CHR 0x0A] @ ''LARK WIKI DOCUMENTS - WITH CONTENT''
               @ [CHR 0x0A] @ replicate 80 CHR ''='' @ [CHR 0x0A, CHR 0x0A]
             @ [CHR 0xF0, CHR 0x9F, CHR 0x93, CHR 0x84] @ '' DOCUMENT 1: Home'' @ [CHR 0x0A]
             @ ''   Level: 0'' @ [CHR 0x0A]
             @ ''   Node Token: n1'' @ [CHR 0x0A]
             @ ''   Document Token: d1'' @ [CHR 0x0A]
             @ ''   URL: u1'' @ [CHR 0x0A, CHR 0x0A]
             @ replicate 80 CHR ''-'' @ [CHR 0x0A, CHR 0x0A]
             @ ''[Content not available]'' @ [CHR 0x0A, CHR 0x0A]
             @ replicate 80 CHR ''-'' @ [CHR 0x0A, CHR 0x0A]
             @ [CHR 0xF0, CHR 0x9F, CHR 0x93, CHR 0x84] @ '' DOCUMENT 2: Setup'' @ [CHR 0x0A]
             @ ''   Level: 1'' @ [CHR 0x0A]
             @ ''   Node Token: n2'' @ [CHR 0x0A]
             @ ''   Document Token: d2'' @ [CHR 0x0A]
             @ ''   URL: u2'' @ [CHR 0x0A, CHR 0x0A]
             @ replicate 80 CHR ''-'' @ [CHR 0x0A, CHR 0x0A]
             @ ''hello'' @ [CHR 0x0A, CHR 0x0A]
             @ replicate 80 CHR ''-'' @ [CHR 0x0A, CHR 0x0A])"
    by (simp only:)
  have x: "files two_docs_world INPUT_FILE = Some INPUT_TWO
         \<and> json_loads broken_env INPUT_TWO = Some (JArr [example_doc1, example_doc2])
         \<and> environ two_docs_world ''LARK_USER_ACCESS_TOKEN'' = Some ''tok'' \<and> ''tok'' \<noteq> []
         \<and> 0 < length [example_doc1, example_doc2]
         \<and> subprocess_run broken_env (length (calls two_docs_world) + 0)
              (fetch_argv broken_env ''tok'' ([example_doc1, example_doc2] ! 0))
             = Inl ''FileNotFoundError''"
    by code_simp
  note v = t [of broken_env, THEN conjunct2, THEN conjunct2, rule_format, OF x]
  from v have D: "\<exists>e. fst (main broken_env two_docs_world) = Uncaught e"
    by (rule conjunct1)
  have "files two_docs_world OUTPUT_FILE = None"
    by code_simp
  with v have E: "files (snd (main broken_env two_docs_world)) OUTPUT_FILE = None"
    by simp
  from s A r B C x D E show ?thesis by (intro conjI) simp_all
qed

text \<open>
  Claim C3 as stated does not hold for a failure to invoke the transport: when
  \<^verbatim>\<open>subprocess.run\<close> raises for the first of two descriptors, the run ends with that
  exception, the second descriptor is never fetched and no report is written.
\<close>

theorem transport_exception_counterexample:
  "files two_docs_world INPUT_FILE = Some INPUT_TWO
   \<and> json_loads broken_env INPUT_TWO = Some (JArr [example_doc1, example_doc2])
   \<and> environ two_docs_world ''LARK_USER_ACCESS_TOKEN'' = Some ''tok''
   \<and> subprocess_run broken_env 0 (fetch_argv broken_env ''tok'' example_doc1)
       = Inl ''FileNotFoundError''
   \<and> fst (main broken_env two_docs_world) = Uncaught (SubprocessError ''FileNotFoundError'')
   \<and> length (calls (snd (main broken_env two_docs_world))) = 1
   \<and> files (snd (main broken_env two_docs_world)) OUTPUT_FILE = None"
  by code_simp

section \<open>Dry mode: no credential\<close>

lemma main_dry_frame:
  assumes "environ w ''LARK_USER_ACCESS_TOKEN'' = None"
  shows "calls (snd (main env w)) = calls w" and "files (snd (main env w)) = files w"
proof -
  have "calls (snd (main env w)) = calls w \<and> files (snd (main env w)) = files w"
  proof (cases "files w INPUT_FILE")
    case None
    then show ?thesis
      unfolding main_def missing_input_message_ok by simp
  next
    case (Some inp)
    show ?thesis
    proof (cases "json_loads env inp")
      case None
      with Some show ?thesis by (simp add: main_def)
    next
      case loaded: (Some documents)
      show ?thesis
      proof (cases "py_len documents")
        case (Inl e)
        with Some loaded show ?thesis by (simp add: main_def blocks_ok)
      next
        case (Inr n)
        have "\<not> has_token w" using assms by (simp add: has_token_def)
        from main_dry [OF Some loaded Inr this] obtain out where
          "main env w = dry_mode env documents (w\<lparr>stdout := stdout w @ out\<rparr>)"
          by (elim exE)
        with dry_mode_frame [of env documents "w\<lparr>stdout := stdout w @ out\<rparr>"]
        show ?thesis by simp
      qed
    qed
  qed
  then show "calls (snd (main env w)) = calls w" and "files (snd (main env w)) = files w"
    by simp_all
qed

text \<open>
  Claim C4, as the code has it. When \<^verbatim>\<open>LARK_USER_ACCESS_TOKEN\<close> is absent the program makes
  no transport invocation and writes no file, for every input. When, moreover, every
  element of the input array carries a title and a document token whose texts can be
  encoded, it exits with status 0 after printing the title, the number of documents and
  the two paths, the notice about the missing token, the listing with one line per
  descriptor in input order, and the instructions.
\<close>

theorem dry_mode_no_network:
  assumes "environ w ''LARK_USER_ACCESS_TOKEN'' = None"
  shows "calls (snd (main env w)) = calls w
       \<and> files (snd (main env w)) = files w
       \<and> (\<forall>inp docs.
            files w INPUT_FILE = Some inp
          \<and> json_loads env inp = Some (JArr docs)
          \<and> list_all (\<lambda>d. has_field d ''title'' \<and> has_field d ''document_token''
                          \<and> encodable (field_text env d ''title'')
                          \<and> encodable (field_text env d ''document_token'')) docs
          \<longrightarrow> fst (main env w) = Exit 0
            \<and> stdout (snd (main env w)) =
                stdout w
                @ printed [RULE_EQ, ''Lark Wiki Document Content Retrieval'', RULE_EQ]
                @ printed [NL @ ''Found '' @ show_nat (length docs) @ '' documents'',
                           ''Input: '' @ INPUT_FILE, ''Output: '' @ OUTPUT_FILE, NL @ RULE_DASH]
                @ printed [NL @ WARNING_SIGN @ ''  User Access Token not found!'',
                           NL @ ''To retrieve content, you need:'',
                           ''  1. Set LARK_USER_ACCESS_TOKEN environment variable'',
                           ''     OR'',
                           ''  2. Use MCP tools manually (docx.v1.document.rawContent)'',
                           NL @ CLIPBOARD @ '' Document Tokens to retrieve:'',
                           []]
                @ concat (map (listing_line env) docs)
                @ printed [NL @ LIGHT_BULB @ '' To retrieve content using MCP tools:'',
                           ''   Call: mcp_Lark_MCP_docx_v1_document_rawContent'',
                           ''   With: document_id = {document_token}'',
                           NL @ LIGHT_BULB @ '' To retrieve via API:'',
                           ''   export LARK_USER_ACCESS_TOKEN='' @ [CHR 0x27] @ ''your_token''
                             @ [CHR 0x27],
                           ''   python3 get_wiki_content.py''])"
proof (intro conjI allI impI)
  show "calls (snd (main env w)) = calls w"
    using assms by (rule main_dry_frame(1))
  show "files (snd (main env w)) = files w"
    using assms by (rule main_dry_frame(2))
next
  fix inp docs
  assume a: "files w INPUT_FILE = Some inp
          \<and> json_loads env inp = Some (JArr docs)
          \<and> list_all (\<lambda>d. has_field d ''title'' \<and> has_field d ''document_token''
                          \<and> encodable (field_text env d ''title'')
                          \<and> encodable (field_text env d ''document_token'')) docs"
  then have l: "\<forall>d\<in>set docs. has_field d ''title'' \<and> has_field d ''document_token''
             \<and> encodable (field_text env d ''title'')
             \<and> encodable (field_text env d ''document_token'')"
    by (simp add: list_all_iff)
  note ld = list_documents_ok [OF l]
  have m: "main env w =
     (Exit 0, w\<lparr>stdout := stdout w
                @ printed [RULE_EQ, ''Lark Wiki Document Content Retrieval'', RULE_EQ]
                @ printed [NL @ ''Found '' @ show_nat (length docs) @ '' documents'',
                           ''Input: '' @ INPUT_FILE, ''Output: '' @ OUTPUT_FILE, NL @ RULE_DASH]
                @ printed [NL @ WARNING_SIGN @ ''  User Access Token not found!'',
                           NL @ ''To retrieve content, you need:'',
                           ''  1. Set LARK_USER_ACCESS_TOKEN environment variable'',
                           ''     OR'',
                           ''  2. Use MCP tools manually (docx.v1.document.rawContent)'',
                           NL @ CLIPBOARD @ '' Document Tokens to retrieve:'',
                           []]
                @ concat (map (listing_line env) docs)
                @ printed [NL @ LIGHT_BULB @ '' To retrieve content using MCP tools:'',
                           ''   Call: mcp_Lark_MCP_docx_v1_document_rawContent'',
                           ''   With: document_id = {document_token}'',
                           NL @ LIGHT_BULB @ '' To retrieve via API:'',
                           ''   export LARK_USER_ACCESS_TOKEN='' @ [CHR 0x27] @ ''your_token''
                             @ [CHR 0x27],
                           ''   python3 get_wiki_content.py'']\<rparr>)"
    using a assms by (simp add: main_def dry_mode_def blocks_ok ld)
  from m show "fst (main env w) = Exit 0" by simp
  from m show "stdout (snd (main env w)) =
                stdout w
                @ printed [RULE_EQ, ''Lark Wiki Document Content Retrieval'', RULE_EQ]
                @ printed [NL @ ''Found '' @ show_nat (length docs) @ '' documents'',
                           ''Input: '' @ INPUT_FILE, ''Output: '' @ OUTPUT_FILE, NL @ RULE_DASH]
                @ printed [NL @ WARNING_SIGN @ ''  User Access Token not found!'',
                           NL @ ''To retrieve content, you need:'',
                           ''  1. Set LARK_USER_ACCESS_TOKEN environment variable'',
                           ''     OR'',
                           ''  2. Use MCP tools manually (docx.v1.document.rawContent)'',
                           NL @ CLIPBOARD @ '' Document Tokens to retrieve:'',
                           []]
                @ concat (map (listing_line env) docs)
                @ printed [NL @ LIGHT_BULB @ '' To retrieve content using MCP tools:'',
                           ''   Call: mcp_Lark_MCP_docx_v1_document_rawContent'',
                           ''   With: document_id = {document_token}'',
                           NL @ LIGHT_BULB @ '' To retrieve via API:'',
                           ''   export LARK_USER_ACCESS_TOKEN='' @ [CHR 0x27] @ ''your_token''
                             @ [CHR 0x27],
                           ''   python3 get_wiki_content.py'']"
    by simp
qed

theorem dry_mode_no_network_witness:
  "environ no_token_world ''LARK_USER_ACCESS_TOKEN'' = None
   \<and> calls (snd (main (example_env []) no_token_world)) = []
   \<and> files (snd (main (example_env []) no_token_world)) OUTPUT_FILE = None
   \<and> files no_token_world INPUT_FILE = Some INPUT_TWO
   \<and> json_loads (example_env []) INPUT_TWO = Some (JArr [example_doc1, example_doc2])
   \<and> list_all (\<lambda>d. has_field d ''title'' \<and> has_field d ''document_token''
                   \<and> encodable (field_text (example_env []) d ''title'')
                   \<and> encodable (field_text (example_env []) d ''document_token''))
        [example_doc1, example_doc2]
   \<and> fst (main (example_env []) no_token_world) = Exit 0
   \<and> concat (map (listing_line (example_env [])) [example_doc1, example_doc2])
       = ''  '' @ [CHR 0xE2, CHR 0x80, CHR 0xA2] @ '' Home: d1'' @ [CHR 0x0A]
         @ ''  '' @ [CHR 0xE2, CHR 0x80, CHR 0xA2] @ '' Setup: d2'' @ [CHR 0x0A]
   \<and> stdout (snd (main (example_env []) no_token_world)) =
       printed [replicate 80 CHR ''='', ''Lark Wiki Document Content Retrieval'',
                replicate 80 CHR ''='']
       @ printed [CHR 0x0A # ''Found 2 documents'',
                  ''Input: temp/wiki_documents.json'',
                  ''Output: temp/wiki_documents_with_content.txt'',
                  [CHR 0x0A] @ replicate 80 CHR ''-'']
       @ printed [CHR 0x0A # [CHR 0xE2, CHR 0x9A, CHR 0xA0, CHR 0xEF, CHR 0xB8, CHR 0x8F]
                    @ ''  User Access Token not found!'',
                  [CHR 0x0A] @ ''To retrieve content, you need:'',
                  ''  1. Set LARK_USER_ACCESS_TOKEN environment variable'',
                  ''     OR'',
                  ''  2. Use MCP tools manually (docx.v1.document.rawContent)'',
                  [CHR 0x0A] @ [CHR 0xF0, CHR 0x9F, CHR 0x93, CHR 0x8B]
                    @ '' Document Tokens to retrieve:'',
                  []]
       @ ''  '' @ [CHR 0xE2, CHR 0x80, CHR 0xA2] @ '' Home: d1'' @ [CHR 0x0A]
       @ ''  '' @ [CHR 0xE2, CHR 0x80, CHR 0xA2] @ '' Setup: d2'' @ [CHR 0x0A]
       @ printed [CHR 0x0A # [CHR 0xF0, CHR 0x9F, CHR 0x92, CHR 0xA1]
                    @ '' To retrieve content using MCP tools:'',
                  ''   Call: mcp_Lark_MCP_docx_v1_document_rawContent'',
                  ''   With: document_id = {document_token}'',
                  [CHR 0x0A] @ [CHR 0xF0, CHR 0x9F, CHR 0x92, CHR 0xA1] @ '' To retrieve via API:'',
                  ''   export LARK_USER_ACCESS_TOKEN='' @ [CHR 0x27] @ ''your_token'' @ [CHR 0x27],
                  ''   python3 get_wiki_content.py'']"
proof -
  have h: "environ no_token_world ''LARK_USER_ACCESS_TOKEN'' = None"
    by (simp add: no_token_world_def example_world_def)
  note t = dry_mode_no_network [OF h, of "example_env []"]
  have c: "calls no_token_world = []" "files no_token_world OUTPUT_FILE = None"
    "stdout no_token_world = []"
    by (simp_all add: no_token_world_def example_world_def INPUT_FILE_def OUTPUT_FILE_def)
  from t c have A: "calls (snd (main (example_env []) no_token_world)) = []"
    and B: "files (snd (main (example_env []) no_token_world)) OUTPUT_FILE = None"
    by simp_all
  have r: "files no_token_world INPUT_FILE = Some INPUT_TWO
          \<and> json_loads (example_env []) INPUT_TWO = Some (JArr [example_doc1, example_doc2])
          \<and> list_all (\<lambda>d. has_field d ''title'' \<and> has_field d ''document_token''
                          \<and> encodable (field_text (example_env []) d ''title'')
                          \<and> encodable (field_text (example_env []) d ''document_token''))
               [example_doc1, example_doc2]"
    by code_simp
  have l: "concat (map (listing_line (example_env [])) [example_doc1, example_doc2])
       = ''  '' @ [CHR 0xE2, CHR 0x80, CHR 0xA2] @ '' Home: d1'' @ [CHR 0x0A]
         @ ''  '' @ [CHR 0xE2, CHR 0x80, CHR 0xA2] @ '' Setup: d2'' @ [CHR 0x0A]"
    by code_simp
  note u = t [THEN conjunct2, THEN conjunct2, rule_format, OF r]
  from u have C: "fst (main (example_env []) no_token_world) = Exit 0"
    by (rule conjunct1)
  have n: "show_nat (length [example_doc1, example_doc2]) = ''2''"
    by code_simp
  from u [THEN conjunct2]
  have D: "stdout (snd (main (example_env []) no_token_world)) =
       printed [replicate 80 CHR ''='', ''Lark Wiki Document Content Retrieval'',
                replicate 80 CHR ''='']
       @ printed [CHR 0x0A # ''Found 2 documents'',
                  ''Input: temp/wiki_documents.json'',
                  ''Output: temp/wiki_documents_with_content.txt'',
                  [CHR 0x0A] @ replicate 80 CHR ''-'']
       @ printed [CHR 0x0A # [CHR 0xE2, CHR 0x9A, CHR 0xA0, CHR 0xEF, CHR 0xB8, CHR 0x8F]
                    @ ''  User Access Token not found!'',
                  [CHR 0x0A] @ ''To retrieve content, you need:'',
                  ''  1. Set LARK_USER_ACCESS_TOKEN environment variable'',
                  ''     OR'',
                  ''  2. Use MCP tools manually (docx.v1.document.rawContent)'',
                  [CHR 0x0A] @ [CHR 0xF0, CHR 0x9F, CHR 0x93, CHR 0x8B]
                    @ '' Document Tokens to retrieve:'',
                  []]
       @ ''  '' @ [CHR 0xE2, CHR 0x80, CHR 0xA2] @ '' Home: d1'' @ [CHR 0x0A]
       @ ''  '' @ [CHR 0xE2, CHR 0x80, CHR 0xA2] @ '' Setup: d2'' @ [CHR 0x0A]
       @ printed [CHR 0x0A # [CHR 0xF0, CHR 0x9F, CHR 0x92, CHR 0xA1]
                    @ '' To retrieve content using MCP tools:'',
                  ''   Call: mcp_Lark_MCP_docx_v1_document_rawContent'',
                  ''   With: document_id = {document_token}'',
                  [CHR 0x0A] @ [CHR 0xF0, CHR 0x9F, CHR 0x92, CHR 0xA1] @ '' To retrieve via API:'',
                  ''   export LARK_USER_ACCESS_TOKEN='' @ [CHR 0x27] @ ''your_token'' @ [CHR 0x27],
                  ''   python3 get_wiki_content.py'']"
    unfolding l n c(3)
    by (simp add: RULE_EQ_def RULE_DASH_def NL_def WARNING_SIGN_def CLIPBOARD_def LIGHT_BULB_def
          INPUT_FILE_def OUTPUT_FILE_def)
  from h A B r C l D show ?thesis by (intro conjI) simp_all
qed

text \<open>
  Claim C4 as stated, for every input array, does not hold: with no token and the input
  array \<^verbatim>\<open>[{}]\<close> the listing raises \<^verbatim>\<open>KeyError\<close> at \<^verbatim>\<open>doc['title']\<close>, and the process ends
  with status 1, not 0.
\<close>

theorem dry_mode_missing_title_counterexample:
  "environ empty_descriptor_world ''LARK_USER_ACCESS_TOKEN'' = None
   \<and> files empty_descriptor_world INPUT_FILE = Some ''[{}]''
   \<and> json_loads (example_env []) ''[{}]'' = Some (JArr [JObj []])
   \<and> fst (main (example_env []) empty_descriptor_world) = Uncaught (KeyError ''title'')
   \<and> exit_status (fst (main (example_env []) empty_descriptor_world)) = 1
   \<and> calls (snd (main (example_env []) empty_descriptor_world)) = []"
  by code_simp


section \<open>The fields that the script requires\<close>

lemma run_all_None_each:
  "fst (run_all ws f) = None \<Longrightarrow> a \<in> set ws \<Longrightarrow> \<exists>f'. fst (a f') = None"
proof (induction ws arbitrary: f)
  case Nil
  then show ?case by simp
next
  case (Cons b ws)
  obtain r f1 where b: "b f = (r, f1)" by (cases "b f")
  show ?case
  proof (cases r)
    case None
    with b Cons.prems(1) have rest: "fst (run_all ws f1) = None" by simp
    show ?thesis
    proof (cases "a = b")
      case True
      with b None have "fst (a f) = None" by simp
      then show ?thesis by (rule exI)
    next
      case False
      with Cons.prems(2) have "a \<in> set ws" by simp
      with rest show ?thesis by (rule Cons.IH)
    qed
  next
    case (Some e)
    with b Cons.prems(1) show ?thesis by simp
  qed
qed

lemma run_all_Some_each:
  "fst (run_all ws f) = Some e \<Longrightarrow> \<exists>a\<in>set ws. \<exists>f'. fst (a f') = Some e"
proof (induction ws arbitrary: f)
  case Nil
  then show ?case by simp
next
  case (Cons b ws)
  obtain r f1 where b: "b f = (r, f1)" by (cases "b f")
  show ?case
  proof (cases r)
    case None
    with b Cons.prems have "fst (run_all ws f1) = Some e" by simp
    from Cons.IH [OF this] show ?thesis by auto
  next
    case (Some e')
    with b Cons.prems have "fst (b f) = Some e" by simp
    then show ?thesis by auto
  qed
qed

lemma fwrite_None:
  "fst (fwrite x f) = None \<Longrightarrow> \<exists>s. x = Inr s"
  by (cases x) (simp_all add: fwrite_def)

lemma fwrite_Some:
  "fst (fwrite x f) = Some e \<Longrightarrow> x = Inl e \<or> e = UnicodeEncodeError"
  by (cases x) (auto simp: fwrite_def split: if_splits)

lemma field_line_Inr:
  "field_line env d label k = Inr s \<Longrightarrow> has_field d k"
  by (auto simp: field_line_def field_def has_field_iff split: sum.splits)

lemma title_line_Inr:
  "title_line env d = Inr s \<Longrightarrow> has_field d ''number'' \<and> has_field d ''title''"
  by (auto simp: title_line_def field_def has_field_iff split: sum.splits)

lemma write_doc_None_fields:
  assumes "fst (write_doc env d f) = None"
  shows "has_required_fields d"
proof -
  note r = run_all_None_each [OF assms [unfolded write_doc_def]]
  have "\<exists>f'. fst (fwrite (title_line env d) f') = None" by (rule r) simp
  then have t: "has_field d ''number'' \<and> has_field d ''title''"
    using fwrite_None title_line_Inr by blast
  have "\<exists>f'. fst (fwrite (field_line env d ''   Level: '' ''level'') f') = None" by (rule r) simp
  then have l: "has_field d ''level''"
    using fwrite_None field_line_Inr by blast
  have "\<exists>f'. fst (fwrite (field_line env d ''   Node Token: '' ''node_token'') f') = None"
    by (rule r) simp
  then have n: "has_field d ''node_token''"
    using fwrite_None field_line_Inr by blast
  have "\<exists>f'. fst (fwrite (field_line env d ''   Document Token: '' ''document_token'') f') = None"
    by (rule r) simp
  then have dt: "has_field d ''document_token''"
    using fwrite_None field_line_Inr by blast
  have "\<exists>f'. fst (fwrite (field_line env d ''   URL: '' ''url'') f') = None"
    by (rule r) simp
  then have u: "has_field d ''url''"
    using fwrite_None field_line_Inr by blast
  from t l n dt u show ?thesis by (simp add: has_required_fields_iff)
qed

lemma with_content_required:
  "has_required_fields (with_content d c) = has_required_fields d"
  by (simp add: has_required_fields_iff with_content_field)

lemma write_content_error:
  assumes "has_field d k" and "fst (write_content d f) = Some e"
  shows "\<not> is_access_error e"
proof -
  from assms(1) obtain kvs where d: "d = JObj kvs" by (cases d) simp_all
  show ?thesis
  proof (cases "map_of kvs ''content''")
    case None
    with assms(2) d show ?thesis
      by (auto simp: write_content_def fwrite_def split: if_splits)
  next
    case (Some c)
    with assms(2) d show ?thesis
      by (cases c)
         (auto simp: write_content_def fwrite_def content_text_def split: if_splits)
  qed
qed

lemma write_doc_error:
  assumes "has_required_fields d" and "fst (write_doc env d f) = Some e"
  shows "\<not> is_access_error e"
proof -
  from assms(1) have h: "has_field d ''number''" "has_field d ''title''" "has_field d ''level''"
    "has_field d ''node_token''" "has_field d ''document_token''" "has_field d ''url''"
    by (simp_all add: has_required_fields_iff)
  have lines: "\<exists>s. title_line env d = Inr s"
    "\<exists>s. field_line env d ''   Level: '' ''level'' = Inr s"
    "\<exists>s. field_line env d ''   Node Token: '' ''node_token'' = Inr s"
    "\<exists>s. field_line env d ''   Document Token: '' ''document_token'' = Inr s"
    "\<exists>s. field_line env d ''   URL: '' ''url'' = Inr s"
    using h by (simp_all add: title_line_def field_line_def field_str)
  from run_all_Some_each [OF assms(2) [unfolded write_doc_def]] obtain a f' where
    a: "a \<in> set [fwrite (title_line env d),
        fwrite (field_line env d ''   Level: '' ''level''),
        fwrite (field_line env d ''   Node Token: '' ''node_token''),
        fwrite (field_line env d ''   Document Token: '' ''document_token''),
        fwrite (field_line env d ''   URL: '' ''url''),
        fwrite (Inr (NL @ RULE_DASH @ NL @ NL)),
        write_content d,
        fwrite (Inr (RULE_DASH @ NL @ NL))]"
    and e: "fst (a f') = Some e"
    by (elim bexE exE)
  from a consider
      (line) x s where "a = fwrite x" "x = Inr s"
    | (content) "a = write_content d"
    using lines by auto
  then show ?thesis
  proof cases
    case line
    with e fwrite_Some [of x f' e] show ?thesis by auto
  next
    case content
    with e write_content_error [OF h(1)] show ?thesis by simp
  qed
qed

lemma write_report_None_each:
  assumes "fst (write_report env results w) = None" and "d \<in> set results"
  shows "has_required_fields d"
proof -
  from assms(1) have "fst (run_all (write_banner # map (write_doc env) results) []) = None"
    by (simp add: write_report_frame(4))
  from run_all_None_each [OF this, of "write_doc env d"] assms(2)
  obtain f' where "fst (write_doc env d f') = None" by auto
  then show ?thesis by (rule write_doc_None_fields)
qed

lemma write_report_error:
  assumes "fst (write_report env results w) = Some e"
    and "\<forall>d\<in>set results. has_required_fields d"
  shows "\<not> is_access_error e"
proof -
  from assms(1) have "fst (run_all (write_banner # map (write_doc env) results) []) = Some e"
    by (simp add: write_report_frame(4))
  from run_all_Some_each [OF this] obtain a f' where
    a: "a \<in> set (write_banner # map (write_doc env) results)" and e: "fst (a f') = Some e"
    by (elim bexE exE)
  from a e write_banner_ok [of f'] obtain d where "d \<in> set results" "a = write_doc env d"
    by auto
  with e assms(2) write_doc_error [of d env f' e] show ?thesis by auto
qed

lemma py_len_error:
  "py_len c = Inl e \<Longrightarrow> \<not> is_access_error e"
  by (cases c) auto

lemma fetch_one_error:
  assumes "has_field doc ''title''" and "has_field doc ''document_token''"
    and "fetch_one env tok n i doc w = (Inl e, w')"
  shows "\<not> is_access_error e"
proof -
  have t: "py_getitem doc ''title'' = Inr (field_value doc ''title'')"
    and d: "py_getitem doc ''document_token'' = Inr (field_value doc ''document_token'')"
    using assms(1,2) by (simp_all add: getitem_field)
  have s: "\<And>c. py_setitem doc ''content'' c = Inr (with_content doc c)"
    using assms(1) by (rule with_content_content(3))
  from assms(3) show ?thesis
    unfolding fetch_one_def t d s sum.case
    by (auto simp: print_def get_content_via_api_def Let_def
             dest: py_len_error
             split: sum.splits prod.splits if_splits option.splits)
qed

lemma fetch_loop_error:
  assumes "\<forall>d\<in>set docs. has_field d ''title'' \<and> has_field d ''document_token''"
    and "fetch_loop env tok n i docs results w = (Inl e, w')"
  shows "\<not> is_access_error e"
  using assms
proof (induction docs arbitrary: i results w)
  case Nil
  then show ?case by simp
next
  case (Cons doc docs)
  obtain x w1 where f: "fetch_one env tok n i doc w = (x, w1)"
    by (cases "fetch_one env tok n i doc w")
  from Cons.prems(1) have h: "has_field doc ''title''" "has_field doc ''document_token''"
    and rest: "\<forall>d\<in>set docs. has_field d ''title'' \<and> has_field d ''document_token''"
    by simp_all
  show ?case
  proof (cases x)
    case (Inl e')
    with f Cons.prems(2) have "e' = e" by simp
    with f Inl fetch_one_error [OF h, of env tok n i w e w1] show ?thesis by simp
  next
    case (Inr doc')
    with f Cons.prems(2)
    have "fetch_loop env tok n (Suc i) docs (results @ [doc']) w1 = (Inl e, w')" by simp
    from Cons.IH [OF rest this] show ?thesis .
  qed
qed

lemma list_documents_error:
  assumes "\<forall>d\<in>set docs. has_field d ''title'' \<and> has_field d ''document_token''"
    and "fst (list_documents env docs w) = Some e"
  shows "\<not> is_access_error e"
  using assms
proof (induction docs arbitrary: w)
  case Nil
  then show ?case by simp
next
  case (Cons d docs)
  from Cons.prems(1) have h: "has_field d ''title''" "has_field d ''document_token''"
    and rest: "\<forall>d\<in>set docs. has_field d ''title'' \<and> has_field d ''document_token''"
    by simp_all
  obtain r w1 where p: "print (''  '' @ BULLET @ '' '' @ py_str (str_repr env) (field_value d ''title'')
                           @ '': '' @ py_str (str_repr env) (field_value d ''document_token'')) w
                         = (r, w1)"
    by (cases "print (''  '' @ BULLET @ '' '' @ py_str (str_repr env) (field_value d ''title'')
                           @ '': '' @ py_str (str_repr env) (field_value d ''document_token'')) w")
  show ?case
  proof (cases r)
    case None
    with p Cons.prems(2) h have "fst (list_documents env docs w1) = Some e"
      by (simp add: getitem_field)
    from Cons.IH [OF rest this] show ?thesis .
  next
    case (Some e')
    with p have "e' = UnicodeEncodeError" by (auto simp: print_def split: if_splits)
    with p Some Cons.prems(2) h show ?thesis by (simp add: getitem_field)
  qed
qed

lemma live_exit_0_fields:
  assumes "fst (live_mode env (JArr docs) n tok w) = Exit 0"
  shows "list_all has_required_fields docs"
proof -
  obtain x w1 where loop: "fetch_loop env tok n 1 docs [] w = (x, w1)"
    by (cases "fetch_loop env tok n 1 docs [] w")
  with assms obtain all where x: "x = Inr all"
    by (cases x) (simp_all add: live_mode_def)
  from fetch_loop_Inr [OF loop [unfolded x]] obtain rs where
    rs: "length rs = length docs"
        "all = [] @ map (\<lambda>(d, r). with_content d (response_content env r)) (zip docs rs)"
    by (elim exE conjE)
  from assms loop x have wr: "fst (write_report env all w1) = None"
    by (auto simp: live_mode_def split: prod.splits option.splits)
  have "\<forall>d\<in>set docs. has_required_fields d"
  proof
    fix d assume "d \<in> set docs"
    then obtain j where j: "j < length docs" "d = docs ! j"
      by (auto simp: in_set_conv_nth)
    with rs(1) have "(d, rs ! j) \<in> set (zip docs rs)"
      by (auto simp: in_set_zip intro!: exI [of _ j])
    then have "with_content d (response_content env (rs ! j)) \<in> set all"
      unfolding rs(2) by force
    from write_report_None_each [OF wr this]
    show "has_required_fields d" by (simp add: with_content_required)
  qed
  then show ?thesis by (simp add: list_all_iff)
qed

lemma live_mode_error:
  assumes "list_all has_required_fields docs"
    and "fst (live_mode env (JArr docs) n tok w) = Uncaught e"
  shows "\<not> is_access_error e"
proof -
  from assms(1) have all: "\<forall>d\<in>set docs. has_required_fields d"
    by (simp add: list_all_iff)
  then have td: "\<forall>d\<in>set docs. has_field d ''title'' \<and> has_field d ''document_token''"
    by (simp add: has_required_fields_iff)
  obtain x w1 where loop: "fetch_loop env tok n 1 docs [] w = (x, w1)"
    by (cases "fetch_loop env tok n 1 docs [] w")
  show ?thesis
  proof (cases x)
    case (Inl e')
    with loop assms(2) have "e' = e" by (simp add: live_mode_def)
    with loop Inl fetch_loop_error [OF td, of env tok n 1 "[]" w e w1] show ?thesis by simp
  next
    case (Inr results)
    from fetch_loop_Inr [OF loop [unfolded Inr]] obtain rs where
      rs: "length rs = length docs"
          "results = [] @ map (\<lambda>(d, r). with_content d (response_content env r)) (zip docs rs)"
      by (elim exE conjE)
    have ok: "\<forall>d\<in>set results. has_required_fields d"
    proof
      fix d assume "d \<in> set results"
      with rs(2) obtain d0 r where "(d0, r) \<in> set (zip docs rs)"
        "d = with_content d0 (response_content env r)"
        by auto
      then have "d0 \<in> set docs" by (auto dest: set_zip_leftD)
      with all \<open>d = with_content d0 (response_content env r)\<close>
      show "has_required_fields d" by (simp add: with_content_required)
    qed
    from loop Inr assms(2) have "fst (write_report env results w1) = Some e"
      by (auto simp: live_mode_def blocks_ok split: prod.splits option.splits)
    then show ?thesis using ok by (rule write_report_error)
  qed
qed

text \<open>
  Claim C10, as the code has it. The fetch loop reads \<^verbatim>\<open>title\<close> and \<^verbatim>\<open>document_token\<close> and
  the report writer reads all six fields, without a default.

  \<^item> In live mode, for any input array in which some descriptor lacks one of the six
    fields, the run ends with an uncaught exception.
  \<^item> In dry mode only \<^verbatim>\<open>title\<close> and \<^verbatim>\<open>document_token\<close> are read: when some descriptor
    lacks one of these two the run ends with an uncaught exception; when every descriptor
    carries these two, with encodable text, the run exits with status 0, whatever other
    fields are missing.
  \<^item> When every descriptor carries the six fields, no access to a field fails: the run
    never ends by a \<^verbatim>\<open>KeyError\<close> or by the \<^verbatim>\<open>TypeError\<close> of a subscript.
\<close>

theorem required_fields:
  assumes "files w INPUT_FILE = Some inp"
    and "json_loads env inp = Some (JArr docs)"
  shows "(has_token w \<and> \<not> list_all has_required_fields docs
            \<longrightarrow> (\<exists>e. fst (main env w) = Uncaught e))
       \<and> (\<not> has_token w
            \<and> \<not> list_all (\<lambda>d. has_field d ''title'' \<and> has_field d ''document_token'') docs
            \<longrightarrow> (\<exists>e. fst (main env w) = Uncaught e))
       \<and> (\<not> has_token w
            \<and> list_all (\<lambda>d. has_field d ''title'' \<and> has_field d ''document_token''
                            \<and> encodable (field_text env d ''title'')
                            \<and> encodable (field_text env d ''document_token'')) docs
            \<longrightarrow> fst (main env w) = Exit 0)
       \<and> (list_all has_required_fields docs
            \<longrightarrow> (\<forall>e. fst (main env w) = Uncaught e \<longrightarrow> \<not> is_access_error e))"
proof (intro conjI impI allI)
  assume a: "has_token w \<and> \<not> list_all has_required_fields docs"
  then obtain tok where tok: "environ w ''LARK_USER_ACCESS_TOKEN'' = Some tok" "tok \<noteq> []"
    by (auto simp: has_token_iff)
  from main_live [OF assms _ tok, of "length docs"] obtain out where
    m: "main env w = live_mode env (JArr docs) (length docs) tok (w\<lparr>stdout := stdout w @ out\<rparr>)"
    by auto
  from a live_exit_0_fields [of env docs "length docs" tok "w\<lparr>stdout := stdout w @ out\<rparr>"]
  have "fst (live_mode env (JArr docs) (length docs) tok (w\<lparr>stdout := stdout w @ out\<rparr>)) \<noteq> Exit 0"
    by blast
  with m live_mode_outcome [of env "JArr docs" "length docs" tok "w\<lparr>stdout := stdout w @ out\<rparr>"]
  show "\<exists>e. fst (main env w) = Uncaught e" by simp
next
  assume a: "\<not> has_token w
        \<and> \<not> list_all (\<lambda>d. has_field d ''title'' \<and> has_field d ''document_token'') docs"
  then have l: "\<exists>d\<in>set docs. \<not> has_field d ''title'' \<or> \<not> has_field d ''document_token''"
    by (auto simp: list_all_iff)
  from a main_dry [OF assms, of "length docs"] obtain out where
    m: "main env w = dry_mode env (JArr docs) (w\<lparr>stdout := stdout w @ out\<rparr>)"
    by auto
  define w1 where "w1 = snd (dry_intro (w\<lparr>stdout := stdout w @ out\<rparr>))"
  from list_documents_lacking [OF l, of env w1] obtain e where
    e: "fst (list_documents env docs w1) = Some e"
    by (elim exE)
  then have "fst (dry_mode env (JArr docs) (w\<lparr>stdout := stdout w @ out\<rparr>)) = Uncaught e"
    by (cases "list_documents env docs w1") (simp add: dry_mode_def blocks_ok w1_def)
  with m show "\<exists>e. fst (main env w) = Uncaught e" by simp
next
  assume a: "\<not> has_token w
            \<and> list_all (\<lambda>d. has_field d ''title'' \<and> has_field d ''document_token''
                            \<and> encodable (field_text env d ''title'')
                            \<and> encodable (field_text env d ''document_token'')) docs"
  then have l: "\<forall>d\<in>set docs. has_field d ''title'' \<and> has_field d ''document_token''
             \<and> encodable (field_text env d ''title'')
             \<and> encodable (field_text env d ''document_token'')"
    by (simp add: list_all_iff)
  from a main_dry [OF assms, of "length docs"] obtain out where
    m: "main env w = dry_mode env (JArr docs) (w\<lparr>stdout := stdout w @ out\<rparr>)"
    by auto
  show "fst (main env w) = Exit 0"
    unfolding m by (simp add: dry_mode_def blocks_ok list_documents_ok [OF l])
next
  fix e
  assume all: "list_all has_required_fields docs" and u: "fst (main env w) = Uncaught e"
  show "\<not> is_access_error e"
  proof (cases "has_token w")
    case True
    then obtain tok where tok: "environ w ''LARK_USER_ACCESS_TOKEN'' = Some tok" "tok \<noteq> []"
      by (auto simp: has_token_iff)
    from main_live [OF assms _ tok, of "length docs"] obtain out where
      "main env w = live_mode env (JArr docs) (length docs) tok (w\<lparr>stdout := stdout w @ out\<rparr>)"
      by auto
    with u have "fst (live_mode env (JArr docs) (length docs) tok (w\<lparr>stdout := stdout w @ out\<rparr>))
                   = Uncaught e"
      by simp
    with all show ?thesis by (rule live_mode_error)
  next
    case False
    from False main_dry [OF assms, of "length docs"] obtain out where
      m: "main env w = dry_mode env (JArr docs) (w\<lparr>stdout := stdout w @ out\<rparr>)"
      by auto
    from all have td: "\<forall>d\<in>set docs. has_field d ''title'' \<and> has_field d ''document_token''"
      by (simp add: list_all_iff has_required_fields_iff)
    define w1 where "w1 = snd (dry_intro (w\<lparr>stdout := stdout w @ out\<rparr>))"
    obtain r w2 where l: "list_documents env docs w1 = (r, w2)"
      by (cases "list_documents env docs w1")
    show ?thesis
    proof (cases r)
      case None
      with l m u show ?thesis by (simp add: dry_mode_def blocks_ok w1_def)
    next
      case (Some e')
      with l m u have "e' = e" by (simp add: dry_mode_def blocks_ok w1_def)
      with l Some list_documents_error [OF td, of env w1 e] show ?thesis by simp
    qed
  qed
qed

theorem required_fields_witness:
  "files no_url_world INPUT_FILE = Some INPUT_NO_URL
   \<and> json_loads (example_env []) INPUT_NO_URL = Some (JArr [example_doc3])
   \<and> has_token no_url_world
   \<and> \<not> list_all has_required_fields [example_doc3]
   \<and> (\<exists>e. fst (main (example_env []) no_url_world) = Uncaught e)
   \<and> fst (main (example_env []) no_url_world) = Uncaught (KeyError ''url'')
   \<and> files empty_descriptor_world INPUT_FILE = Some INPUT_EMPTY_DESCRIPTOR
   \<and> json_loads (example_env []) INPUT_EMPTY_DESCRIPTOR = Some (JArr [JObj []])
   \<and> \<not> has_token empty_descriptor_world
   \<and> \<not> list_all (\<lambda>d. has_field d ''title'' \<and> has_field d ''document_token'') [JObj []]
   \<and> (\<exists>e. fst (main (example_env []) empty_descriptor_world) = Uncaught e)
   \<and> files no_url_dry_world INPUT_FILE = Some INPUT_NO_URL
   \<and> \<not> has_token no_url_dry_world
   \<and> list_all (\<lambda>d. has_field d ''title'' \<and> has_field d ''document_token''
                   \<and> encodable (field_text (example_env []) d ''title'')
                   \<and> encodable (field_text (example_env []) d ''document_token''))
        [example_doc3]
   \<and> fst (main (example_env []) no_url_dry_world) = Exit 0
   \<and> files two_docs_world INPUT_FILE = Some INPUT_TWO
   \<and> json_loads broken_env INPUT_TWO = Some (JArr [example_doc1, example_doc2])
   \<and> list_all has_required_fields [example_doc1, example_doc2]
   \<and> fst (main broken_env two_docs_world) = Uncaught (SubprocessError ''FileNotFoundError'')
   \<and> \<not> is_access_error (SubprocessError ''FileNotFoundError'')"
proof -
  have a1: "files no_url_world INPUT_FILE = Some INPUT_NO_URL"
    by code_simp
  have a2: "json_loads (example_env []) INPUT_NO_URL = Some (JArr [example_doc3])"
    by code_simp
  have a3: "has_token no_url_world \<and> \<not> list_all has_required_fields [example_doc3]"
    by code_simp
  from required_fields [OF a1 a2, THEN conjunct1, rule_format, OF a3]
  have A: "\<exists>e. fst (main (example_env []) no_url_world) = Uncaught e" .
  have A': "fst (main (example_env []) no_url_world) = Uncaught (KeyError ''url'')"
    by code_simp
  have b1: "files empty_descriptor_world INPUT_FILE = Some INPUT_EMPTY_DESCRIPTOR"
    by code_simp
  have b2: "json_loads (example_env []) INPUT_EMPTY_DESCRIPTOR = Some (JArr [JObj []])"
    by code_simp
  have b3: "\<not> has_token empty_descriptor_world
      \<and> \<not> list_all (\<lambda>d. has_field d ''title'' \<and> has_field d ''document_token'') [JObj []]"
    by code_simp
  from required_fields [OF b1 b2, THEN conjunct2, THEN conjunct1, rule_format, OF b3]
  have B: "\<exists>e. fst (main (example_env []) empty_descriptor_world) = Uncaught e" .
  have c1: "files no_url_dry_world INPUT_FILE = Some INPUT_NO_URL"
    by code_simp
  have c3: "\<not> has_token no_url_dry_world
      \<and> list_all (\<lambda>d. has_field d ''title'' \<and> has_field d ''document_token''
                   \<and> encodable (field_text (example_env []) d ''title'')
                   \<and> encodable (field_text (example_env []) d ''document_token''))
        [example_doc3]"
    by code_simp
  from required_fields [OF c1 a2, THEN conjunct2, THEN conjunct2, THEN conjunct1, rule_format, OF c3]
  have C: "fst (main (example_env []) no_url_dry_world) = Exit 0" .
  have d1: "files two_docs_world INPUT_FILE = Some INPUT_TWO"
    by code_simp
  have d2: "json_loads broken_env INPUT_TWO = Some (JArr [example_doc1, example_doc2])"
    by code_simp
  have d3: "list_all has_required_fields [example_doc1, example_doc2]"
    by code_simp
  have d4: "fst (main broken_env two_docs_world) = Uncaught (SubprocessError ''FileNotFoundError'')"
    by code_simp
  from required_fields [OF d1 d2, THEN conjunct2, THEN conjunct2, THEN conjunct2, rule_format,
                        OF d3 d4]
  have D: "\<not> is_access_error (SubprocessError ''FileNotFoundError'')" .
  from a1 a2 a3 A A' b1 b2 b3 B c1 c3 C d1 d2 d3 d4 D show ?thesis
    by (intro conjI) simp_all
qed

text \<open>
  Claim C10 as stated, for any input array, does not hold: in dry mode a descriptor
  without \<^verbatim>\<open>url\<close> raises nothing, it is listed and the run exits with status 0.
\<close>

theorem missing_url_dry_counterexample:
  "files no_url_dry_world INPUT_FILE = Some INPUT_NO_URL
   \<and> json_loads (example_env []) INPUT_NO_URL = Some (JArr [example_doc3])
   \<and> environ no_url_dry_world ''LARK_USER_ACCESS_TOKEN'' = None
   \<and> \<not> has_field example_doc3 ''url''
   \<and> fst (main (example_env []) no_url_dry_world) = Exit 0
   \<and> exit_status (fst (main (example_env []) no_url_dry_world)) = 0"
  by code_simp


section \<open>Two runs on the same input and the same responses\<close>

text \<open>
  Only the transport of the environment is used by position in the sequence of
  invocations; everything else that a run reads from the environment is the parser and
  \<^verbatim>\<open>repr\<close>.
\<close>

lemma other_transport_field [simp]:
  "field (e\<lparr>subprocess_run := t\<rparr>) = field e"
  by (simp add: fun_eq_iff field_def split: sum.splits)

lemma other_transport_lines [simp]:
  "title_line (e\<lparr>subprocess_run := t\<rparr>) = title_line e"
  "field_line (e\<lparr>subprocess_run := t\<rparr>) = field_line e"
  by (simp_all add: fun_eq_iff title_line_def field_line_def split: sum.splits)

lemma other_transport [simp]:
  "field_text (e\<lparr>subprocess_run := t\<rparr>) = field_text e"
  "fetch_argv (e\<lparr>subprocess_run := t\<rparr>) = fetch_argv e"
  "request_argv (e\<lparr>subprocess_run := t\<rparr>) = request_argv e"
  "parse_body (e\<lparr>subprocess_run := t\<rparr>) = parse_body e"
  "write_doc (e\<lparr>subprocess_run := t\<rparr>) = write_doc e"
  by (simp_all add: fun_eq_iff field_text_def fetch_argv_def request_argv_def
        parse_body_def write_doc_def split: sum.splits option.splits)

lemma other_transport_content [simp]:
  "content_of_response (e\<lparr>subprocess_run := t\<rparr>) = content_of_response e"
  by (simp add: fun_eq_iff content_of_response_def split: sum.splits option.splits)

lemma list_documents_fst:
  "fst (list_documents (e\<lparr>subprocess_run := t\<rparr>) docs wb) = fst (list_documents e docs wa)"
proof (induction docs arbitrary: wa wb)
  case Nil
  show ?case by simp
next
  case (Cons d docs)
  show ?case
    using Cons.IH
    by (auto simp: print_def split: sum.splits prod.splits option.splits)
qed

lemma dry_mode_fst:
  "fst (dry_mode (e\<lparr>subprocess_run := t\<rparr>) documents wb) = fst (dry_mode e documents wa)"
proof (cases "py_iter documents")
  case (Inl x)
  then show ?thesis by (simp add: dry_mode_def blocks_ok)
next
  case (Inr docs)
  obtain r2 vb where l2: "list_documents (e\<lparr>subprocess_run := t\<rparr>) docs (snd (dry_intro wb)) = (r2, vb)"
    by (cases "list_documents (e\<lparr>subprocess_run := t\<rparr>) docs (snd (dry_intro wb))")
  obtain r1 va where l1: "list_documents e docs (snd (dry_intro wa)) = (r1, va)"
    by (cases "list_documents e docs (snd (dry_intro wa))")
  from list_documents_fst [where e = e and t = t and docs = docs
         and wb = "snd (dry_intro wb)" and wa = "snd (dry_intro wa)"] l1 l2
  have "r2 = r1" by simp
  with Inr l1 l2 show ?thesis
    by (cases r1) (simp_all add: dry_mode_def blocks_ok)
qed

lemma fetch_one_early:
  assumes "\<not> (has_field doc ''title'' \<and> has_field doc ''document_token''
         \<and> encodable (field_text e doc ''title'')
         \<and> encodable (field_text e doc ''document_token''))"
  shows "fst (fetch_one (e\<lparr>subprocess_run := t\<rparr>) tok n i doc wb) = fst (fetch_one e tok n i doc wa)"
proof (cases "has_field doc ''title''")
  case False
  then obtain x where "py_getitem doc ''title'' = Inl x"
    using getitem_lacking by blast
  then show ?thesis by (simp add: fetch_one_def)
next
  case t: True
  then have gt: "py_getitem doc ''title'' = Inr (field_value doc ''title'')"
    by (rule getitem_field)
  show ?thesis
  proof (cases "encodable (field_text e doc ''title'')")
    case False
    then have "\<not> encodable (NL @ ''['' @ show_nat i @ ''/'' @ show_nat n @ ''] Retrieving: ''
              @ py_str (str_repr e) (field_value doc ''title''))"
      by (simp add: encodable_simps field_text_def)
    then show ?thesis by (simp add: fetch_one_def gt print_def)
  next
    case et: True
    then have p1: "encodable (NL @ ''['' @ show_nat i @ ''/'' @ show_nat n @ ''] Retrieving: ''
              @ py_str (str_repr e) (field_value doc ''title''))"
      by (simp add: encodable_simps field_text_def)
    show ?thesis
    proof (cases "has_field doc ''document_token''")
      case False
      then obtain x where "py_getitem doc ''document_token'' = Inl x"
        using getitem_lacking by blast
      with p1 show ?thesis by (simp add: fetch_one_def gt print_def)
    next
      case d: True
      then have gd: "py_getitem doc ''document_token'' = Inr (field_value doc ''document_token'')"
        by (rule getitem_field)
      from assms t et d have "\<not> encodable (field_text e doc ''document_token'')" by simp
      then have "\<not> encodable (''  Token: ''
                   @ py_str (str_repr e) (field_value doc ''document_token''))"
        by (simp add: encodable_simps field_text_def)
      with p1 show ?thesis by (simp add: fetch_one_def gt gd print_def)
    qed
  qed
qed

lemma fetch_one_cong:
  assumes "\<forall>argv. t (length (calls wb)) argv = subprocess_run e (length (calls wa)) argv"
  shows "fst (fetch_one (e\<lparr>subprocess_run := t\<rparr>) tok n i doc wb) = fst (fetch_one e tok n i doc wa)"
proof (cases "has_field doc ''title'' \<and> has_field doc ''document_token''
         \<and> encodable (field_text e doc ''title'')
         \<and> encodable (field_text e doc ''document_token'')")
  case False
  then show ?thesis by (rule fetch_one_early)
next
  case True
  then have c: "has_field doc ''title''" "has_field doc ''document_token''"
    "encodable (field_text e doc ''title'')" "encodable (field_text e doc ''document_token'')"
    by simp_all
  have c': "encodable (field_text (e\<lparr>subprocess_run := t\<rparr>) doc ''title'')"
    "encodable (field_text (e\<lparr>subprocess_run := t\<rparr>) doc ''document_token'')"
    using c(3,4) by simp_all
  from fetch_one_start [OF c, of tok n i wa] obtain out1 where
    f1: "fetch_one e tok n i doc wa =
           (case get_content_via_api e (field_value doc ''document_token'') tok
                   (wa\<lparr>stdout := stdout wa @ out1\<rparr>) of
              (Inl x, w3) \<Rightarrow> (Inl x, w3)
            | (Inr content, w3) \<Rightarrow>
                if truthy content then
                  (case py_len content of
                     Inl x \<Rightarrow> (Inl x, w3)
                   | Inr m \<Rightarrow>
                       (case print (''  '' @ CHECK_MARK @ '' Content retrieved ('' @ show_nat m
                                      @ '' characters)'') w3 of
                          (Some x, w4) \<Rightarrow> (Inl x, w4)
                        | (None, w4) \<Rightarrow> (Inr (with_content doc content), w4)))
                else
                  (case print (''  '' @ CROSS_MARK @ '' Failed to retrieve content'') w3 of
                     (Some x, w4) \<Rightarrow> (Inl x, w4)
                   | (None, w4) \<Rightarrow> (Inr (with_content doc JNull), w4)))"
    by (elim exE)
  from fetch_one_start [OF c(1,2) c', of tok n i wb] obtain out2 where
    f2: "fetch_one (e\<lparr>subprocess_run := t\<rparr>) tok n i doc wb =
           (case get_content_via_api (e\<lparr>subprocess_run := t\<rparr>)
                   (field_value doc ''document_token'') tok
                   (wb\<lparr>stdout := stdout wb @ out2\<rparr>) of
              (Inl x, w3) \<Rightarrow> (Inl x, w3)
            | (Inr content, w3) \<Rightarrow>
                if truthy content then
                  (case py_len content of
                     Inl x \<Rightarrow> (Inl x, w3)
                   | Inr m \<Rightarrow>
                       (case print (''  '' @ CHECK_MARK @ '' Content retrieved ('' @ show_nat m
                                      @ '' characters)'') w3 of
                          (Some x, w4) \<Rightarrow> (Inl x, w4)
                        | (None, w4) \<Rightarrow> (Inr (with_content doc content), w4)))
                else
                  (case print (''  '' @ CROSS_MARK @ '' Failed to retrieve content'') w3 of
                     (Some x, w4) \<Rightarrow> (Inl x, w4)
                   | (None, w4) \<Rightarrow> (Inr (with_content doc JNull), w4)))"
    by (elim exE)
  have a: "t (length (calls wb)) (request_argv e tok (field_value doc ''document_token''))
         = subprocess_run e (length (calls wa))
             (request_argv e tok (field_value doc ''document_token''))"
    using assms by blast
  show ?thesis
    unfolding f1 f2
    by (cases "subprocess_run e (length (calls wa))
                 (request_argv e tok (field_value doc ''document_token''))")
       (simp_all add: get_content_via_api_def Let_def a print_def encodable_simps
          split: sum.splits)
qed

lemma fetch_loop_cong:
  assumes "\<forall>k argv. t (length (calls wb) + k) argv = subprocess_run e (length (calls wa) + k) argv"
  shows "fst (fetch_loop (e\<lparr>subprocess_run := t\<rparr>) tok n i docs results wb)
           = fst (fetch_loop e tok n i docs results wa)"
  using assms
proof (induction docs arbitrary: i results wa wb)
  case Nil
  show ?case by simp
next
  case (Cons doc docs)
  obtain x1 va where f1: "fetch_one e tok n i doc wa = (x1, va)"
    by (cases "fetch_one e tok n i doc wa")
  obtain x2 vb where f2: "fetch_one (e\<lparr>subprocess_run := t\<rparr>) tok n i doc wb = (x2, vb)"
    by (cases "fetch_one (e\<lparr>subprocess_run := t\<rparr>) tok n i doc wb")
  have "\<forall>argv. t (length (calls wb)) argv = subprocess_run e (length (calls wa)) argv"
    using Cons.prems [rule_format, of 0] by simp
  from fetch_one_cong [where t = t and e = e and wa = wa and wb = wb, OF this, of tok n i doc]
    f1 f2
  have x: "x2 = x1" by simp
  show ?case
  proof (cases x1)
    case (Inl err)
    with f1 f2 x show ?thesis by simp
  next
    case (Inr doc')
    from fetch_one_Inr(3) [OF f1 [unfolded Inr]]
    have l1: "length (calls va) = Suc (length (calls wa))" by simp
    from fetch_one_Inr(3) [OF f2 [unfolded x Inr]]
    have l2: "length (calls vb) = Suc (length (calls wb))" by simp
    have "\<forall>k argv. t (length (calls vb) + k) argv = subprocess_run e (length (calls va) + k) argv"
    proof (intro allI)
      fix k argv
      from Cons.prems [rule_format, of "Suc k" argv]
      show "t (length (calls vb) + k) argv = subprocess_run e (length (calls va) + k) argv"
        by (simp add: l1 l2)
    qed
    from Cons.IH [where wa = va and wb = vb, OF this, of "Suc i" "results @ [doc']"] f1 f2 x Inr
    show ?thesis by simp
  qed
qed

lemma live_mode_cong:
  assumes "\<forall>k argv. t (length (calls wb) + k) argv = subprocess_run e (length (calls wa) + k) argv"
  shows "fst (live_mode (e\<lparr>subprocess_run := t\<rparr>) documents n tok wb)
           = fst (live_mode e documents n tok wa)
       \<and> ((files (snd (live_mode e documents n tok wa)) = files wa
            \<and> files (snd (live_mode (e\<lparr>subprocess_run := t\<rparr>) documents n tok wb)) = files wb)
          \<or> (\<exists>report.
                files (snd (live_mode e documents n tok wa)) = (files wa)(OUTPUT_FILE \<mapsto> report)
              \<and> files (snd (live_mode (e\<lparr>subprocess_run := t\<rparr>) documents n tok wb))
                  = (files wb)(OUTPUT_FILE \<mapsto> report)))"
proof (cases "py_iter documents")
  case (Inl x)
  then show ?thesis by (simp add: live_mode_def)
next
  case (Inr docs)
  obtain x1 va where l1: "fetch_loop e tok n 1 docs [] wa = (x1, va)"
    by (cases "fetch_loop e tok n 1 docs [] wa")
  obtain x2 vb where l2: "fetch_loop (e\<lparr>subprocess_run := t\<rparr>) tok n 1 docs [] wb = (x2, vb)"
    by (cases "fetch_loop (e\<lparr>subprocess_run := t\<rparr>) tok n 1 docs [] wb")
  from fetch_loop_cong [where t = t and e = e and wa = wa and wb = wb, OF assms,
         of tok n 1 docs "[]"] l1 l2
  have x: "x2 = x1" by simp
  from fetch_loop_frame [of e tok n 1 docs "[]" wa] l1 have fr1: "files va = files wa" by simp
  from fetch_loop_frame [of "e\<lparr>subprocess_run := t\<rparr>" tok n 1 docs "[]" wb] l2
  have fr2: "files vb = files wb" by simp
  show ?thesis
  proof (cases x1)
    case (Inl err)
    with Inr l1 l2 x fr1 fr2 show ?thesis by (simp add: live_mode_def)
  next
    case res: (Inr results)
    obtain r body where
      run: "run_all (write_banner # map (write_doc e) results) [] = (r, body)"
      by (cases "run_all (write_banner # map (write_doc e) results) []")
    have wr1: "write_report e results va = (r, va\<lparr>files := (files va)(OUTPUT_FILE \<mapsto> body)\<rparr>)"
      using run by (simp add: write_report_def)
    have wr2: "write_report (e\<lparr>subprocess_run := t\<rparr>) results vb
                 = (r, vb\<lparr>files := (files vb)(OUTPUT_FILE \<mapsto> body)\<rparr>)"
      using run by (simp add: write_report_def)
    have "fst (live_mode (e\<lparr>subprocess_run := t\<rparr>) documents n tok wb)
           = fst (live_mode e documents n tok wa)"
      using Inr l1 l2 x res wr1 wr2
      by (cases r) (simp_all add: live_mode_def blocks_ok)
    moreover have "files (snd (live_mode e documents n tok wa)) = (files wa)(OUTPUT_FILE \<mapsto> body)"
      using Inr l1 res wr1 fr1
      by (cases r) (simp_all add: live_mode_def blocks_ok)
    moreover have "files (snd (live_mode (e\<lparr>subprocess_run := t\<rparr>) documents n tok wb))
                     = (files wb)(OUTPUT_FILE \<mapsto> body)"
      using Inr l2 x res wr2 fr2
      by (cases r) (simp_all add: live_mode_def blocks_ok)
    ultimately show ?thesis by blast
  qed
qed

lemma main_cong:
  assumes "files wb INPUT_FILE = files wa INPUT_FILE"
    and "environ wb ''LARK_USER_ACCESS_TOKEN'' = environ wa ''LARK_USER_ACCESS_TOKEN''"
    and "\<forall>k argv. t (length (calls wb) + k) argv = subprocess_run e (length (calls wa) + k) argv"
  shows "fst (main (e\<lparr>subprocess_run := t\<rparr>) wb) = fst (main e wa)
       \<and> ((files (snd (main e wa)) = files wa
            \<and> files (snd (main (e\<lparr>subprocess_run := t\<rparr>) wb)) = files wb)
          \<or> (\<exists>report.
                files (snd (main e wa)) = (files wa)(OUTPUT_FILE \<mapsto> report)
              \<and> files (snd (main (e\<lparr>subprocess_run := t\<rparr>) wb))
                  = (files wb)(OUTPUT_FILE \<mapsto> report)))"
proof (cases "files wa INPUT_FILE")
  case None
  with assms(1) show ?thesis
    unfolding main_def missing_input_message_ok by simp
next
  case (Some inp)
  show ?thesis
  proof (cases "json_loads e inp")
    case None
    with Some assms(1) show ?thesis by (simp add: main_def)
  next
    case loaded: (Some documents)
    show ?thesis
    proof (cases "py_len documents")
      case (Inl x)
      with Some loaded assms(1) show ?thesis by (simp add: main_def blocks_ok)
    next
      case (Inr n)
      have in2: "files wb INPUT_FILE = Some inp" using Some assms(1) by simp
      have ld2: "json_loads (e\<lparr>subprocess_run := t\<rparr>) inp = Some documents"
        using loaded by simp
      show ?thesis
      proof (cases "has_token wa")
        case False
        then have nt2: "\<not> has_token wb" using assms(2) by (simp add: has_token_def)
        from main_dry [OF Some loaded Inr False] obtain out1 where
          m1: "main e wa = dry_mode e documents (wa\<lparr>stdout := stdout wa @ out1\<rparr>)"
          by (elim exE)
        from main_dry [OF in2 ld2 Inr nt2] obtain out2 where
          m2: "main (e\<lparr>subprocess_run := t\<rparr>) wb
                 = dry_mode (e\<lparr>subprocess_run := t\<rparr>) documents (wb\<lparr>stdout := stdout wb @ out2\<rparr>)"
          by (elim exE)
        from dry_mode_fst [where e = e and t = t and documents = documents
                             and wb = "wb\<lparr>stdout := stdout wb @ out2\<rparr>"
                             and wa = "wa\<lparr>stdout := stdout wa @ out1\<rparr>"]
             dry_mode_frame [of e documents "wa\<lparr>stdout := stdout wa @ out1\<rparr>"]
             dry_mode_frame [of "e\<lparr>subprocess_run := t\<rparr>" documents
                               "wb\<lparr>stdout := stdout wb @ out2\<rparr>"]
        show ?thesis unfolding m1 m2 by simp
      next
        case True
        then obtain tok where tok: "environ wa ''LARK_USER_ACCESS_TOKEN'' = Some tok" "tok \<noteq> []"
          by (auto simp: has_token_iff)
        then have tok2: "environ wb ''LARK_USER_ACCESS_TOKEN'' = Some tok"
          using assms(2) by simp
        from main_live [OF Some loaded Inr tok] obtain out1 where
          m1: "main e wa = live_mode e documents n tok (wa\<lparr>stdout := stdout wa @ out1\<rparr>)"
          by (elim exE)
        from main_live [OF in2 ld2 Inr tok2 tok(2)] obtain out2 where
          m2: "main (e\<lparr>subprocess_run := t\<rparr>) wb
                 = live_mode (e\<lparr>subprocess_run := t\<rparr>) documents n tok
                     (wb\<lparr>stdout := stdout wb @ out2\<rparr>)"
          by (elim exE)
        have a: "\<forall>k argv. t (length (calls (wb\<lparr>stdout := stdout wb @ out2\<rparr>)) + k) argv
                   = subprocess_run e (length (calls (wa\<lparr>stdout := stdout wa @ out1\<rparr>)) + k) argv"
          using assms(3) by simp
        from live_mode_cong [where t = t and e = e
               and wa = "wa\<lparr>stdout := stdout wa @ out1\<rparr>"
               and wb = "wb\<lparr>stdout := stdout wb @ out2\<rparr>", OF a, of documents n tok]
        show ?thesis unfolding m1 m2 by simp
      qed
    qed
  qed
qed

text \<open>
  Claim C8. Take two runs that read the same input file and the same credential, with
  the same parser and \<^verbatim>\<open>repr\<close>, and whose transports give the same responses invocation
  by invocation (each run counting from its own first invocation). Then both runs end in
  the same way, and either neither writes a report or both write the same report, byte
  for byte. In particular, when the second run starts from the files that the first run
  left, it leaves the files exactly as it found them.
\<close>

theorem pipeline_deterministic:
  assumes "files w2 INPUT_FILE = files w1 INPUT_FILE"
    and "environ w2 ''LARK_USER_ACCESS_TOKEN'' = environ w1 ''LARK_USER_ACCESS_TOKEN''"
    and "json_loads env2 = json_loads env1"
    and "str_repr env2 = str_repr env1"
    and "\<forall>k argv. subprocess_run env2 (length (calls w2) + k) argv
                   = subprocess_run env1 (length (calls w1) + k) argv"
  shows "fst (main env2 w2) = fst (main env1 w1)
       \<and> ((files (snd (main env1 w1)) = files w1 \<and> files (snd (main env2 w2)) = files w2)
          \<or> (\<exists>report.
                files (snd (main env1 w1)) = (files w1)(OUTPUT_FILE \<mapsto> report)
              \<and> files (snd (main env2 w2)) = (files w2)(OUTPUT_FILE \<mapsto> report)))
       \<and> (files w2 = files (snd (main env1 w1))
            \<longrightarrow> files (snd (main env2 w2)) = files (snd (main env1 w1)))"
proof -
  have e2: "env2 = env1\<lparr>subprocess_run := subprocess_run env2\<rparr>"
    using assms(3,4) by (intro env.equality) simp_all
  note c = main_cong [where e = env1 and t = "subprocess_run env2" and wa = w1 and wb = w2,
                      OF assms(1,2,5), folded e2]
  from c have A: "fst (main env2 w2) = fst (main env1 w1)" by (rule conjunct1)
  from c have B: "(files (snd (main env1 w1)) = files w1 \<and> files (snd (main env2 w2)) = files w2)
          \<or> (\<exists>report.
                files (snd (main env1 w1)) = (files w1)(OUTPUT_FILE \<mapsto> report)
              \<and> files (snd (main env2 w2)) = (files w2)(OUTPUT_FILE \<mapsto> report))"
    by (rule conjunct2)
  have C: "files w2 = files (snd (main env1 w1))
            \<longrightarrow> files (snd (main env2 w2)) = files (snd (main env1 w1))"
  proof
    assume s: "files w2 = files (snd (main env1 w1))"
    from B show "files (snd (main env2 w2)) = files (snd (main env1 w1))"
    proof
      assume "files (snd (main env1 w1)) = files w1 \<and> files (snd (main env2 w2)) = files w2"
      with s show ?thesis by simp
    next
      assume "\<exists>report.
                files (snd (main env1 w1)) = (files w1)(OUTPUT_FILE \<mapsto> report)
              \<and> files (snd (main env2 w2)) = (files w2)(OUTPUT_FILE \<mapsto> report)"
      then obtain report where
        r: "files (snd (main env1 w1)) = (files w1)(OUTPUT_FILE \<mapsto> report)"
           "files (snd (main env2 w2)) = (files w2)(OUTPUT_FILE \<mapsto> report)"
        by (elim exE conjE)
      from r(2) s r(1) show ?thesis by simp
    qed
  qed
  from A B C show ?thesis by (intro conjI)
qed

theorem pipeline_deterministic_witness:
  "files (snd (main hello_env one_doc_world)) INPUT_FILE = files one_doc_world INPUT_FILE
   \<and> environ (snd (main hello_env one_doc_world)) ''LARK_USER_ACCESS_TOKEN''
       = environ one_doc_world ''LARK_USER_ACCESS_TOKEN''
   \<and> json_loads rerun_env = json_loads hello_env
   \<and> str_repr rerun_env = str_repr hello_env
   \<and> length (calls (snd (main hello_env one_doc_world))) = 1
   \<and> length (calls one_doc_world) = 0
   \<and> subprocess_run rerun_env 1 = subprocess_run hello_env 0
   \<and> fst (main hello_env one_doc_world) = Exit 0
   \<and> fst (main rerun_env (snd (main hello_env one_doc_world))) = Exit 0
   \<and> files (snd (main rerun_env (snd (main hello_env one_doc_world))))
       = files (snd (main hello_env one_doc_world))
   \<and> files (snd (main hello_env one_doc_world)) OUTPUT_FILE =
       Some (replicate 80 CHR ''='' @ [CHR 0x0A] @ ''LARK WIKI DOCUMENTS - WITH CONTENT''
               @ [CHR 0x0A] @ replicate 80 CHR ''='' @ [CHR 0x0A, CHR 0x0A]
             @ [CHR 0xF0, CHR 0x9F, CHR 0x93, CHR 0x84] @ '' DOCUMENT 1: Home'' @ [CHR 0x0A]
             @ ''   Level: 0'' @ [CHR 0x0A]
             @ ''   Node Token: n1'' @ [CHR 0x0A]
             @ ''   Document Token: d1'' @ [CHR 0x0A]
             @ ''   URL: u1'' @ [CHR 0x0A, CHR 0x0A]
             @ replicate 80 CHR ''-'' @ [CHR 0x0A, CHR 0x0A]
             @ ''hello'' @ [CHR 0x0A, CHR 0x0A]
             @ replicate 80 CHR ''-'' @ [CHR 0x0A, CHR 0x0A])"
proof -
  have h1: "files (snd (main hello_env one_doc_world)) INPUT_FILE = files one_doc_world INPUT_FILE"
    by code_simp
  have h2: "environ (snd (main hello_env one_doc_world)) ''LARK_USER_ACCESS_TOKEN''
       = environ one_doc_world ''LARK_USER_ACCESS_TOKEN''"
    by code_simp
  have h3: "json_loads rerun_env = json_loads hello_env"
    by (simp add: rerun_env_def hello_env_def example_env_def)
  have h4: "str_repr rerun_env = str_repr hello_env"
    by (simp add: rerun_env_def hello_env_def example_env_def)
  have l2: "length (calls (snd (main hello_env one_doc_world))) = 1"
    by code_simp
  have l1: "length (calls one_doc_world) = 0"
    by code_simp
  have s: "\<And>k argv. subprocess_run rerun_env (Suc k) argv = subprocess_run hello_env k argv"
    by (simp add: rerun_env_def hello_env_def example_env_def scripted_def)
  have h5: "\<forall>k argv. subprocess_run rerun_env
                       (length (calls (snd (main hello_env one_doc_world))) + k) argv
                   = subprocess_run hello_env (length (calls one_doc_world) + k) argv"
    by (simp add: l1 l2 s)
  have s0: "subprocess_run rerun_env 1 = subprocess_run hello_env 0"
    using s [of 0] by (simp add: fun_eq_iff)
  note t = pipeline_deterministic [OF h1 h2 h3 h4 h5]
  have e: "fst (main hello_env one_doc_world) = Exit 0"
    by code_simp
  from t e have A: "fst (main rerun_env (snd (main hello_env one_doc_world))) = Exit 0"
    by simp
  from t have B: "files (snd (main rerun_env (snd (main hello_env one_doc_world))))
       = files (snd (main hello_env one_doc_world))"
    by simp
  have C: "files (snd (main hello_env one_doc_world)) OUTPUT_FILE =
       Some (replicate 80 CHR ''='' @ [CHR 0x0A] @ ''LARK WIKI DOCUMENTS - WITH CONTENT''
               @ [CHR 0x0A] @ replicate 80 CHR ''='' @ [CHR 0x0A, CHR 0x0A]
             @ [CHR 0xF0, CHR 0x9F, CHR 0x93, CHR 0x84] @ '' DOCUMENT 1: Home'' @ [CHR 0x0A]
             @ ''   Level: 0'' @ [CHR 0x0A]
             @ ''   Node Token: n1'' @ [CHR 0x0A]
             @ ''   Document Token: d1'' @ [CHR 0x0A]
             @ ''   URL: u1'' @ [CHR 0x0A, CHR 0x0A]
             @ replicate 80 CHR ''-'' @ [CHR 0x0A, CHR 0x0A]
             @ ''hello'' @ [CHR 0x0A, CHR 0x0A]
             @ replicate 80 CHR ''-'' @ [CHR 0x0A, CHR 0x0A])"
    by code_simp
  from h1 h2 h3 h4 l2 l1 s0 e A B C show ?thesis by (intro conjI)
qed


end
